theory Spec2Isabelle
  imports Complex_Main "HOL-Library.Product_Lexorder"
begin

section \<open>Python-level conventions\<close>

text \<open>
  Exceptions of the Python code are values: a function that can raise returns
  \<open>exn + 'a\<close>, with \<open>Inl\<close> carrying the exception.
\<close>

datatype exn =
    ValueError
  | TypeError
  | IndexError
  | AssertionError
  | NotImplementedError
  | AttributeError
  | ZeroDivisionError
  | InvalidArgumentError
  | OverflowError

fun then_do :: "exn + 'a \<Rightarrow> ('a \<Rightarrow> exn + 'b) \<Rightarrow> exn + 'b" where
  "then_do (Inl e) f = Inl e"
| "then_do (Inr x) f = f x"

text \<open>Evaluating a list of computations from left to right; the first exception wins.\<close>

fun in_order :: "(exn + 'a) list \<Rightarrow> exn + 'a list" where
  "in_order [] = Inr []"
| "in_order (c # cs) = then_do c (\<lambda>x. then_do (in_order cs) (\<lambda>xs. Inr (x # xs)))"

text \<open>The builtin \<open>max\<close> over an iterable: \<open>ValueError\<close> on an empty one.\<close>

fun py_max :: "nat list \<Rightarrow> exn + nat" where
  "py_max [] = Inl ValueError"
| "py_max (x # xs) = Inr (fold max xs x)"

section \<open>Floating-point values of numpy\<close>

text \<open>
  Scores are numpy floats. The model keeps the special values the code produces on
  purpose (\<open>float('-inf')\<close> for a token the language model does not know) or by
  arithmetic (a division by zero, \<open>inf - inf\<close>), and idealises every finite value as a
  real number: rounding and overflow are not modelled.
\<close>

datatype npfloat = Fin real | PInf | NInf | NaN

fun np_neg :: "npfloat \<Rightarrow> npfloat" where
  "np_neg (Fin x) = Fin (- x)"
| "np_neg PInf = NInf"
| "np_neg NInf = PInf"
| "np_neg NaN = NaN"

fun np_add :: "npfloat \<Rightarrow> npfloat \<Rightarrow> npfloat" where
  "np_add NaN y = NaN"
| "np_add x NaN = NaN"
| "np_add (Fin x) (Fin y) = Fin (x + y)"
| "np_add PInf NInf = NaN"
| "np_add NInf PInf = NaN"
| "np_add PInf y = PInf"
| "np_add NInf y = NInf"
| "np_add (Fin x) y = y"

definition np_sub :: "npfloat \<Rightarrow> npfloat \<Rightarrow> npfloat" where
  "np_sub x y = np_add x (np_neg y)"

text \<open>The sign of a value, as far as products and quotients need it.\<close>

fun np_sign :: "npfloat \<Rightarrow> int" where
  "np_sign (Fin x) = (if x < 0 then - 1 else if x = 0 then 0 else 1)"
| "np_sign PInf = 1"
| "np_sign NInf = - 1"
| "np_sign NaN = 0"

definition np_inf :: "int \<Rightarrow> npfloat" where
  "np_inf s = (if s < 0 then NInf else PInf)"

fun np_mul :: "npfloat \<Rightarrow> npfloat \<Rightarrow> npfloat" where
  "np_mul NaN y = NaN"
| "np_mul x NaN = NaN"
| "np_mul (Fin x) (Fin y) = Fin (x * y)"
| "np_mul x y = (if np_sign x = 0 \<or> np_sign y = 0 then NaN else np_inf (np_sign x * np_sign y))"

text \<open>
  Division of floats never raises: a finite non-zero value over zero is an infinity, zero
  over zero and infinity over infinity are \<open>nan\<close>. (Every zero divisor in this code is a
  length or a sum, so the zero is the positive one.)
\<close>

fun np_div :: "npfloat \<Rightarrow> npfloat \<Rightarrow> npfloat" where
  "np_div NaN y = NaN"
| "np_div x NaN = NaN"
| "np_div (Fin x) (Fin y) =
     (if y \<noteq> 0 then Fin (x / y) else if x = 0 then NaN else np_inf (np_sign (Fin x)))"
| "np_div (Fin x) y = Fin 0"
| "np_div x (Fin y) = np_inf (np_sign x * (if y < 0 then - 1 else 1))"
| "np_div x y = NaN"

text \<open>\<open>np.log\<close> of a probability: \<open>-inf\<close> at zero (the code's FIXME), \<open>nan\<close> below.\<close>

definition np_log :: "real \<Rightarrow> npfloat" where
  "np_log p = (if 0 < p then Fin (ln p) else if p = 0 then NInf else NaN)"

fun np_exp :: "npfloat \<Rightarrow> npfloat" where
  "np_exp (Fin x) = Fin (exp x)"
| "np_exp PInf = PInf"
| "np_exp NInf = Fin 0"
| "np_exp NaN = NaN"

definition np_sum :: "npfloat list \<Rightarrow> npfloat" where
  "np_sum xs = foldl np_add (Fin 0) xs"

text \<open>
  \<open>np.argsort\<close> orders \<open>-inf\<close>, the finite values, \<open>inf\<close>, and \<open>nan\<close> last. The model
  sorts stably; numpy's default sort leaves the order of equal scores open, and nothing
  proved below depends on it.
\<close>

fun sort_rank :: "npfloat \<Rightarrow> nat \<times> real" where
  "sort_rank NInf = (0, 0)"
| "sort_rank (Fin x) = (1, x)"
| "sort_rank PInf = (2, 0)"
| "sort_rank NaN = (3, 0)"

definition argsort :: "npfloat list \<Rightarrow> nat list" where
  "argsort xs = sort_key (\<lambda>k. sort_rank (xs ! k)) [0..<length xs]"

text \<open>Python slices \<open>xs[:n]\<close> and \<open>xs[n:]\<close> for an integer \<open>n\<close> of either sign.\<close>

definition slice_to :: "'a list \<Rightarrow> int \<Rightarrow> 'a list" where
  "slice_to xs n = (if 0 \<le> n then take (nat n) xs else take (length xs - nat (- n)) xs)"

definition slice_from :: "'a list \<Rightarrow> int \<Rightarrow> 'a list" where
  "slice_from xs n = (if 0 \<le> n then drop (nat n) xs else drop (length xs - nat (- n)) xs)"

text \<open>
  \<open>for a, b in zip(xs, ys): update a with b\<close>, where the elements of \<open>xs\<close> are updated in
  place: the elements beyond the shorter list stay as they are.
\<close>

fun for_zip :: "('a \<Rightarrow> 'b \<Rightarrow> 'a) \<Rightarrow> 'a list \<Rightarrow> 'b list \<Rightarrow> 'a list" where
  "for_zip f (x # xs) (y # ys) = f x y # for_zip f xs ys"
| "for_zip f xs ys = xs"

section \<open>Configuration and batches (\<open>seq2seq_model.py\<close>)\<close>

text \<open>
  The module \<open>translate.utils\<close> is not part of the sources; the two constants the code
  reads from it are parameters of the model.
\<close>

record utils =
  BOS_ID :: int
  EOS_ID :: int

record encoder_config =
  name :: string
  vocab_size :: nat
  embedding_size :: nat
  cell_size :: nat
  layers :: nat
  use_lstm :: bool
  bidir :: bool
  binary :: bool
  attention_filters :: nat
  attention_window_size :: nat

text \<open>
  An element of an encoder input sequence is a token id, or a vector when the encoder
  takes binary (pre-vectorised) input.
\<close>

datatype item = Token int | Vector "real list"

text \<open>
  A sample \<open>data_\<close> is the list of its source sentences followed by the target sentence:
  the pair below is \<open>(*src_sentences, trg_sentence)\<close>. \<open>data_[i]\<close> reads a source
  sentence, or the target when \<open>i\<close> is the index of the last entry, and raises
  \<open>IndexError\<close> beyond it.
\<close>

type_synonym sample = "item list list \<times> int list"

definition data_len :: "sample \<Rightarrow> nat \<Rightarrow> exn + nat" where
  "data_len data' i =
     (if i < length (fst data') then Inr (length (fst data' ! i))
      else if i = length (fst data') then Inr (length (snd data'))
      else Inl IndexError)"

record model_config =
  encoders :: "encoder_config list"
  trg_vocab_size :: nat
  max_output_len :: nat
  max_input_len :: "nat option"
  lm_weight :: "real option"
  len_normalization :: real

definition encoder_count :: "model_config \<Rightarrow> nat" where
  "encoder_count M = length (encoders M)"

subsection \<open>\<open>get_batch\<close>\<close>

text \<open>Lines 533-537: the maximum lengths of this batch.\<close>

definition batch_max_input_len :: "model_config \<Rightarrow> sample list \<Rightarrow> exn + nat list" where
  "batch_max_input_len M data =
     then_do
       (in_order (map (\<lambda>i. then_do (in_order (map (\<lambda>data'. data_len data' i) data)) py_max)
                      [0..<encoder_count M]))
       (\<lambda>lens. Inr (case max_input_len M of
                       None \<Rightarrow> lens
                     | Some cap \<Rightarrow> map (\<lambda>len'. min len' cap) lens))"

definition batch_max_output_len :: "model_config \<Rightarrow> sample list \<Rightarrow> exn + nat" where
  "batch_max_output_len M data =
     then_do (py_max (map (\<lambda>data'. length (snd data')) data))
       (\<lambda>m. Inr (min m (max_output_len M)))"

text \<open>Lines 541-553: one source sentence of one sample, padded, with its length.\<close>

definition encoder_pad_item :: "utils \<Rightarrow> encoder_config \<Rightarrow> item" where
  "encoder_pad_item U encoder =
     (if binary encoder then Vector (replicate (embedding_size encoder) 0)
      else Token (EOS_ID U))"

definition encoder_row :: "utils \<Rightarrow> encoder_config \<Rightarrow> nat \<Rightarrow> item list \<Rightarrow> item list \<times> nat" where
  "encoder_row U encoder m src_sentence =
     (let pad = encoder_pad_item U encoder;
          src_sentence' = take m src_sentence;
          encoder_pad = replicate (1 + m - length src_sentence') pad
      in (src_sentence' @ encoder_pad, length src_sentence' + 1))"

text \<open>
  The inner loop over \<open>enumerate(zip(self.encoders, src_sentences))\<close>: the rows a sample
  contributes, one for each encoder that has a source sentence in it.
\<close>

definition sample_rows ::
  "utils \<Rightarrow> model_config \<Rightarrow> nat list \<Rightarrow> sample \<Rightarrow> (item list \<times> nat) list" where
  "sample_rows U M max_len data' =
     map (\<lambda>(i, encoder, src_sentence). encoder_row U encoder (max_len ! i) src_sentence)
         (zip [0..<length (encoders M)] (zip (encoders M) (fst data')))"

text \<open>Lines 555-563: the decoder side of one sample, with its length.\<close>

definition decoder_row ::
  "utils \<Rightarrow> model_config \<Rightarrow> nat \<Rightarrow> bool \<Rightarrow> int list \<Rightarrow> int list \<times> nat" where
  "decoder_row U M m decoding trg_sentence =
     (let trg_sentence' = take m trg_sentence in
      if decoding then
        (BOS_ID U # replicate (max_output_len M) (EOS_ID U), max_output_len M)
      else
        (let decoder_pad_size = m - length trg_sentence' in
         (BOS_ID U # trg_sentence' @ [EOS_ID U] @ replicate decoder_pad_size (- 1),
          length trg_sentence' + 1)))"

text \<open>
  Lines 566-571 convert the lists with \<open>np.array(..., dtype=...)\<close>. What numpy does there
  that the code does not spell out:

  \<^item> \<open>dtype=np.int32\<close> on Python integers: the integer is read as a C \<open>long\<close> (64 bits;
    \<open>OverflowError\<close> outside it) and cast to 32 bits, keeping the low 32 bits in two's
    complement. (This is the numpy of the code's time; it does not raise inside the 64-bit
    range.) A vector among integers raises \<open>ValueError\<close>.
  \<^item> \<open>dtype=np.float32\<close>: when every element is a vector, all of one size, the array has
    three dimensions; otherwise it has two, a Python integer is converted to a float
    (\<open>OverflowError\<close> when it is too large for a Python float), and a vector raises
    \<open>ValueError\<close>. The rounding of a number to \<open>float32\<close>, overflow to an infinity
    included, is the parameter \<open>float32\<close>.
  \<^item> no dtype (the decoder side): numpy's default integer type, 64 bits wide, which holds
    the ids as they are. The model keeps them as integers and does not bound them.

  The rows \<open>get_batch\<close> passes have all the same length, and a row of a token encoder
  ends with a token: ragged rows, and rows of vectors under \<open>np.int32\<close>, do not arise.
\<close>

record numpy =
  float32 :: "real \<Rightarrow> npfloat"

datatype ndarray =
    Int32_array "int list list"
  | Float32_array "npfloat list list"
  | Float32_array3 "npfloat list list list"

definition int32 :: "int \<Rightarrow> int" where
  "int32 n = (n + 2 ^ 31) mod 2 ^ 32 - 2 ^ 31"

definition in_c_long :: "int \<Rightarrow> bool" where
  "in_c_long n \<longleftrightarrow> - (2 ^ 63) \<le> n \<and> n < 2 ^ 63"

definition to_int32 :: "int \<Rightarrow> exn + int" where
  "to_int32 n = (if in_c_long n then Inr (int32 n) else Inl OverflowError)"

fun item_int32 :: "item \<Rightarrow> exn + int" where
  "item_int32 (Token n) = to_int32 n"
| "item_int32 (Vector v) = Inl ValueError"

fun item_float32 :: "numpy \<Rightarrow> item \<Rightarrow> exn + npfloat" where
  "item_float32 P (Token n) =
     (if \<bar>n\<bar> < 2 ^ 1024 - 2 ^ 970 then Inr (float32 P (of_int n)) else Inl OverflowError)"
| "item_float32 P (Vector v) = Inl ValueError"

fun is_vector :: "item \<Rightarrow> bool" where
  "is_vector (Vector v) = True"
| "is_vector (Token n) = False"

fun vector_of :: "item \<Rightarrow> real list" where
  "vector_of (Vector v) = v"
| "vector_of (Token n) = []"

definition np_array :: "numpy \<Rightarrow> bool \<Rightarrow> item list list \<Rightarrow> exn + ndarray" where
  "np_array P as_float rows =
     (if \<not> as_float then
        then_do (in_order (map (\<lambda>row. in_order (map item_int32 row)) rows))
          (\<lambda>a. Inr (Int32_array a))
      else if concat rows \<noteq> [] \<and> list_all is_vector (concat rows)
              \<and> list_all (\<lambda>x. length (vector_of x) = length (vector_of (hd (concat rows))))
                   (concat rows)
      then Inr (Float32_array3 (map (map (\<lambda>x. map (float32 P) (vector_of x))) rows))
      else
        then_do (in_order (map (\<lambda>row. in_order (map (item_float32 P) row)) rows))
          (\<lambda>a. Inr (Float32_array a)))"

text \<open>
  Lines 59 and 99: the names of the encoders, and of the binary ones. The dtype of an
  encoder's array is chosen by its name (line 569).
\<close>

definition encoder_names :: "model_config \<Rightarrow> string list" where
  "encoder_names M = map name (encoders M)"

definition binary_input :: "model_config \<Rightarrow> string list" where
  "binary_input M = map name (filter binary (encoders M))"

text \<open>
  The result of \<open>get_batch\<close>, in the order of the returned tuple. The decoder arrays are
  time-major (lines 574-576); padding is marked \<open>-1\<close> until the weights are computed,
  then overwritten (lines 578-579).
\<close>

record batch =
  batch_encoder_inputs :: "ndarray list"
  batch_decoder_inputs :: "int list list"
  batch_targets :: "int list list"
  batch_weights :: "real list list"
  encoder_input_length :: "int list list"
  decoder_input_length :: "int list"

definition replace_pad :: "utils \<Rightarrow> int list list \<Rightarrow> int list list" where
  "replace_pad U a = map (map (\<lambda>x. if x = - 1 then EOS_ID U else x)) a"

definition get_batch ::
  "utils \<Rightarrow> numpy \<Rightarrow> model_config \<Rightarrow> sample list \<Rightarrow> bool \<Rightarrow> exn + batch" where
  "get_batch U P M data decoding =
     then_do (batch_max_input_len M data) (\<lambda>max_in.
     then_do (batch_max_output_len M data) (\<lambda>max_out.
       (let rows = map (sample_rows U M max_in) data;
            enc_of = (\<lambda>i. [r ! i. r \<leftarrow> rows, i < length r]);
            decoder_rows = map (\<lambda>data'. decoder_row U M max_out decoding (snd data')) data
        in then_do
             (in_order (map (\<lambda>i. in_order (map (\<lambda>r. to_int32 (int (snd r))) (enc_of i)))
                            [0..<encoder_count M]))
             (\<lambda>encoder_input_length'.
        then_do (in_order (map (\<lambda>r. to_int32 (int (snd r))) decoder_rows))
             (\<lambda>decoder_input_length'.
        then_do
             (in_order (map (\<lambda>(ext, i). np_array P (ext \<in> set (binary_input M))
                                            (map fst (enc_of i)))
                            (zip (encoder_names M) [0..<encoder_count M])))
             (\<lambda>batch_encoder_inputs'.
                (let decoder_inputs = map fst decoder_rows;
                     inputs_T = transpose (map butlast decoder_inputs);
                     targets_T = transpose (map tl decoder_inputs)
                 in Inr \<lparr> batch_encoder_inputs = batch_encoder_inputs',
                          batch_decoder_inputs = replace_pad U inputs_T,
                          batch_targets = replace_pad U targets_T,
                          batch_weights = map (map (\<lambda>x. if x \<noteq> - 1 then 1 else 0)) targets_T,
                          encoder_input_length = encoder_input_length',
                          decoder_input_length = decoder_input_length' \<rparr>)))))))"
section \<open>Beam search (\<open>Seq2SeqModel.beam_search_decoding\<close>)\<close>

text \<open>
  A session evaluates the network. The three calls of \<open>session.run\<close> in the function
  are three functions of the values fed; the tensors themselves are not modelled, a batch
  is the list of its rows.
\<close>

record ('st, 'o, 'a) beam_feed =
  feed_state :: "'st list"
  feed_decoder_inputs :: "int list list"
  feed_decoder_input_length :: "nat list"
  feed_encoder_input_length :: "int list list"
  feed_output :: "'o list option"
  feed_attention_states :: "'a list list"

record ('st, 'o) beam_output =
  new_output :: "'o list"
  decoder_output :: "real list list"
  decoder_state :: "'st list"

record ('st, 'o, 'a, 'es) session =
  run_encoders :: "int list list \<Rightarrow> ndarray list \<Rightarrow> 'es \<times> 'a list list"
  run_initial_state :: "'es \<Rightarrow> 'st list"
  run_beam_step :: "('st, 'o, 'a) beam_feed \<Rightarrow> ('st, 'o) beam_output"

text \<open>The variables of the decoding loop.\<close>

record ('st, 'o) beam =
  hypotheses :: "int list list"
  scores :: "npfloat list"
  state :: "'st list list"
  "output" :: "'o list list option"
  decoder_input :: "int list"
  beam_size :: int
  finished_hypotheses :: "int list list"
  finished_scores :: "npfloat list"

text \<open>
  Lines 395-415, the feeds of one time step. The loop over the encoders at lines 406-407
  reuses the name \<open>i\<close> of the time-step counter: when it runs, \<open>i\<close> is left at the last
  encoder index, and that is the value the test \<open>i > 0\<close> at line 409 reads. With
  \<open>output = None\<close>, as it is before the first step, \<open>zip(input_feed, output)\<close> raises
  \<open>TypeError\<close>.
\<close>

definition index_at_guard :: "nat \<Rightarrow> nat \<Rightarrow> nat \<Rightarrow> nat" where
  "index_at_guard n_feeds n_encoders time =
     (if 0 < n_feeds \<and> 0 < n_encoders then n_encoders - 1 else time)"

definition beam_input_feed ::
  "model_config \<Rightarrow> int list list \<Rightarrow> 'a list list list \<Rightarrow> nat \<Rightarrow> ('st, 'o) beam
     \<Rightarrow> exn + ('st, 'o, 'a) beam_feed list" where
  "beam_input_feed M enc_length attn_states time s =
     (let batch_size = length (decoder_input s);
          input_feed = map (\<lambda>state'.
             \<lparr> feed_state = state',
               feed_decoder_inputs = [decoder_input s],
               feed_decoder_input_length = replicate batch_size 1,
               feed_encoder_input_length = [],
               feed_output = None,
               feed_attention_states = [] \<rparr>) (state s);
          input_feed = map (\<lambda>feed.
             feed \<lparr> feed_encoder_input_length :=
                      map (\<lambda>i. enc_length ! i) [0..<encoder_count M] \<rparr>) input_feed;
          i = index_at_guard (length input_feed) (encoder_count M) time
      in then_do
           (if 0 < i then
              (case output s of
                 None \<Rightarrow> Inl TypeError
               | Some out \<Rightarrow>
                   Inr (for_zip (\<lambda>feed output'. feed \<lparr> feed_output := Some output' \<rparr>)
                          input_feed out))
            else Inr input_feed)
           (\<lambda>input_feed.
              Inr (for_zip (\<lambda>feed attn_states'.
                     feed \<lparr> feed_attention_states :=
                              map (\<lambda>i. concat (map (replicate batch_size) (attn_states' ! i)))
                                  [0..<encoder_count M] \<rparr>)
                     input_feed attn_states)))"

text \<open>
  Lines 435-463. With a language model, one row of scores per hypothesis: \<open>-inf\<close> for a
  token that is no unigram of the model and for \<open>BOS\<close>, else the estimate of
  \<open>utils.estimate_lm_score\<close> (a parameter: its module is not part of the sources) on the
  last \<open>lm_order - 1\<close> tokens of \<open>BOS\<close> and the hypothesis, followed by the token.
\<close>

definition lm_score_row ::
  "utils \<Rightarrow> model_config \<Rightarrow> (int list \<Rightarrow> (int list \<rightharpoonup> 'v) list \<Rightarrow> npfloat)
     \<Rightarrow> (int list \<rightharpoonup> 'v) list \<Rightarrow> int list \<Rightarrow> exn + npfloat list" where
  "lm_score_row U M estimate_lm_score ngrams hypothesis =
     (let lm_order = length ngrams;
          hypothesis' = BOS_ID U # hypothesis;
          history = slice_from hypothesis' (1 - int lm_order)
      in in_order (map (\<lambda>token_id.
            (case ngrams of
               [] \<Rightarrow> Inl IndexError
             | unigrams # _ \<Rightarrow>
                 Inr (if unigrams [token_id] = None then NInf
                      else if token_id = BOS_ID U then NInf
                      else estimate_lm_score (history @ [token_id]) ngrams)))
            (map int [0..<trg_vocab_size M])))"

definition effective_lm_weight :: "model_config \<Rightarrow> real" where
  "effective_lm_weight M =
     (case lm_weight M of None \<Rightarrow> 0.2 | Some w \<Rightarrow> if w = 0 then 0.2 else w)"

text \<open>
  \<open>np.average(a, axis=0, weights)\<close> over a list of matrices, read at \<open>rows \<times> cols\<close>
  entries. A matrix of one row is broadcast to every row. Without weights the result is
  the sum over the list divided by its length, and numpy goes on to divide the size of
  \<open>a\<close> by the size of the result (\<open>a.size/avg.size\<close>): \<open>ZeroDivisionError\<close> when the
  result has no entry, as it is when no hypothesis is live. With weights the result is
  the weighted sum divided by the sum of the weights, and \<open>ZeroDivisionError\<close> when that
  sum is zero; an empty result raises nothing there.
\<close>

definition broadcast_row :: "'x list \<Rightarrow> nat \<Rightarrow> 'x" where
  "broadcast_row m r = (if length m = 1 then m ! 0 else m ! r)"

definition np_average ::
  "npfloat list list list \<Rightarrow> real list option \<Rightarrow> nat \<Rightarrow> nat \<Rightarrow> exn + npfloat list list" where
  "np_average a weights rows cols =
     (case weights of
        None \<Rightarrow>
          if rows * cols = 0 then Inl ZeroDivisionError
          else Inr (map (\<lambda>r. map (\<lambda>v.
                 np_div (np_sum (map (\<lambda>m. broadcast_row m r ! v) a))
                        (Fin (real (length a)))) [0..<cols]) [0..<rows])
      | Some w \<Rightarrow>
          (let scl = sum_list w in
           if scl = 0 then Inl ZeroDivisionError
           else Inr (map (\<lambda>r. map (\<lambda>v.
                  np_div (np_sum (map (\<lambda>(m, wk). np_mul (broadcast_row m r ! v) (Fin wk))
                                      (zip a w)))
                         (Fin scl)) [0..<cols]) [0..<rows])))"

text \<open>
  Lines 435-468: the flattened scores of all \<open>|live| \<times> |vocab|\<close> candidates. Without a
  language model \<open>lm_score\<close> is one row of zeros and \<open>weights\<close> is \<open>None\<close>, so the row
  of zeros is one more element of the plain average.
\<close>

definition candidate_scores ::
  "utils \<Rightarrow> model_config \<Rightarrow> nat \<Rightarrow> (int list \<Rightarrow> (int list \<rightharpoonup> 'v) list \<Rightarrow> npfloat)
     \<Rightarrow> (int list \<rightharpoonup> 'v) list option \<Rightarrow> int list list \<Rightarrow> npfloat list
     \<Rightarrow> real list list list \<Rightarrow> exn + npfloat list" where
  "candidate_scores U M n_sessions estimate_lm_score ngrams hyps scores' decoder_outputs =
     then_do
       (case ngrams of
          Some ng \<Rightarrow>
            then_do (in_order (map (lm_score_row U M estimate_lm_score ng) hyps))
              (\<lambda>lm_score.
                 (let lm_w = effective_lm_weight M in
                  Inr (lm_score,
                       Some (replicate n_sessions ((1 - lm_w) / real n_sessions) @ [lm_w]))))
        | None \<Rightarrow> Inr ([replicate (trg_vocab_size M) (Fin 0)], None))
       (\<lambda>(lm_score, weights).
          then_do
            (np_average (map (map (map np_log)) decoder_outputs @ [lm_score]) weights
               (length scores') (trg_vocab_size M))
            (\<lambda>avg.
               Inr (concat (map (\<lambda>r. map (\<lambda>v. np_sub (scores' ! r) (avg ! r ! v))
                                         [0..<trg_vocab_size M])
                                [0..<length scores']))))"

text \<open>
  Lines 480-497, the body of the loop over the kept candidates: a candidate that ends in
  \<open>EOS\<close> is appended to the finished hypotheses and \<open>beam_size\<close> is decremented; any
  other is appended to the new live hypotheses, with its state, output, score and token.
  The accumulator holds the \<open>new_*\<close> lists in the fields they are assigned to at lines
  499-503.
\<close>

definition keep_candidate ::
  "utils \<Rightarrow> model_config \<Rightarrow> int list list \<Rightarrow> ('st, 'o) beam_output list \<Rightarrow> npfloat list
     \<Rightarrow> ('st, 'o) beam \<Rightarrow> nat \<Rightarrow> ('st, 'o) beam" where
  "keep_candidate U M hyps res scores' acc flat_id =
     (let token_id = int (flat_id mod trg_vocab_size M);
          hyp_id = flat_id div trg_vocab_size M;
          hypothesis = hyps ! hyp_id @ [token_id];
          score = scores' ! flat_id
      in if token_id = EOS_ID U then
           acc \<lparr> beam_size := beam_size acc - 1,
                 finished_hypotheses := finished_hypotheses acc @ [hypothesis],
                 finished_scores := finished_scores acc @ [score] \<rparr>
         else
           acc \<lparr> hypotheses := hypotheses acc @ [hypothesis],
                 state := for_zip (\<lambda>new_state' r. new_state' @ [decoder_state r ! hyp_id])
                            (state acc) res,
                 output := map_option
                            (\<lambda>new. for_zip (\<lambda>new_output' r. new_output' @ [new_output r ! hyp_id])
                                     new res)
                            (output acc),
                 scores := scores acc @ [score],
                 decoder_input := decoder_input acc @ [token_id] \<rparr>)"

text \<open>Lines 393-503: one iteration of the decoding loop, at time step \<open>time\<close>.\<close>

definition beam_step ::
  "utils \<Rightarrow> model_config \<Rightarrow> ('st, 'o, 'a, 'es) session list \<Rightarrow> int list list
     \<Rightarrow> 'a list list list \<Rightarrow> (int list \<Rightarrow> (int list \<rightharpoonup> 'v) list \<Rightarrow> npfloat)
     \<Rightarrow> (int list \<rightharpoonup> 'v) list option \<Rightarrow> nat \<Rightarrow> ('st, 'o) beam \<Rightarrow> exn + ('st, 'o) beam" where
  "beam_step U M sessions enc_length attn_states estimate_lm_score ngrams time s =
     then_do (beam_input_feed M enc_length attn_states time s) (\<lambda>input_feed.
       (let res = map (\<lambda>(session', feed). run_beam_step session' feed) (zip sessions input_feed)
        in then_do
             (candidate_scores U M (length sessions) estimate_lm_score ngrams
                (hypotheses s) (scores s) (map decoder_output res))
             (\<lambda>scores'.
                (let flat_ids = slice_to (argsort scores') (beam_size s);
                     new = s \<lparr> hypotheses := [],
                               state := map (\<lambda>_. []) sessions,
                               output := Some (map (\<lambda>_. []) sessions),
                               scores := [],
                               decoder_input := [] \<rparr>
                 in Inr (foldl (keep_candidate U M (hypotheses s) res scores') new flat_ids)))))"

text \<open>
  The loop \<open>for i in range(self.max_output_len)\<close> with its \<open>break\<close> at lines 505-506.
\<close>

fun beam_loop ::
  "(nat \<Rightarrow> ('st, 'o) beam \<Rightarrow> exn + ('st, 'o) beam) \<Rightarrow> nat list \<Rightarrow> ('st, 'o) beam
     \<Rightarrow> exn + ('st, 'o) beam" where
  "beam_loop step [] s = Inr s"
| "beam_loop step (time # later) s =
     then_do (step time s)
       (\<lambda>s'. if beam_size s' \<le> 0 then Inr s' else beam_loop step later s')"

text \<open>Lines 508-518: the live hypotheses join the finished ones, and the final ranking.\<close>

definition final_ranking ::
  "model_config \<Rightarrow> ('st, 'o) beam \<Rightarrow> int list list \<times> npfloat list" where
  "final_ranking M s =
     (let hyps = hypotheses s @ finished_hypotheses s;
          sc = scores s @ finished_scores s;
          sc = (if 0 < len_normalization M then
                  map (\<lambda>(x, hypothesis).
                         np_div x (Fin (real (length hypothesis) powr len_normalization M)))
                      (zip sc hyps)
                else sc);
          sorted_idx = argsort sc
      in (map (\<lambda>k. hyps ! k) sorted_idx, map (\<lambda>k. sc ! k) sorted_idx))"

text \<open>
  Lines 366-390: the state the loop starts from. \<open>zip(*...)\<close> over an empty list of
  sessions cannot be unpacked into two names (\<open>ValueError\<close>); \<open>decoder_inputs[0]\<close> is
  out of range when \<open>max_output_len\<close> is zero.
\<close>

definition beam_initial ::
  "utils \<Rightarrow> numpy \<Rightarrow> model_config \<Rightarrow> ('st, 'o, 'a, 'es) session list \<Rightarrow> item list list
     \<Rightarrow> int \<Rightarrow> exn + (int list list \<times> 'a list list list \<times> ('st, 'o) beam)" where
  "beam_initial U P M sessions token_ids B =
     then_do (get_batch U P M [(token_ids, [])] True) (\<lambda>batch.
       (let res = map (\<lambda>session'. run_encoders session' (encoder_input_length batch)
                                      (batch_encoder_inputs batch)) sessions
        in if res = [] then Inl ValueError
           else
             (case batch_decoder_inputs batch of
                [] \<Rightarrow> Inl IndexError
              | decoder_input' # _ \<Rightarrow>
                  Inr (encoder_input_length batch, map snd res,
                       \<lparr> hypotheses = [[]],
                         scores = [Fin 0],
                         state = map (\<lambda>(session', state'). run_initial_state session' state')
                                     (zip sessions (map fst res)),
                         output = None,
                         decoder_input = decoder_input',
                         beam_size = B,
                         finished_hypotheses = [],
                         finished_scores = [] \<rparr>))))"

definition beam_search_decoding ::
  "utils \<Rightarrow> numpy \<Rightarrow> model_config \<Rightarrow> ('st, 'o, 'a, 'es) session list \<Rightarrow> item list list
     \<Rightarrow> int \<Rightarrow> (int list \<Rightarrow> (int list \<rightharpoonup> 'v) list \<Rightarrow> npfloat)
     \<Rightarrow> (int list \<rightharpoonup> 'v) list option \<Rightarrow> exn + (int list list \<times> npfloat list)" where
  "beam_search_decoding U P M sessions token_ids B estimate_lm_score ngrams =
     then_do (beam_initial U P M sessions token_ids B) (\<lambda>(enc_length, attn_states, s0).
       then_do
         (beam_loop (beam_step U M sessions enc_length attn_states estimate_lm_score ngrams)
            [0..<max_output_len M] s0)
         (\<lambda>s. Inr (final_ranking M s)))"

text \<open>
  The invariant of the decoding loop after \<open>n\<close> iterations, for an initial width \<open>B\<close>:
  the width and the finished hypotheses add up to \<open>B\<close>, no more hypotheses are live
  than the width allows, every live hypothesis has \<open>n\<close> tokens, and every finished one
  ends with \<open>EOS\<close>.
\<close>

definition beam_inv :: "utils \<Rightarrow> int \<Rightarrow> nat \<Rightarrow> ('st, 'o) beam \<Rightarrow> bool" where
  "beam_inv U B n s \<longleftrightarrow>
       beam_size s + int (length (finished_hypotheses s)) = B
     \<and> int (length (hypotheses s)) \<le> beam_size s
     \<and> length (scores s) = length (hypotheses s)
     \<and> length (finished_scores s) = length (finished_hypotheses s)
     \<and> (\<forall>h \<in> set (hypotheses s). length h = n)
     \<and> (\<forall>h \<in> set (finished_hypotheses s). h \<noteq> [] \<and> last h = EOS_ID U)"

section \<open>The encoders (\<open>decoders.multi_encoder\<close>)\<close>

text \<open>
  A tensor is the nested list of its entries: encoder outputs are indexed by sample, time
  step and unit, states by sample and unit. The recurrent networks are built by
  \<open>translate.rnn\<close>, which is not part of the sources: the two builders the function calls
  are parameters, standing for everything from the embedding lookup to the outputs of
  the last layer, with the weights fixed.
\<close>

type_synonym tensor3 = "real list list list"
type_synonym matrix = "real list list"

record 'x rnn_builders =
  multi_rnn_unsafe :: "encoder_config \<Rightarrow> 'x \<Rightarrow> int list \<Rightarrow> tensor3"
  multi_bidirectional_rnn_unsafe :: "encoder_config \<Rightarrow> 'x \<Rightarrow> int list \<Rightarrow> tensor3"

text \<open>
  Lines 99 and 104: \<open>encoder_outputs_[:, 0, cell_size:]\<close> and \<open>encoder_outputs_[:, -1, :]\<close>.
  Reading a time step of a sample that has none is an error of the tensor library.
\<close>

definition first_backward_annotation :: "nat \<Rightarrow> tensor3 \<Rightarrow> exn + matrix" where
  "first_backward_annotation n outputs =
     in_order (map (\<lambda>steps. case steps of [] \<Rightarrow> Inl InvalidArgumentError
                                      | h # _ \<Rightarrow> Inr (drop n h)) outputs)"

definition last_annotation :: "tensor3 \<Rightarrow> exn + matrix" where
  "last_annotation outputs =
     in_order (map (\<lambda>steps. if steps = [] then Inl InvalidArgumentError
                            else Inr (last steps)) outputs)"

text \<open>\<open>tf.concat(1, states)\<close>: the states of one sample, side by side.\<close>

definition concat_axis1 :: "matrix list \<Rightarrow> matrix" where
  "concat_axis1 states = map concat (transpose states)"

text \<open>
  Lines 48-110: the body of the loop over \<open>enumerate(encoders)\<close>. The two statements at
  lines 109-110, the concatenation and the \<open>return\<close>, are indented into the loop body:
  the function returns at the end of the first iteration, and the encoders after the
  first are never reached. With no encoder at all the loop body never runs and the
  function returns \<open>None\<close>.
\<close>

fun encoder_loop ::
  "'x rnn_builders \<Rightarrow> 'x list \<Rightarrow> int list list \<Rightarrow> (nat \<times> encoder_config) list
     \<Rightarrow> tensor3 list \<Rightarrow> matrix list \<Rightarrow> exn + (tensor3 list \<times> matrix) option" where
  "encoder_loop R encoder_inputs input_length [] encoder_outputs encoder_states = Inr None"
| "encoder_loop R encoder_inputs input_length ((i, encoder) # later) encoder_outputs
       encoder_states =
     (if length input_length \<le> i then Inl IndexError
      else
        (let inputs' = encoder_inputs ! i;
             sequence_length = input_length ! i;
             outputs' = (if bidir encoder
                         then multi_bidirectional_rnn_unsafe R encoder inputs' sequence_length
                         else multi_rnn_unsafe R encoder inputs' sequence_length)
         in then_do
              (if bidir encoder then first_backward_annotation (cell_size encoder) outputs'
               else last_annotation outputs')
              (\<lambda>state'.
                 (let encoder_outputs = encoder_outputs @ [outputs'];
                      encoder_states = encoder_states @ [state'];
                      encoder_state = concat_axis1 encoder_states
                  in Inr (Some (encoder_outputs, encoder_state))))))"

definition multi_encoder ::
  "'x rnn_builders \<Rightarrow> 'x list \<Rightarrow> encoder_config list \<Rightarrow> int list list
     \<Rightarrow> exn + (tensor3 list \<times> matrix) option" where
  "multi_encoder R encoder_inputs encoders' input_length =
     (if length encoder_inputs \<noteq> length encoders' then Inl AssertionError
      else encoder_loop R encoder_inputs input_length
             (zip [0..<length encoders'] encoders') [] [])"

section \<open>The attention decoder (\<open>decoders.attention_decoder\<close>)\<close>

text \<open>
  The learned functions of the decoder, with the weights fixed and dropout off. Every
  one of them acts on the samples of a batch independently, so each is given for one
  sample, and a batch is the list of its samples. \<open>'as\<close> is what the attention of one
  sample reads (the hidden states of all encoders and the source lengths), \<open>'es\<close> the
  final encoder state of one sample. Logits are lists of reals.
\<close>

record ('emb, 'st, 'o, 'w, 'ctx, 'dout, 'as, 'es) decoder_net =
  embed :: "int \<Rightarrow> 'emb"
  multi_attention :: "'as \<Rightarrow> 'st \<Rightarrow> 'w \<Rightarrow> 'ctx \<times> 'w"
  maxout_softmax0 :: "'st \<Rightarrow> 'emb \<Rightarrow> 'ctx \<Rightarrow> 'dout"
  softmax1 :: "'dout \<Rightarrow> real list"
  call_cell :: "'emb \<Rightarrow> 'ctx \<Rightarrow> 'st \<Rightarrow> 'o \<times> 'st"
  initial_state_projection :: "'es \<Rightarrow> 'st"
  zero_state :: 'st
  zero_output :: 'o
  initial_weights :: "'as \<Rightarrow> 'w"

text \<open>
  \<open>argmax\<close> over the logits of one sample: the first index of a largest entry, for
  \<open>tf.argmax\<close> inside the decoder and for \<open>np.argmax\<close> in \<open>greedy_decoding\<close> alike
  (index 0 on logits without entries, where \<open>np.argmax\<close> raises).
\<close>

definition argmax :: "real list \<Rightarrow> int" where
  "argmax xs = int (length (takeWhile (\<lambda>x. x \<noteq> fold max xs (hd xs)) xs))"

text \<open>
  What one call of the decoder is given besides the network: the decoder inputs
  (time-major), the lengths, \<open>feed_previous\<close>, \<open>feed_argmax\<close>, and the random draws: the
  value of \<open>tf.random_uniform([])\<close> at each time step, and the token \<open>tf.multinomial\<close>
  draws at each time step for each sample.
\<close>

record decoder_call =
  decoder_inputs :: "int list list"
  sequence_length :: "int list option"
  feed_previous :: real
  feed_argmax :: bool
  random_uniform :: "nat \<Rightarrow> real"
  multinomial :: "nat \<Rightarrow> nat \<Rightarrow> real list \<Rightarrow> int"

text \<open>The loop variables of \<open>tf.while_loop\<close>, one entry per sample, and the arrays written.\<close>

record ('emb, 'st, 'o, 'w) loop_vars =
  input' :: "'emb list"
  state' :: "'st list"
  output' :: "'o list"
  prev_weights :: "'w list"

record ('dout, 'w) arrays =
  proj_outputs :: "real list list list"
  decoder_outputs :: "'dout list list"
  samples :: "int list list"
  weights :: "'w list list"

text \<open>
  Lines 438-485, \<open>_time_step\<close>. The first case of \<open>tf.case\<close> that holds decides the token:
  the ground truth \<open>inputs.read(time + 1)\<close> when this is not the last step and the
  uniform draw is at least \<open>feed_previous\<close>; a sample of the softmax when \<open>feed_argmax\<close>
  is off; the argmax otherwise. With a sequence length, \<open>_rnn_step\<close> keeps the old
  state, and puts the zero output, for a sample whose length the time has reached.
\<close>

definition time_step ::
  "('emb, 'st, 'o, 'w, 'ctx, 'dout, 'as, 'es) decoder_net \<Rightarrow> 'as list \<Rightarrow> decoder_call
     \<Rightarrow> nat \<Rightarrow> nat \<Rightarrow> ('emb, 'st, 'o, 'w) loop_vars \<Rightarrow> ('dout, 'w) arrays
     \<Rightarrow> ('emb, 'st, 'o, 'w) loop_vars \<times> ('dout, 'w) arrays" where
  "time_step N attention_states C batch_size time v a =
     (let time_steps = length (decoder_inputs C);
          batch = [0..<batch_size];
          attn = map (\<lambda>b. multi_attention N (attention_states ! b) (state' v ! b)
                                (prev_weights v ! b)) batch;
          context_vector = map fst attn;
          new_weights = map snd attn;
          dec_out = map (\<lambda>b. maxout_softmax0 N (state' v ! b) (input' v ! b)
                                 (context_vector ! b)) batch;
          proj = map (softmax1 N) dec_out;
          sample =
            (if time + 1 < time_steps \<and> feed_previous C \<le> random_uniform C time
             then decoder_inputs C ! (time + 1)
             else if \<not> feed_argmax C
             then map (\<lambda>b. multinomial C time b (proj ! b)) batch
             else map argmax proj);
          new_input = map (embed N) sample;
          cell = map (\<lambda>b. call_cell N (new_input ! b) (context_vector ! b) (state' v ! b)) batch;
          copy_cond = (\<lambda>b. case sequence_length C of
                              None \<Rightarrow> False
                            | Some len \<Rightarrow> len ! b \<le> int time)
      in (\<lparr> input' = new_input,
            state' = map (\<lambda>b. if copy_cond b then state' v ! b else snd (cell ! b)) batch,
            output' = map (\<lambda>b. if copy_cond b then zero_output N else fst (cell ! b)) batch,
            prev_weights = new_weights \<rparr>,
          \<lparr> proj_outputs = proj_outputs a @ [proj],
            decoder_outputs = decoder_outputs a @ [dec_out],
            samples = samples a @ [sample],
            weights = weights a @ [new_weights] \<rparr>))"

text \<open>Lines 487-493: \<open>tf.while_loop\<close> with the condition \<open>time < time_steps\<close>.\<close>

function while_loop ::
  "('emb, 'st, 'o, 'w, 'ctx, 'dout, 'as, 'es) decoder_net \<Rightarrow> 'as list \<Rightarrow> decoder_call
     \<Rightarrow> nat \<Rightarrow> nat \<Rightarrow> ('emb, 'st, 'o, 'w) loop_vars \<Rightarrow> ('dout, 'w) arrays
     \<Rightarrow> ('emb, 'st, 'o, 'w) loop_vars \<times> ('dout, 'w) arrays" where
  "while_loop N attention_states C batch_size time v a =
     (if time < length (decoder_inputs C)
      then (case time_step N attention_states C batch_size time v a of
              (v', a') \<Rightarrow> while_loop N attention_states C batch_size (time + 1) v' a')
      else (v, a))"
  by pat_completeness auto
termination
  by (relation "measure (\<lambda>(N, attention_states, C, batch_size, time, v, a).
                           length (decoder_inputs C) - time)")
     auto

declare while_loop.simps [simp del]

text \<open>
  What \<open>attention_decoder\<close> returns, in the order of its \<open>return\<close> statement at line
  500: five values, the second of them \<open>None\<close>.
\<close>

datatype ('dout, 'st, 'o) returned =
    Proj_outputs "real list list list"
  | None_value
  | Decoder_outputs "'dout list list"
  | Beam_tensors "'st list" "'st list" "'o list" "'o list"
  | Samples "int list list"

text \<open>
  Lines 360-500. The assertion on the cell size comes first; \<open>inputs.read(0)\<close> fails
  when there is no time step at all.
\<close>

definition attention_decoder ::
  "('emb, 'st, 'o, 'w, 'ctx, 'dout, 'as, 'es) decoder_net \<Rightarrow> encoder_config \<Rightarrow> 'as list
     \<Rightarrow> 'es list option \<Rightarrow> decoder_call \<Rightarrow> exn + ('dout, 'st, 'o) returned list" where
  "attention_decoder N decoder attention_states initial_state C =
     (if cell_size decoder mod 2 \<noteq> 0 then Inl AssertionError
      else
        (case decoder_inputs C of
           [] \<Rightarrow> Inl InvalidArgumentError
         | first # _ \<Rightarrow>
             (let batch_size = length first;
                  state = (case initial_state of
                             Some es \<Rightarrow> map (initial_state_projection N) es
                           | None \<Rightarrow> replicate batch_size (zero_state N));
                  output = replicate batch_size (zero_output N);
                  initial_input = map (embed N) first;
                  v0 = \<lparr> input' = initial_input, state' = state, output' = output,
                         prev_weights = map (initial_weights N) attention_states \<rparr>;
                  a0 = \<lparr> proj_outputs = [], decoder_outputs = [], samples = [],
                         weights = [] \<rparr>
              in (case while_loop N attention_states C batch_size 0 v0 a0 of
                    (v, a) \<Rightarrow>
                      Inr [Proj_outputs (proj_outputs a),
                           None_value,
                           Decoder_outputs (decoder_outputs a),
                           Beam_tensors state (state' v) output (output' v),
                           Samples (samples a)]))))"

text \<open>\<open>decoders.decoder\<close>, lines 334-335.\<close>

definition decoder_not_implemented :: "exn + ('dout, 'st, 'o) returned list" where
  "decoder_not_implemented = Inl NotImplementedError"

section \<open>The constructor of \<open>Seq2SeqModel\<close>\<close>

text \<open>
  Assigning a tuple to four names succeeds on four values only: fewer or more raise
  \<open>ValueError\<close>. Assigning \<open>None\<close> to two names raises \<open>TypeError\<close>.
\<close>

fun unpack_four :: "'v list \<Rightarrow> exn + ('v \<times> 'v \<times> 'v \<times> 'v)" where
  "unpack_four [a, b, c, d] = Inr (a, b, c, d)"
| "unpack_four vs = Inl ValueError"

definition unpack_two :: "('a \<times> 'b) option \<Rightarrow> exn + ('a \<times> 'b)" where
  "unpack_two r = (case r of None \<Rightarrow> Inl TypeError | Some p \<Rightarrow> Inr p)"

text \<open>
  What the attention of one sample reads: its hidden states from every encoder, and its
  source lengths.
\<close>

type_synonym attention_row = "matrix list \<times> int list"

definition sample_attention_states :: "tensor3 list \<Rightarrow> int list list \<Rightarrow> nat \<Rightarrow> attention_row" where
  "sample_attention_states attention_states input_length b =
     (map (\<lambda>outputs. outputs ! b) attention_states, map (\<lambda>len. len ! b) input_length)"

text \<open>
  The graph of the model: the encoders feeding the attention decoder, evaluated on the
  values fed to the placeholders (lines 132-139, and \<open>session.run\<close> on \<open>self.outputs\<close>).
\<close>

record ('x, 'emb, 'st, 'o, 'w, 'ctx, 'dout) graph =
  rnn :: "'x rnn_builders"
  net :: "('emb, 'st, 'o, 'w, 'ctx, 'dout, attention_row, real list) decoder_net"
  encoder_configs :: "encoder_config list"
  decoder_config :: encoder_config

definition build_decoder ::
  "('x, 'emb, 'st, 'o, 'w, 'ctx, 'dout) graph \<Rightarrow> int list list \<Rightarrow> decoder_call
     \<Rightarrow> tensor3 list \<Rightarrow> matrix \<Rightarrow> exn + ('dout, 'st, 'o) returned list" where
  "build_decoder G input_length C attention_states encoder_state =
     attention_decoder (net G) (decoder_config G)
       (map (sample_attention_states attention_states input_length)
            [0..<length encoder_state])
       (Some encoder_state) C"

text \<open>
  Lines 45-139 of \<open>__init__\<close>, up to the call of the decoder builder; everything after it
  (the losses, the optimiser, \<open>beam_output\<close>) is the parameter \<open>finish\<close>. Before the
  encoders are built only \<open>getattr(utils, reinforce_reward)\<close> can raise; \<open>utils\<close> is not
  part of the sources, so which names it defines is a parameter.
\<close>

definition seq2seq_init ::
  "(string \<Rightarrow> bool) \<Rightarrow> string \<Rightarrow> bool \<Rightarrow> ('x, 'emb, 'st, 'o, 'w, 'ctx, 'dout) graph
     \<Rightarrow> 'x list \<Rightarrow> int list list \<Rightarrow> decoder_call
     \<Rightarrow> (('dout, 'st, 'o) returned \<times> ('dout, 'st, 'o) returned
           \<times> ('dout, 'st, 'o) returned \<times> ('dout, 'st, 'o) returned \<Rightarrow> exn + 'model)
     \<Rightarrow> exn + 'model" where
  "seq2seq_init utils_defines reinforce_reward attention G encoder_inputs input_length C
       finish =
     (if \<not> utils_defines reinforce_reward then Inl AttributeError
      else
        then_do
          (then_do (multi_encoder (rnn G) encoder_inputs (encoder_configs G) input_length)
             unpack_two)
          (\<lambda>(attention_states, encoder_state).
             (let decoder =
                    (if attention
                     then build_decoder G input_length C attention_states
                            encoder_state
                     else decoder_not_implemented)
              in then_do (then_do decoder unpack_four) finish)))"

section \<open>Greedy decoding and the teacher-forced pass\<close>

text \<open>
  \<open>session.run(self.outputs, input_feed)\<close>: the logits of every time step, for the batch
  fed. \<open>self.outputs\<close> is the first value \<open>attention_decoder\<close> returns.
\<close>

definition run_outputs ::
  "('x, 'emb, 'st, 'o, 'w, 'ctx, 'dout) graph \<Rightarrow> 'x list \<Rightarrow> int list list \<Rightarrow> decoder_call
     \<Rightarrow> exn + real list list list" where
  "run_outputs G encoder_inputs input_length C =
     then_do
       (then_do (multi_encoder (rnn G) encoder_inputs (encoder_configs G) input_length)
          unpack_two)
       (\<lambda>(attention_states, encoder_state).
          then_do (build_decoder G input_length C attention_states encoder_state)
            (\<lambda>returned. case returned of
                           Proj_outputs outputs # _ \<Rightarrow> Inr outputs
                         | _ \<Rightarrow> Inl TypeError))"

text \<open>
  Lines 336-356, \<open>greedy_decoding\<close>: the batch of the one source with dummy decoder
  inputs, \<open>feed_previous = 1.0\<close>, and the argmax of the logits of each step. The
  placeholder of the decoder inputs is \<open>tf.int32\<close> (line 113): the ids fed are cast to
  32 bits. \<open>np.argmax\<close> raises \<open>ValueError\<close> on a row without entries, and \<open>int(...)\<close> of
  the argmax over a batch needs exactly one sample.
\<close>

definition np_argmax :: "real list \<Rightarrow> exn + int" where
  "np_argmax xs = (if xs = [] then Inl ValueError else Inr (argmax xs))"

definition decoding_outputs ::
  "utils \<Rightarrow> numpy \<Rightarrow> model_config \<Rightarrow> (ndarray, 'emb, 'st, 'o, 'w, 'ctx, 'dout) graph
     \<Rightarrow> item list list \<Rightarrow> (nat \<Rightarrow> real) \<Rightarrow> (nat \<Rightarrow> nat \<Rightarrow> real list \<Rightarrow> int)
     \<Rightarrow> exn + real list list list" where
  "decoding_outputs U P M G token_ids uniform draw =
     then_do (get_batch U P M [(token_ids, [])] True) (\<lambda>batch.
       run_outputs G (batch_encoder_inputs batch) (encoder_input_length batch)
         \<lparr> decoder_inputs = map (map int32) (batch_decoder_inputs batch),
           sequence_length = Some (decoder_input_length batch),
           feed_previous = 1,
           feed_argmax = True,
           random_uniform = uniform,
           multinomial = draw \<rparr>)"

definition greedy_decoding ::
  "utils \<Rightarrow> numpy \<Rightarrow> model_config \<Rightarrow> (ndarray, 'emb, 'st, 'o, 'w, 'ctx, 'dout) graph
     \<Rightarrow> item list list \<Rightarrow> (nat \<Rightarrow> real) \<Rightarrow> (nat \<Rightarrow> nat \<Rightarrow> real list \<Rightarrow> int)
     \<Rightarrow> exn + int list" where
  "greedy_decoding U P M G token_ids uniform draw =
     then_do (decoding_outputs U P M G token_ids uniform draw) (\<lambda>outputs.
       in_order (map (\<lambda>logit. then_do (in_order (map np_argmax logit))
                                 (\<lambda>tokens. case tokens of
                                              [token] \<Rightarrow> Inr token
                                            | _ \<Rightarrow> Inl TypeError)) outputs))"

text \<open>
  The forward pass of \<open>step\<close> (lines 242-257) on the pair of the source and a given
  target, with \<open>feed_previous = 0.0\<close>, read at \<open>self.outputs\<close>: the outputs under
  teacher forcing.
\<close>

definition teacher_forced_outputs ::
  "utils \<Rightarrow> numpy \<Rightarrow> model_config \<Rightarrow> (ndarray, 'emb, 'st, 'o, 'w, 'ctx, 'dout) graph
     \<Rightarrow> item list list \<Rightarrow> int list \<Rightarrow> (nat \<Rightarrow> real) \<Rightarrow> (nat \<Rightarrow> nat \<Rightarrow> real list \<Rightarrow> int)
     \<Rightarrow> exn + real list list list" where
  "teacher_forced_outputs U P M G token_ids target uniform draw =
     then_do (get_batch U P M [(token_ids, target)] False) (\<lambda>batch.
       run_outputs G (batch_encoder_inputs batch) (encoder_input_length batch)
         \<lparr> decoder_inputs = map (map int32) (batch_decoder_inputs batch),
           sequence_length = Some (decoder_input_length batch),
           feed_previous = 0,
           feed_argmax = True,
           random_uniform = uniform,
           multinomial = draw \<rparr>)"

text \<open>
  Two readings of \<open>time_step\<close> used in the proofs: the logits a step computes from the
  loop variables, and the loop variables it hands on.
\<close>

definition step_logits ::
  "('emb, 'st, 'o, 'w, 'ctx, 'dout, 'as, 'es) decoder_net \<Rightarrow> 'as list \<Rightarrow> nat
     \<Rightarrow> ('emb, 'st, 'o, 'w) loop_vars \<Rightarrow> real list list" where
  "step_logits N attention_states batch_size v =
     map (\<lambda>b. softmax1 N (maxout_softmax0 N (state' v ! b) (input' v ! b)
                 (fst (multi_attention N (attention_states ! b) (state' v ! b)
                        (prev_weights v ! b)))))
         [0..<batch_size]"

fun vars_at ::
  "('emb, 'st, 'o, 'w, 'ctx, 'dout, 'as, 'es) decoder_net \<Rightarrow> 'as list \<Rightarrow> decoder_call
     \<Rightarrow> nat \<Rightarrow> ('emb, 'st, 'o, 'w) loop_vars \<Rightarrow> nat \<Rightarrow> ('emb, 'st, 'o, 'w) loop_vars" where
  "vars_at N attention_states C batch_size v0 0 = v0"
| "vars_at N attention_states C batch_size v0 (Suc t) =
     fst (time_step N attention_states C batch_size t
            (vars_at N attention_states C batch_size v0 t)
            \<lparr> proj_outputs = [], decoder_outputs = [], samples = [], weights = [] \<rparr>)"

definition initial_vars ::
  "('emb, 'st, 'o, 'w, 'ctx, 'dout, 'as, 'es) decoder_net \<Rightarrow> 'as list \<Rightarrow> 'es list option
     \<Rightarrow> int list \<Rightarrow> ('emb, 'st, 'o, 'w) loop_vars" where
  "initial_vars N attention_states initial_state first =
     \<lparr> input' = map (embed N) first,
       state' = (case initial_state of
                   Some es \<Rightarrow> map (initial_state_projection N) es
                 | None \<Rightarrow> replicate (length first) (zero_state N)),
       output' = replicate (length first) (zero_output N),
       prev_weights = map (initial_weights N) attention_states \<rparr>"

definition logits_of ::
  "('emb, 'st, 'o, 'w, 'ctx, 'dout, 'as, 'es) decoder_net \<Rightarrow> 'as list \<Rightarrow> 'es list option
     \<Rightarrow> decoder_call \<Rightarrow> real list list list" where
  "logits_of N attention_states initial_state C =
     (let bs = length (hd (decoder_inputs C));
          v0 = initial_vars N attention_states initial_state (hd (decoder_inputs C))
      in map (\<lambda>t. step_logits N attention_states bs (vars_at N attention_states C bs v0 t))
             [0..<length (decoder_inputs C)])"

text \<open>
  Two readings of \<open>get_batch\<close> on a batch of one sample: the maximum length it computes
  for an encoder (\<open>data_[i]\<close> is the target when the sample has no source sentence for
  the last encoder), and everything it makes of the source sentences.
\<close>

definition source_len :: "model_config \<Rightarrow> item list list \<Rightarrow> int list \<Rightarrow> nat \<Rightarrow> nat" where
  "source_len M src trg i =
     (let n = (if i < length src then length (src ! i) else length trg)
      in case max_input_len M of None \<Rightarrow> n | Some cap \<Rightarrow> min n cap)"

definition encoder_side ::
  "utils \<Rightarrow> numpy \<Rightarrow> model_config \<Rightarrow> item list list
     \<Rightarrow> (exn + int list list) \<times> (exn + ndarray list)" where
  "encoder_side U P M src =
     (let rows = [sample_rows U M (map (source_len M src []) [0..<encoder_count M]) (src, [])];
          enc_of = (\<lambda>i. [r ! i. r \<leftarrow> rows, i < length r])
      in (in_order (map (\<lambda>i. in_order (map (\<lambda>r. to_int32 (int (snd r))) (enc_of i)))
                        [0..<encoder_count M]),
          in_order (map (\<lambda>(ext, i). np_array P (ext \<in> set (binary_input M))
                                        (map fst (enc_of i)))
                        (zip (encoder_names M) [0..<encoder_count M]))))"
section \<open>Attention weights (\<open>decoders.global_attention\<close>, \<open>decoders.local_attention\<close>)\<close>

text \<open>
  The weights one sample gets at one decoder step from one encoder. The energies \<open>e\<close>
  (one per source position, from \<open>compute_energy\<close> or \<open>compute_energy_with_filter\<close>) and,
  for the local attention, the value \<open>p\<close> of the sigmoid that predicts the aligned
  position are computed by the network and are parameters here. Values are real
  numbers, with the infinities and \<open>nan\<close> a division by zero gives.

  Lines 245-250, \<open>global_attention\<close>: the energies less their maximum over the positions
  of the sample, the mask of the positions below the source length, and
  \<open>exp(e) * mask\<close> divided by its sum.
\<close>

definition sequence_mask :: "int \<Rightarrow> nat \<Rightarrow> real list" where
  "sequence_mask len' maxlen = map (\<lambda>i. if int i < len' then 1 else 0) [0..<maxlen]"

definition global_attention_weights :: "real list \<Rightarrow> int \<Rightarrow> npfloat list" where
  "global_attention_weights e len' =
     (case e of
        [] \<Rightarrow> []
      | e0 # _ \<Rightarrow>
          (let e' = map (\<lambda>x. x - fold max e e0) e;
               mask = sequence_mask len' (length e);
               exp' = map (\<lambda>(x, m). exp x * m) (zip e' mask)
           in map (\<lambda>x. np_div (Fin x) (Fin (sum_list exp'))) exp'))"

text \<open>
  Lines 263-304, \<open>local_attention\<close>, for the window size \<open>D\<close> of the encoder: the aligned
  position \<open>pt = floor(S * p)\<close>, the mask of the positions from \<open>pt - D\<close> to \<open>pt + D\<close>,
  the softmax of \<open>e * mask\<close> over all positions, and its product with
  \<open>exp(-(idx - pt)\<^sup>2 / sigma\<^sup>2)\<close> for \<open>sigma = D / 2\<close>. The source length is not read.
\<close>

definition softmax :: "real list \<Rightarrow> real list" where
  "softmax xs = map (\<lambda>x. exp x / sum_list (map exp xs)) xs"

definition aligned_position :: "nat \<Rightarrow> real \<Rightarrow> real" where
  "aligned_position attn_length p = of_int \<lfloor>real attn_length * p\<rfloor>"

definition window_mask :: "nat \<Rightarrow> real \<Rightarrow> nat \<Rightarrow> real list" where
  "window_mask D pt attn_length =
     map (\<lambda>i. let idx = real i;
                  mlow = (if idx < pt - real D then 1 else 0 :: real);
                  mhigh = (if idx > pt + real D then 1 else 0);
                  m = mlow + mhigh
              in if m = 0 then 1 else 0) [0..<attn_length]"

definition local_attention_weights :: "nat \<Rightarrow> real \<Rightarrow> real list \<Rightarrow> npfloat list" where
  "local_attention_weights D p e =
     (let attn_length = length e;
          pt = aligned_position attn_length p;
          mask = window_mask D pt attn_length;
          weights = softmax (map (\<lambda>(x, m). x * m) (zip e mask));
          sigma = real D / 2
      in map (\<lambda>(w, i). np_mul (Fin w)
                          (np_exp (np_div (Fin (- ((real i - pt) ^ 2))) (Fin (sigma ^ 2)))))
             (zip weights [0..<attn_length]))"

text \<open>
  Lines 307-316, \<open>attention\<close>: local when the encoder has a window size, else global.
  \<open>local_attention\<close> calls the energy function without \<open>attn_size\<close>, which
  \<open>compute_energy\<close> (the one chosen when the encoder has no attention filter) requires:
  \<open>TypeError\<close>.
\<close>

definition attention_weights ::
  "encoder_config \<Rightarrow> real \<Rightarrow> real list \<Rightarrow> int \<Rightarrow> exn + npfloat list" where
  "attention_weights encoder p e len' =
     (if 0 < attention_window_size encoder
      then (if 0 < attention_filters encoder
            then Inr (local_attention_weights (attention_window_size encoder) p e)
            else Inl TypeError)
      else Inr (global_attention_weights e len'))"

section \<open>The sentence-level reward (\<open>decoders.sentence_bleu\<close>)\<close>

text \<open>
  Lines 562-609. Token ids and n-gram codes are 64-bit integers: products and sums wrap.
  \<open>tf.reduce_max\<close> of no value is the least 64-bit integer. The assertion at line 574 is
  an operation nothing depends on: it is never run. Scores are real numbers, with the
  infinities and \<open>nan\<close> the unguarded division of the brevity penalty can give.
  What \<open>tf.minimum\<close> returns when an argument is \<open>nan\<close> depends on the kernel (the first
  argument, or \<open>nan\<close>): it is the parameter \<open>on_nan\<close>.
\<close>

definition int64 :: "int \<Rightarrow> int" where
  "int64 n = (n + 2 ^ 63) mod 2 ^ 64 - 2 ^ 63"

definition truncate :: "utils \<Rightarrow> int list \<Rightarrow> int list" where
  "truncate U s = takeWhile (\<lambda>x. x \<noteq> EOS_ID U) s"

definition reduce_max :: "int list \<Rightarrow> int" where
  "reduce_max xs = fold max xs (- (2 ^ 63))"

text \<open>The four functions of the list \<open>ngrams\<close>, lines 576-581.\<close>

definition ngram :: "nat \<Rightarrow> int \<Rightarrow> int list \<Rightarrow> int list" where
  "ngram n max_value s =
     (if n = 0 then s
      else if n = 1 then
        map (\<lambda>(a, b). int64 (a * max_value + b)) (zip (slice_to s (- 1)) (slice_from s 1))
      else if n = 2 then
        map (\<lambda>(a, b, c). int64 (a * max_value ^ 2 + b * max_value + c))
            (zip (slice_to s (- 2)) (zip (slice_to (slice_from s 1) (- 1)) (slice_from s 2)))
      else
        map (\<lambda>(a, b, c, d). int64 (a * max_value ^ 3 + b * max_value ^ 2 + c * max_value + d))
            (zip (slice_to s (- 3))
               (zip (slice_to (slice_from s 1) (- 2))
                  (zip (slice_to (slice_from s 2) (- 1)) (slice_from s 3)))))"

text \<open>
  \<open>tf.unique_with_counts\<close>: the distinct values in the order of their first occurrence,
  and how often each occurs. \<open>tf.nn.top_k\<close> over the whole length sorts in descending
  order.
\<close>

definition unique_y :: "int list \<Rightarrow> int list" where
  "unique_y xs = rev (remdups (rev xs))"

definition unique_count :: "int list \<Rightarrow> int list" where
  "unique_count xs = map (\<lambda>v. int (count_list xs v)) (unique_y xs)"

definition top_k_all :: "int list \<Rightarrow> int list" where
  "top_k_all xs = rev (sort xs)"

definition tf_minimum :: "npfloat \<Rightarrow> npfloat \<Rightarrow> npfloat \<Rightarrow> npfloat" where
  "tf_minimum on_nan x y =
     (if x = NaN \<or> y = NaN then on_nan
      else if sort_rank y < sort_rank x then y else x)"

text \<open>Lines 585-602: the term one order of n-grams adds to the score.\<close>

definition ngram_score :: "int list \<Rightarrow> int list \<Rightarrow> real" where
  "ngram_score hyp_ngrams ref_ngrams =
     (let hyp_plus_ref = unique_y (hyp_ngrams @ ref_ngrams);
          hyp' = top_k_all (hyp_ngrams @ hyp_plus_ref);
          ref' = top_k_all (ref_ngrams @ hyp_plus_ref);
          hyp_counts = map (\<lambda>c. c - 1) (unique_count hyp');
          ref_counts = map (\<lambda>c. c - 1) (unique_count ref');
          numerator = real_of_int (sum_list (map (\<lambda>(h, r). min h r) (zip hyp_counts ref_counts))) + 1;
          denominator = real_of_int (sum_list hyp_counts) + 1
      in ln (numerator / denominator) / 4)"

definition sentence_bleu :: "npfloat \<Rightarrow> utils \<Rightarrow> int list \<Rightarrow> int list \<Rightarrow> npfloat" where
  "sentence_bleu on_nan U hyp ref =
     (let hyp = truncate U hyp;
          ref = truncate U ref;
          max_value = reduce_max (hyp @ ref);
          score = sum_list (map (\<lambda>n. ngram_score (ngram n max_value hyp) (ngram n max_value ref))
                                [0..<4]);
          hyp_len = real (length hyp);
          ref_len = real (length ref);
          bp = tf_minimum on_nan (Fin 1)
                 (np_exp (np_sub (Fin 1) (np_div (Fin ref_len) (Fin hyp_len))))
      in np_mul (Fin (exp score)) bp)"

section \<open>A small model for the worked examples\<close>

text \<open>
  Three target tokens (\<open>0\<close>, \<open>EOS = 1\<close>, \<open>BOS = 2\<close>), one encoder, two output steps, and
  one session whose decoder gives every token the probability one third.
\<close>

definition example_utils :: utils where
  "example_utils = \<lparr>BOS_ID = 2, EOS_ID = 1\<rparr>"

definition example_numpy :: numpy where
  "example_numpy = \<lparr>float32 = Fin\<rparr>"

definition example_encoder :: encoder_config where
  "example_encoder =
     \<lparr>name = ''src'', vocab_size = 5, embedding_size = 2, cell_size = 2, layers = 1,
      use_lstm = False, bidir = False, binary = False, attention_filters = 0,
      attention_window_size = 0\<rparr>"

definition example_model :: model_config where
  "example_model =
     \<lparr>encoders = [example_encoder], trg_vocab_size = 3, max_output_len = 2,
      max_input_len = None, lm_weight = None, len_normalization = 1\<rparr>"

text \<open>
  A model of two encoders, of token ids and of vectors of two numbers, and a batch of
  two samples for it.
\<close>

definition example_binary_encoder :: encoder_config where
  "example_binary_encoder =
     \<lparr>name = ''feat'', vocab_size = 0, embedding_size = 2, cell_size = 2, layers = 1,
      use_lstm = False, bidir = False, binary = True, attention_filters = 0,
      attention_window_size = 0\<rparr>"

definition example_pair_model :: model_config where
  "example_pair_model =
     \<lparr>encoders = [example_encoder, example_binary_encoder], trg_vocab_size = 5,
      max_output_len = 50, max_input_len = None, lm_weight = None, len_normalization = 1\<rparr>"

definition example_pair_data :: "sample list" where
  "example_pair_data =
     [([[Token 3, Token 4], [Vector [1 / 2, 1]]], [3, 4]),
      ([[Token 3], [Vector [1, 0], Vector [0, 1]]], [3])]"

definition example_pair_batch :: batch where
  "example_pair_batch =
     \<lparr>batch_encoder_inputs =
        [Int32_array [[3, 4, 1], [3, 1, 1]],
         Float32_array3 [[[Fin (1 / 2), Fin 1], [Fin 0, Fin 0], [Fin 0, Fin 0]],
                         [[Fin 1, Fin 0], [Fin 0, Fin 1], [Fin 0, Fin 0]]]],
      batch_decoder_inputs = [[2, 2], [3, 3], [4, 1]],
      batch_targets = [[3, 3], [4, 1], [1, 1]],
      batch_weights = [[1, 1], [1, 1], [1, 0]],
      encoder_input_length = [[3, 2], [2, 3]],
      decoder_input_length = [3, 2]\<rparr>"

definition example_session :: "(nat, nat, nat, nat) session" where
  "example_session =
     \<lparr>run_encoders = (\<lambda>lengths inputs. (0, [[0]])),
      run_initial_state = (\<lambda>encoder_state. [0]),
      run_beam_step = (\<lambda>feed.
        \<lparr>new_output = map (\<lambda>_. 0) (feed_state feed),
         decoder_output = map (\<lambda>_. [1 / 3, 1 / 3, 1 / 3]) (feed_state feed),
         decoder_state = feed_state feed\<rparr>)\<rparr>"

text \<open>A session whose decoder puts all the probability on \<open>EOS\<close>.\<close>

definition example_session_eos :: "(nat, nat, nat, nat) session" where
  "example_session_eos =
     \<lparr>run_encoders = (\<lambda>lengths inputs. (0, [[0]])),
      run_initial_state = (\<lambda>encoder_state. [0]),
      run_beam_step = (\<lambda>feed.
        \<lparr>new_output = map (\<lambda>_. 0) (feed_state feed),
         decoder_output = map (\<lambda>_. [0, 1, 0]) (feed_state feed),
         decoder_state = feed_state feed\<rparr>)\<rparr>"

definition no_ngrams :: "(int list \<rightharpoonup> nat) list option" where
  "no_ngrams = None"

text \<open>
  Recurrent networks whose output, for one sample and one time step, is the two numbers
  \<open>n\<close> and \<open>n + 1\<close> when the input is \<open>n\<close> token sequences; and a decoder whose logits
  prefer token 0 on an even state and token 2 on an odd one.
\<close>

definition example_rnn :: "item list list rnn_builders" where
  "example_rnn =
     \<lparr>multi_rnn_unsafe =
        (\<lambda>encoder inputs lengths. [[[real (length inputs), real (length inputs) + 1]]]),
      multi_bidirectional_rnn_unsafe =
        (\<lambda>encoder inputs lengths. [[[real (length inputs), real (length inputs) + 1]]])\<rparr>"

definition example_net ::
  "(nat, nat, nat, nat, nat, nat, attention_row, real list) decoder_net" where
  "example_net =
     \<lparr>embed = (\<lambda>token. nat token),
      multi_attention = (\<lambda>hidden state' prev. (0, prev)),
      maxout_softmax0 = (\<lambda>state' input' context. state' + input'),
      softmax1 = (\<lambda>d. if even d then [1, 0, 0] else [0, 0, 1]),
      call_cell = (\<lambda>input' context state'. (state', state' + input' + 1)),
      initial_state_projection = (\<lambda>encoder_state. 0),
      zero_state = 0,
      zero_output = 0,
      initial_weights = (\<lambda>hidden. 0)\<rparr>"

definition example_graph :: "(item list list, nat, nat, nat, nat, nat, nat) graph" where
  "example_graph =
     \<lparr>rnn = example_rnn, net = example_net, encoder_configs = [example_encoder],
      decoder_config = example_encoder\<rparr>"

text \<open>The same for encoders fed the arrays of a batch: one sample, one time step.\<close>

definition example_array_rnn :: "ndarray rnn_builders" where
  "example_array_rnn =
     \<lparr>multi_rnn_unsafe = (\<lambda>encoder inputs lengths. [[[1, 2]]]),
      multi_bidirectional_rnn_unsafe = (\<lambda>encoder inputs lengths. [[[1, 2]]])\<rparr>"

definition example_array_graph :: "(ndarray, nat, nat, nat, nat, nat, nat) graph" where
  "example_array_graph =
     \<lparr>rnn = example_array_rnn, net = example_net, encoder_configs = [example_encoder],
      decoder_config = example_encoder\<rparr>"

definition example_call :: decoder_call where
  "example_call =
     \<lparr>decoder_inputs = [[2], [1]], sequence_length = Some [2], feed_previous = 0,
      feed_argmax = True, random_uniform = (\<lambda>time. 1 / 2),
      multinomial = (\<lambda>time b logits. 0)\<rparr>"

text \<open>An encoder with local attention: one attention filter, and a window of one position.\<close>

definition example_local_encoder :: encoder_config where
  "example_local_encoder =
     example_encoder \<lparr>attention_filters := 1, attention_window_size := 1\<rparr>"
section \<open>Verified properties\<close>

subsection \<open>Batch construction\<close>

lemmas get_batch_defs = get_batch_def batch_max_input_len_def batch_max_output_len_def
  encoder_count_def data_len_def sample_rows_def encoder_row_def decoder_row_def
  replace_pad_def encoder_pad_item_def np_array_def binary_input_def encoder_names_def

lemma int32_id: "- (2 ^ 31) \<le> n \<Longrightarrow> n < 2 ^ 31 \<Longrightarrow> int32 n = n"
  by (simp add: int32_def)

lemma to_int32_id: "- (2 ^ 31) \<le> n \<Longrightarrow> n < 2 ^ 31 \<Longrightarrow> to_int32 n = Inr n"
  by (simp add: to_int32_def in_c_long_def int32_id)

text \<open>
  Claim C7. With the vocabulary \<open>PAD = 0, EOS = 1, BOS = 2, A = 3, B = 4\<close>, one sample whose
  source is \<open>[A, B]\<close> and whose target is \<open>[A, B]\<close>, an encoder that takes token ids as
  the scenario's source has them, and room for two output tokens, \<open>get_batch\<close> returns
  the (time-major) decoder inputs \<open>[BOS, A, B]\<close>, the targets \<open>[A, B, EOS]\<close> and the target
  weights \<open>[1, 1, 1]\<close>. (An encoder of binary input pads with a vector, and the
  conversion of a row of token ids and a vector to an array raises \<open>ValueError\<close>.)
\<close>

theorem get_batch_teacher_forcing_scenario:
  assumes "BOS_ID U = 2" and "EOS_ID U = 1" and "encoders M = [encoder]"
    and "2 \<le> max_output_len M" and "\<not> binary encoder"
  shows "\<exists>b. get_batch U P M [([[Token 3, Token 4]], [3, 4])] False = Inr b
           \<and> batch_decoder_inputs b = [[2], [3], [4]]
           \<and> batch_targets b = [[3], [4], [1]]
           \<and> batch_weights b = [[1], [1], [1]]
           \<and> decoder_input_length b = [3]"
proof -
  have m: "min 2 (max_output_len M) = 2"
    using assms(4) by simp
  have cut: "a = 0 \<or> a = 1 \<or> min 2 a = 2" for a :: nat
    by linarith
  show ?thesis
  proof (cases "max_input_len M")
    case None
    then show ?thesis
      using assms(1-3,5) m by (simp add: get_batch_defs Let_def to_int32_id)
  next
    case (Some a)
    from cut [of a] show ?thesis
    proof (elim disjE)
      assume "a = 0"
      then show ?thesis
        using assms(1-3,5) m Some by (simp add: get_batch_defs Let_def to_int32_id)
    next
      assume "a = 1"
      then show ?thesis
        using assms(1-3,5) m Some by (simp add: get_batch_defs Let_def to_int32_id)
    next
      assume "min 2 a = 2"
      then show ?thesis
        using assms(1-3,5) m Some by (simp add: get_batch_defs Let_def to_int32_id)
    qed
  qed
qed

theorem get_batch_teacher_forcing_scenario_witness:
  "\<exists>b. get_batch \<lparr>BOS_ID = 2, EOS_ID = 1\<rparr> \<lparr>float32 = Fin\<rparr>
          \<lparr>encoders = [\<lparr>name = ''src'', vocab_size = 5, embedding_size = 2, cell_size = 2,
                         layers = 1, use_lstm = False, bidir = False, binary = False,
                         attention_filters = 0, attention_window_size = 0\<rparr>],
           trg_vocab_size = 5, max_output_len = 50, max_input_len = None,
        lm_weight = None, len_normalization = 1\<rparr>
          [([[Token 3, Token 4]], [3, 4])] False = Inr b
       \<and> batch_decoder_inputs b = [[2], [3], [4]]
       \<and> batch_targets b = [[3], [4], [1]]
       \<and> batch_weights b = [[1], [1], [1]]
       \<and> decoder_input_length b = [3]"
  using get_batch_teacher_forcing_scenario
    [where U = "\<lparr>BOS_ID = 2, EOS_ID = 1\<rparr>"
       and encoder = "\<lparr>name = ''src'', vocab_size = 5, embedding_size = 2, cell_size = 2,
                         layers = 1, use_lstm = False, bidir = False, binary = False,
                         attention_filters = 0, attention_window_size = 0\<rparr>"
       and M = "\<lparr>encoders = [\<lparr>name = ''src'', vocab_size = 5, embedding_size = 2,
                         cell_size = 2, layers = 1, use_lstm = False, bidir = False,
                         binary = False, attention_filters = 0,
                         attention_window_size = 0\<rparr>],
           trg_vocab_size = 5, max_output_len = 50, max_input_len = None,
           lm_weight = None, len_normalization = 1\<rparr>"
       and P = "\<lparr>float32 = Fin\<rparr>"]
  by simp

lemma then_do_Inr_iff: "then_do m f = Inr y \<longleftrightarrow> (\<exists>x. m = Inr x \<and> f x = Inr y)"
  by (cases m) simp_all

lemma in_order_Inr_D:
  "in_order cs = Inr ys \<Longrightarrow> length ys = length cs \<and> (\<forall>k < length cs. cs ! k = Inr (ys ! k))"
proof (induction cs arbitrary: ys)
  case Nil
  then show ?case by simp
next
  case (Cons c cs)
  from Cons.prems obtain x xs where c: "c = Inr x" and cs: "in_order cs = Inr xs"
    and ys: "ys = x # xs"
    by (auto simp: then_do_Inr_iff)
  from Cons.IH [OF cs] show ?case
    by (auto simp: ys c nth_Cons split: nat.splits)
qed

lemma to_int32_Inr: "to_int32 n = Inr y \<Longrightarrow> y = int32 n"
  by (auto simp: to_int32_def split: if_splits)

lemma in_order_item_int32:
  "in_order (map item_int32 row) = Inr r \<Longrightarrow> \<exists>ids. row = map Token ids \<and> r = map int32 ids"
proof (induction row arbitrary: r)
  case Nil
  then show ?case by simp
next
  case (Cons x row)
  from Cons.prems obtain y ys where x: "item_int32 x = Inr y"
    and row: "in_order (map item_int32 row) = Inr ys" and r: "r = y # ys"
    by (auto simp: then_do_Inr_iff)
  from x obtain n where n: "x = Token n" "y = int32 n"
    by (cases x) (auto dest: to_int32_Inr)
  from Cons.IH [OF row] obtain ids where "row = map Token ids" "ys = map int32 ids"
    by blast
  then have "x # row = map Token (n # ids) \<and> r = map int32 (n # ids)"
    using n r by simp
  then show ?case by (rule exI)
qed

lemma map_Token_replicate: "map Token bs = replicate p (Token e) \<Longrightarrow> bs = replicate p e"
proof (induction p arbitrary: bs)
  case 0
  then show ?case by simp
next
  case (Suc p)
  then show ?case by (cases bs) auto
qed

lemma map_Token_append_replicate:
  assumes "map Token ids = src @ replicate p (Token e)"
  shows "\<exists>ids'. src = map Token ids' \<and> ids = ids' @ replicate p e"
proof -
  from assms obtain as bs where ids: "ids = as @ bs" and as: "map Token as = src"
    and bs: "map Token bs = replicate p (Token e)"
    by (auto simp: map_eq_append_conv)
  have "bs = replicate p e"
    using bs by (rule map_Token_replicate)
  then show ?thesis
    using ids as by auto
qed

lemma binary_input_iff:
  assumes "distinct (map name (encoders M))" and "i < length (encoders M)"
  shows "name (encoders M ! i) \<in> set (binary_input M) \<longleftrightarrow> binary (encoders M ! i)"
proof
  assume "name (encoders M ! i) \<in> set (binary_input M)"
  then obtain e where e: "e \<in> set (encoders M)" "binary e" "name e = name (encoders M ! i)"
    by (auto simp: binary_input_def)
  have "inj_on name (set (encoders M))"
    using assms(1) by (simp add: distinct_map)
  then have "e = encoders M ! i"
    using e(1,3) assms(2) by (auto dest: inj_onD)
  then show "binary (encoders M ! i)"
    using e(2) by simp
next
  assume "binary (encoders M ! i)"
  then show "name (encoders M ! i) \<in> set (binary_input M)"
    using assms(2) by (auto simp: binary_input_def)
qed

lemma in_order_member:
  "in_order (map f xs) = Inr ys \<Longrightarrow> x \<in> set xs \<Longrightarrow> \<exists>y. f x = Inr y"
  by (induction xs arbitrary: ys) (auto simp: then_do_Inr_iff)

lemma all_vectors: "list_all is_vector xs \<Longrightarrow> xs = map Vector (map vector_of xs)"
proof (induction xs)
  case Nil
  then show ?case by simp
next
  case (Cons x xs)
  then show ?case by (cases x) simp_all
qed

lemma in_order_map_Inr:
  "(\<And>x. x \<in> set xs \<Longrightarrow> f x = Inr (g x)) \<Longrightarrow> in_order (map f xs) = Inr (map g xs)"
  by (induction xs) simp_all

lemma py_max_Max: "xs \<noteq> [] \<Longrightarrow> py_max xs = Inr (Max (set xs))"
  by (cases xs) (simp_all add: Max.set_eq_fold [symmetric])

lemma batch_max_input_len_wf:
  assumes "data \<noteq> []" and "\<And>d. d \<in> set data \<Longrightarrow> length (fst d) = encoder_count M"
  shows "batch_max_input_len M data =
           Inr (map (\<lambda>i. case max_input_len M of
                              None \<Rightarrow> Max ((\<lambda>d. length (fst d ! i)) ` set data)
                            | Some cap \<Rightarrow> min (Max ((\<lambda>d. length (fst d ! i)) ` set data)) cap)
                    [0..<encoder_count M])"
proof -
  have inner: "then_do (in_order (map (\<lambda>d. data_len d i) data)) py_max
                 = Inr (Max ((\<lambda>d. length (fst d ! i)) ` set data))"
    if "i \<in> set [0..<encoder_count M]" for i
  proof -
    have "in_order (map (\<lambda>d. data_len d i) data) = Inr (map (\<lambda>d. length (fst d ! i)) data)"
      using that assms(2) by (intro in_order_map_Inr) (simp add: data_len_def)
    then show ?thesis
      using assms(1) by (simp add: py_max_Max)
  qed
  have "in_order (map (\<lambda>i. then_do (in_order (map (\<lambda>d. data_len d i) data)) py_max)
                      [0..<encoder_count M])
          = Inr (map (\<lambda>i. Max ((\<lambda>d. length (fst d ! i)) ` set data)) [0..<encoder_count M])"
    by (rule in_order_map_Inr) (rule inner)
  then show ?thesis
    by (simp add: batch_max_input_len_def split: option.splits)
qed

lemma batch_max_output_len_wf:
  assumes "data \<noteq> []"
  shows "batch_max_output_len M data =
           Inr (min (Max ((\<lambda>d. length (snd d)) ` set data)) (max_output_len M))"
  using assms by (simp add: batch_max_output_len_def py_max_Max)

lemma sample_rows_wf:
  assumes "length (fst d) = length (encoders M)" and "i < length (encoders M)"
  shows "length (sample_rows U M mx d) = length (encoders M)"
    and "sample_rows U M mx d ! i = encoder_row U (encoders M ! i) (mx ! i) (fst d ! i)"
  using assms by (simp_all add: sample_rows_def)


lemma column_of_transpose:
  assumes "xs \<noteq> []" and "\<And>r. r \<in> set xs \<Longrightarrow> length r = n" and "k < length xs"
  shows "map (\<lambda>row. row ! k) (map (map f) (transpose xs)) = map f (xs ! k)"
proof -
  have "transpose xs = map (\<lambda>i. map (\<lambda>j. xs ! j ! i) [0..<length xs]) [0..<n]"
    using assms(1,2) by (intro transpose_rectangle) simp_all
  then have "map (\<lambda>row. row ! k) (map (map f) (transpose xs)) = map (\<lambda>i. f (xs ! k ! i)) [0..<n]"
    using assms(3) by (simp add: comp_def)
  also have "\<dots> = map f (map (\<lambda>i. xs ! k ! i) [0..<length (xs ! k)])"
    using assms(2,3) by (simp add: comp_def)
  also have "\<dots> = map f (xs ! k)"
    by (simp only: map_nth)
  finally show ?thesis .
qed

lemma decoder_row_length:
  "length (fst (decoder_row U M m False trg)) = m + 2"
  by (simp add: decoder_row_def Let_def)

lemma butlast_decoder_row:
  "butlast (b # t @ e # replicate p (- 1 :: int))
     = (if p = 0 then b # t else b # t @ e # replicate (p - 1) (- 1))"
proof (cases p)
  case 0
  then show ?thesis by (simp add: butlast_append)
next
  case (Suc q)
  have "b # t @ e # replicate p (- 1) = (b # t @ e # replicate q (- 1)) @ [- 1]"
    using Suc by (simp add: replicate_append_same)
  then have "butlast (b # t @ e # replicate p (- 1)) = b # t @ e # replicate q (- 1)"
    by (simp only: butlast_snoc)
  then show ?thesis
    using Suc by simp
qed

lemma select_column:
  "(\<And>r. r \<in> set rows \<Longrightarrow> i < length r) \<Longrightarrow> [r ! i. r \<leftarrow> rows, i < length r] = map (\<lambda>r. r ! i) rows"
  by (induction rows) simp_all

lemma encoder_column_wf:
  assumes "\<And>d. d \<in> set data \<Longrightarrow> length (fst d) = encoder_count M" and "i < encoder_count M"
  shows "[r ! i. r \<leftarrow> map (sample_rows U M mx) data, i < length r]
           = map (\<lambda>d. encoder_row U (encoders M ! i) (mx ! i) (fst d ! i)) data"
proof -
  have len: "i < length r" if "r \<in> set (map (sample_rows U M mx) data)" for r
    using that assms by (auto simp: encoder_count_def sample_rows_wf(1))
  have "[r ! i. r \<leftarrow> map (sample_rows U M mx) data, i < length r]
          = map (\<lambda>r. r ! i) (map (sample_rows U M mx) data)"
    using len by (rule select_column)
  also have "\<dots> = map (\<lambda>d. encoder_row U (encoders M ! i) (mx ! i) (fst d ! i)) data"
    using assms by (simp add: encoder_count_def sample_rows_wf(2))
  finally show ?thesis .
qed

lemma np_array_int_row:
  assumes "np_array P False rows = Inr arr" and "k < length rows"
    and "rows ! k = src @ replicate p (Token e)"
  shows "\<exists>ids a. src = map Token ids \<and> arr = Int32_array a
           \<and> a ! k = map int32 ids @ replicate p (int32 e)"
proof -
  from assms(1) obtain a where a: "in_order (map (\<lambda>row. in_order (map item_int32 row)) rows) = Inr a"
    and arr: "arr = Int32_array a"
    by (auto simp: np_array_def then_do_Inr_iff)
  from in_order_Inr_D [OF a] assms(2) have "in_order (map item_int32 (rows ! k)) = Inr (a ! k)"
    by simp
  from in_order_item_int32 [OF this] obtain ids where ids: "rows ! k = map Token ids"
    and ak: "a ! k = map int32 ids"
    by blast
  from ids assms(3) have "map Token ids = src @ replicate p (Token e)"
    by simp
  from map_Token_append_replicate [OF this] obtain ids' where
    "src = map Token ids'" "ids = ids' @ replicate p e"
    by blast
  then have "src = map Token ids' \<and> arr = Int32_array a
           \<and> a ! k = map int32 ids' @ replicate p (int32 e)"
    using arr ak by simp
  then show ?thesis by blast
qed

lemma np_array_float_row:
  assumes "np_array P True rows = Inr arr" and "k < length rows"
    and "rows ! k = src @ replicate p (Vector z)" and "0 < p"
  shows "\<exists>vs a. src = map Vector vs \<and> arr = Float32_array3 a
           \<and> a ! k = map (map (float32 P)) vs @ replicate p (map (float32 P) z)"
proof -
  have row: "rows ! k \<in> set rows"
    using assms(2) by simp
  have pad: "Vector z \<in> set (rows ! k)"
    using assms(3,4) by simp
  have cond: "list_all is_vector (concat rows)
      \<and> arr = Float32_array3 (map (map (\<lambda>x. map (float32 P) (vector_of x))) rows)"
  proof (rule ccontr)
    assume "\<not> ?thesis"
    with assms(1) obtain a where
      a: "in_order (map (\<lambda>row. in_order (map (item_float32 P) row)) rows) = Inr a"
      by (auto simp: np_array_def then_do_Inr_iff split: if_splits)
    from in_order_member [OF a row] obtain r where
      "in_order (map (item_float32 P) (rows ! k)) = Inr r"
      by blast
    from in_order_member [OF this pad] show False
      by simp
  qed
  have "set src \<subseteq> set (concat rows)"
    using row assms(3) by auto
  then have "list_all is_vector src"
    using cond by (auto simp: list_all_iff)
  then have src: "src = map Vector (map vector_of src)"
    by (rule all_vectors)
  have "map (map (\<lambda>x. map (float32 P) (vector_of x))) rows ! k
          = map (\<lambda>x. map (float32 P) (vector_of x)) src @ replicate p (map (float32 P) z)"
    using assms(2,3) by simp
  also have "map (\<lambda>x. map (float32 P) (vector_of x)) src
               = map (map (float32 P)) (map vector_of src)"
    by simp
  finally have "src = map Vector (map vector_of src)
      \<and> arr = Float32_array3 (map (map (\<lambda>x. map (float32 P) (vector_of x))) rows)
      \<and> map (map (\<lambda>x. map (float32 P) (vector_of x))) rows ! k
          = map (map (float32 P)) (map vector_of src) @ replicate p (map (float32 P) z)"
    using src cond by simp
  then show ?thesis by blast
qed

lemma in_order_map_nth:
  assumes "in_order (map f xs) = Inr ys" and "k < length xs"
  shows "f (xs ! k) = Inr (ys ! k)"
proof -
  have "k < length (map f xs)"
    using assms(2) by simp
  with in_order_Inr_D [OF assms(1)] have "map f xs ! k = Inr (ys ! k)"
    by blast
  then show ?thesis
    using assms(2) by simp
qed

lemma in_order_upt_nth:
  assumes "in_order (map f [0..<n]) = Inr ys" and "i < n"
  shows "f i = Inr (ys ! i)"
  using in_order_map_nth [OF assms(1), of i] assms(2) by simp

lemma get_batch_Inr_D:
  assumes "get_batch U P M data decoding = Inr b"
  shows "\<exists>max_in max_out lens dlens arrs.
      batch_max_input_len M data = Inr max_in
    \<and> batch_max_output_len M data = Inr max_out
    \<and> in_order (map (\<lambda>i. in_order (map (\<lambda>r. to_int32 (int (snd r)))
                   [r ! i. r \<leftarrow> map (sample_rows U M max_in) data, i < length r]))
                 [0..<encoder_count M]) = Inr lens
    \<and> in_order (map (\<lambda>r. to_int32 (int (snd r)))
                 (map (\<lambda>d. decoder_row U M max_out decoding (snd d)) data)) = Inr dlens
    \<and> in_order (map (\<lambda>(ext, i). np_array P (ext \<in> set (binary_input M))
                   (map fst [r ! i. r \<leftarrow> map (sample_rows U M max_in) data, i < length r]))
                 (zip (encoder_names M) [0..<encoder_count M])) = Inr arrs
    \<and> batch_encoder_inputs b = arrs
    \<and> batch_decoder_inputs b = replace_pad U (transpose (map butlast
         (map fst (map (\<lambda>d. decoder_row U M max_out decoding (snd d)) data))))
    \<and> batch_targets b = replace_pad U (transpose (map tl
         (map fst (map (\<lambda>d. decoder_row U M max_out decoding (snd d)) data))))
    \<and> batch_weights b = map (map (\<lambda>x. if x \<noteq> - 1 then 1 else 0)) (transpose (map tl
         (map fst (map (\<lambda>d. decoder_row U M max_out decoding (snd d)) data))))
    \<and> encoder_input_length b = lens
    \<and> decoder_input_length b = dlens"
  using assms unfolding get_batch_def Let_def then_do_Inr_iff
  by (elim exE conjE) (intro exI conjI, assumption+, auto)

text \<open>
  Claim C8, as the code has it. For a batch that \<open>get_batch\<close> builds from samples with
  one source sentence per encoder, the encoders named apart, and no target token nor
  \<open>utils.BOS_ID\<close> or \<open>utils.EOS_ID\<close> equal to the internal padding marker \<open>-1\<close>:

  \<^item> the sentences of encoder \<open>i\<close> are cut to \<open>m\<close>, the length of the longest of them in the
    batch, or \<open>max_input_len\<close> if that is set and smaller, and padded to \<open>m + 1\<close> entries:
    token ids with \<open>utils.EOS_ID\<close>, stored as 32-bit integers, and vectors of a binary
    encoder with the vector of \<open>embedding_size\<close> zeros, stored as \<open>float32\<close>;
  \<^item> the length vector of the encoder holds the length of the cut sentence plus one, as a
    32-bit integer;
  \<^item> outside decoding mode the decoder inputs of a sample are \<open>BOS\<close>, the target cut to
    \<open>max_out\<close> (the longest target of the batch, or \<open>max_output_len\<close> if that is smaller)
    and \<open>utils.EOS_ID\<close> up to \<open>max_out + 1\<close> entries; the targets are the cut target and
    \<open>utils.EOS_ID\<close> up to \<open>max_out + 1\<close> entries; the weights are one on the cut target and
    its end marker and zero on the padding; the decoder length is the length of the cut
    target plus one;
  \<^item> in decoding mode the decoder length is \<open>max_output_len\<close>, whatever the target.
\<close>

theorem get_batch_padding:
  assumes built: "get_batch U P M data decoding = Inr b"
    and sources: "\<forall>d \<in> set data. length (fst d) = length (encoders M)"
    and names: "distinct (map name (encoders M))"
    and tokens: "\<forall>d \<in> set data. - 1 \<notin> set (snd d)"
    and special: "BOS_ID U \<noteq> - 1" "EOS_ID U \<noteq> - 1"
    and zero: "float32 P 0 = Fin 0"
  shows "(\<forall>i < length (encoders M). \<forall>k < length data.
           (let longest = Max ((\<lambda>d. length (fst d ! i)) ` set data);
                m = (case max_input_len M of None \<Rightarrow> longest | Some cap \<Rightarrow> min longest cap);
                src = take m (fst (data ! k) ! i);
                pads = m + 1 - length src
            in (if binary (encoders M ! i)
                then (\<exists>vectors rows. src = map Vector vectors
                        \<and> batch_encoder_inputs b ! i = Float32_array3 rows
                        \<and> rows ! k = map (map (float32 P)) vectors
                             @ replicate pads (replicate (embedding_size (encoders M ! i)) (Fin 0)))
                else (\<exists>ids rows. src = map Token ids
                        \<and> batch_encoder_inputs b ! i = Int32_array rows
                        \<and> rows ! k = map int32 ids @ replicate pads (int32 (EOS_ID U))))
               \<and> encoder_input_length b ! i ! k = int32 (int (length src + 1))))
       \<and> (\<forall>k < length data.
           (let max_out = min (Max ((\<lambda>d. length (snd d)) ` set data)) (max_output_len M);
                trg = take max_out (snd (data ! k))
            in if decoding
               then decoder_input_length b ! k = int32 (int (max_output_len M))
               else map (\<lambda>row. row ! k) (batch_decoder_inputs b)
                      = BOS_ID U # trg @ replicate (max_out - length trg) (EOS_ID U)
                  \<and> map (\<lambda>row. row ! k) (batch_targets b)
                      = trg @ replicate (max_out - length trg + 1) (EOS_ID U)
                  \<and> map (\<lambda>row. row ! k) (batch_weights b)
                      = replicate (length trg + 1) 1 @ replicate (max_out - length trg) 0
                  \<and> decoder_input_length b ! k = int32 (int (length trg + 1))))"
proof -
  from get_batch_Inr_D [OF built] obtain max_in max_out lens dlens arrs where
      mi: "batch_max_input_len M data = Inr max_in"
    and mo: "batch_max_output_len M data = Inr max_out"
    and L: "in_order (map (\<lambda>i. in_order (map (\<lambda>r. to_int32 (int (snd r)))
                   [r ! i. r \<leftarrow> map (sample_rows U M max_in) data, i < length r]))
                 [0..<encoder_count M]) = Inr lens"
    and D: "in_order (map (\<lambda>r. to_int32 (int (snd r)))
                 (map (\<lambda>d. decoder_row U M max_out decoding (snd d)) data)) = Inr dlens"
    and A: "in_order (map (\<lambda>(ext, i). np_array P (ext \<in> set (binary_input M))
                   (map fst [r ! i. r \<leftarrow> map (sample_rows U M max_in) data, i < length r]))
                 (zip (encoder_names M) [0..<encoder_count M])) = Inr arrs"
    and b_enc: "batch_encoder_inputs b = arrs"
    and b_in: "batch_decoder_inputs b = replace_pad U (transpose (map butlast
         (map fst (map (\<lambda>d. decoder_row U M max_out decoding (snd d)) data))))"
    and b_tg: "batch_targets b = replace_pad U (transpose (map tl
         (map fst (map (\<lambda>d. decoder_row U M max_out decoding (snd d)) data))))"
    and b_w: "batch_weights b = map (map (\<lambda>x. if x \<noteq> - 1 then 1 else 0)) (transpose (map tl
         (map fst (map (\<lambda>d. decoder_row U M max_out decoding (snd d)) data))))"
    and b_len: "encoder_input_length b = lens"
    and b_dlen: "decoder_input_length b = dlens"
    by blast
  have nonempty: "data \<noteq> []"
    using mo by (auto simp: batch_max_output_len_def)
  from sources have src: "\<And>d. d \<in> set data \<Longrightarrow> length (fst d) = encoder_count M"
    by (simp add: encoder_count_def)
  have max_in: "max_in = map (\<lambda>i. case max_input_len M of
                              None \<Rightarrow> Max ((\<lambda>d. length (fst d ! i)) ` set data)
                            | Some cap \<Rightarrow> min (Max ((\<lambda>d. length (fst d ! i)) ` set data)) cap)
                    [0..<encoder_count M]"
    using batch_max_input_len_wf [OF nonempty src] mi by simp
  have max_out: "max_out = min (Max ((\<lambda>d. length (snd d)) ` set data)) (max_output_len M)"
    using batch_max_output_len_wf [OF nonempty, where M = M] mo by simp
  have enc: "(if binary (encoders M ! i)
                then (\<exists>vectors rows. take (max_in ! i) (fst (data ! k) ! i) = map Vector vectors
                        \<and> batch_encoder_inputs b ! i = Float32_array3 rows
                        \<and> rows ! k = map (map (float32 P)) vectors
                             @ replicate (max_in ! i + 1 - length (take (max_in ! i) (fst (data ! k) ! i)))
                                 (replicate (embedding_size (encoders M ! i)) (Fin 0)))
                else (\<exists>ids rows. take (max_in ! i) (fst (data ! k) ! i) = map Token ids
                        \<and> batch_encoder_inputs b ! i = Int32_array rows
                        \<and> rows ! k = map int32 ids
                             @ replicate (max_in ! i + 1 - length (take (max_in ! i) (fst (data ! k) ! i)))
                                 (int32 (EOS_ID U))))
               \<and> encoder_input_length b ! i ! k
                   = int32 (int (length (take (max_in ! i) (fst (data ! k) ! i)) + 1))"
    if i: "i < length (encoders M)" and k: "k < length data" for i k
  proof -
    define e where "e = encoders M ! i"
    define m where "m = max_in ! i"
    define s where "s = take m (fst (data ! k) ! i)"
    define p where "p = m + 1 - length s"
    have i': "i < encoder_count M"
      using i by (simp add: encoder_count_def)
    have col: "[r ! i. r \<leftarrow> map (sample_rows U M max_in) data, i < length r]
                 = map (\<lambda>d. encoder_row U e m (fst d ! i)) data"
      unfolding e_def m_def by (rule encoder_column_wf [OF src i'])
    have p: "0 < p"
      by (simp add: p_def s_def)
    have rowk: "map fst (map (\<lambda>d. encoder_row U e m (fst d ! i)) data) ! k
                  = s @ replicate p (encoder_pad_item U e)"
      using k by (simp add: encoder_row_def Let_def s_def p_def)
    have lenk: "snd (map (\<lambda>d. encoder_row U e m (fst d ! i)) data ! k) = length s + 1"
      using k by (simp add: encoder_row_def Let_def s_def)
    have "in_order (map (\<lambda>r. to_int32 (int (snd r)))
               (map (\<lambda>d. encoder_row U e m (fst d ! i)) data)) = Inr (lens ! i)"
      using in_order_upt_nth [OF L i'] unfolding col .
    from in_order_map_nth [OF this] k
    have "to_int32 (int (snd (map (\<lambda>d. encoder_row U e m (fst d ! i)) data ! k)))
            = Inr (lens ! i ! k)"
      by simp
    then have len: "encoder_input_length b ! i ! k = int32 (int (length s + 1))"
      unfolding lenk b_len by (rule to_int32_Inr)
    have zipi: "zip (encoder_names M) [0..<encoder_count M] ! i = (name e, i)"
      using i by (simp add: encoder_names_def encoder_count_def e_def)
    have "i < length (zip (encoder_names M) [0..<encoder_count M])"
      using i by (simp add: encoder_names_def encoder_count_def)
    from in_order_map_nth [OF A this]
    have "np_array P (name e \<in> set (binary_input M))
               (map fst [r ! i. r \<leftarrow> map (sample_rows U M max_in) data, i < length r])
            = Inr (arrs ! i)"
      unfolding zipi by simp
    then have arr: "np_array P (binary e)
               (map fst (map (\<lambda>d. encoder_row U e m (fst d ! i)) data)) = Inr (arrs ! i)"
      unfolding col using binary_input_iff [OF names i] by (simp add: e_def)
    have k': "k < length (map fst (map (\<lambda>d. encoder_row U e m (fst d ! i)) data))"
      using k by simp
    have arrays: "if binary e
            then (\<exists>vectors rows. s = map Vector vectors
                    \<and> batch_encoder_inputs b ! i = Float32_array3 rows
                    \<and> rows ! k = map (map (float32 P)) vectors
                         @ replicate p (replicate (embedding_size e) (Fin 0)))
            else (\<exists>ids rows. s = map Token ids
                    \<and> batch_encoder_inputs b ! i = Int32_array rows
                    \<and> rows ! k = map int32 ids @ replicate p (int32 (EOS_ID U)))"
    proof (cases "binary e")
      case True
      then have pad: "encoder_pad_item U e = Vector (replicate (embedding_size e) 0)"
        by (simp add: encoder_pad_item_def)
      from arr True have "np_array P True
               (map fst (map (\<lambda>d. encoder_row U e m (fst d ! i)) data)) = Inr (arrs ! i)"
        by simp
      from np_array_float_row [OF this k' rowk [unfolded pad] p]
      show ?thesis
        using True zero by (simp add: b_enc)
    next
      case False
      then have pad: "encoder_pad_item U e = Token (EOS_ID U)"
        by (simp add: encoder_pad_item_def)
      from arr False have "np_array P False
               (map fst (map (\<lambda>d. encoder_row U e m (fst d ! i)) data)) = Inr (arrs ! i)"
        by simp
      from np_array_int_row [OF this k' rowk [unfolded pad]]
      show ?thesis
        using False by (simp add: b_enc)
    qed
    from arrays len show ?thesis
      unfolding e_def m_def s_def p_def by blast
  qed
  have dlen_decoding: "decoder_input_length b ! k = int32 (int (max_output_len M))"
    if "decoding" and k: "k < length data" for k
  proof -
    have "k < length (map (\<lambda>d. decoder_row U M max_out decoding (snd d)) data)"
      using k by simp
    from in_order_map_nth [OF D this] k
    have "to_int32 (int (snd (decoder_row U M max_out decoding (snd (data ! k))))) = Inr (dlens ! k)"
      by simp
    then have "to_int32 (int (max_output_len M)) = Inr (dlens ! k)"
      using that(1) by (simp add: decoder_row_def)
    then show ?thesis
      unfolding b_dlen by (rule to_int32_Inr)
  qed
  define drows where "drows = map (\<lambda>d. fst (decoder_row U M max_out False (snd d))) data"
  have dec: "map (\<lambda>row. row ! k) (batch_decoder_inputs b)
                = BOS_ID U # take max_out (snd (data ! k))
                    @ replicate (max_out - length (take max_out (snd (data ! k)))) (EOS_ID U)
            \<and> map (\<lambda>row. row ! k) (batch_targets b)
                = take max_out (snd (data ! k))
                    @ replicate (max_out - length (take max_out (snd (data ! k))) + 1) (EOS_ID U)
            \<and> map (\<lambda>row. row ! k) (batch_weights b)
                = replicate (length (take max_out (snd (data ! k))) + 1) 1
                    @ replicate (max_out - length (take max_out (snd (data ! k)))) 0
            \<and> decoder_input_length b ! k = int32 (int (length (take max_out (snd (data ! k))) + 1))"
    if nd: "\<not> decoding" and k: "k < length data" for k
  proof -
    define trg where "trg = take max_out (snd (data ! k))"
    define p where "p = max_out - length trg"
    have "- 1 \<notin> set (snd (data ! k))"
      using tokens k by simp
    then have notin: "- 1 \<notin> set trg"
      by (auto simp: trg_def dest: in_set_takeD)
    then have clean: "map (\<lambda>x. if x = - 1 then EOS_ID U else x) trg = trg"
      by (intro map_idI) auto
    have row: "drows ! k = BOS_ID U # trg @ [EOS_ID U] @ replicate p (- 1)"
      using k by (simp add: drows_def decoder_row_def Let_def trg_def p_def)
    have ne1: "map butlast drows \<noteq> []" and ne2: "map tl drows \<noteq> []"
      using nonempty by (simp_all add: drows_def)
    have l1: "length r = max_out + 1" if "r \<in> set (map butlast drows)" for r
      using that by (auto simp: drows_def decoder_row_length)
    have l2: "length r = max_out + 1" if "r \<in> set (map tl drows)" for r
      using that by (auto simp: drows_def decoder_row_length)
    have k1: "k < length (map butlast drows)" and k2: "k < length (map tl drows)"
      using k by (simp_all add: drows_def)
    have b_in': "batch_decoder_inputs b = replace_pad U (transpose (map butlast drows))"
      and b_tg': "batch_targets b = replace_pad U (transpose (map tl drows))"
      and b_w': "batch_weights b
                  = map (map (\<lambda>x. if x \<noteq> - 1 then 1 else 0)) (transpose (map tl drows))"
      using nd by (simp_all add: b_in b_tg b_w drows_def comp_def)
    have c1: "map (\<lambda>row. row ! k) (batch_decoder_inputs b)
                = BOS_ID U # trg @ replicate p (EOS_ID U)"
    proof -
      have "map (\<lambda>row. row ! k) (batch_decoder_inputs b)
              = map (\<lambda>x. if x = - 1 then EOS_ID U else x) (map butlast drows ! k)"
        unfolding b_in' replace_pad_def by (rule column_of_transpose [OF ne1 l1 k1])
      also have "map butlast drows ! k = butlast (drows ! k)"
        using k1 by simp
      also have "butlast (drows ! k)
                   = (if p = 0 then BOS_ID U # trg
                      else BOS_ID U # trg @ EOS_ID U # replicate (p - 1) (- 1))"
        unfolding row by (simp only: append_Cons append_Nil butlast_decoder_row)
      finally show ?thesis
        using special clean by (cases p) simp_all
    qed
    have c2: "map (\<lambda>row. row ! k) (batch_targets b) = trg @ replicate (p + 1) (EOS_ID U)"
    proof -
      have "map (\<lambda>row. row ! k) (batch_targets b)
              = map (\<lambda>x. if x = - 1 then EOS_ID U else x) (map tl drows ! k)"
        unfolding b_tg' replace_pad_def by (rule column_of_transpose [OF ne2 l2 k2])
      then show ?thesis
        using k2 clean by (simp add: row replicate_app_Cons_same)
    qed
    have w: "map (\<lambda>x. if x \<noteq> - 1 then (1::real) else 0) trg = replicate (length trg) 1"
      using notin by (induction trg) auto
    have c3: "map (\<lambda>row. row ! k) (batch_weights b)
                = replicate (length trg + 1) 1 @ replicate p 0"
    proof -
      have "map (\<lambda>row. row ! k) (batch_weights b)
              = map (\<lambda>x. if x \<noteq> - 1 then 1 else 0) (map tl drows ! k)"
        unfolding b_w' by (rule column_of_transpose [OF ne2 l2 k2])
      then show ?thesis
        using k2 special w by (simp add: row replicate_append_same)
    qed
    have c4: "decoder_input_length b ! k = int32 (int (length trg + 1))"
    proof -
      have "k < length (map (\<lambda>d. decoder_row U M max_out decoding (snd d)) data)"
        using k by simp
      from in_order_map_nth [OF D this] k
      have "to_int32 (int (snd (decoder_row U M max_out decoding (snd (data ! k)))))
              = Inr (dlens ! k)"
        by simp
      then have "to_int32 (int (length trg + 1)) = Inr (dlens ! k)"
        using nd by (simp add: decoder_row_def Let_def trg_def)
      then show ?thesis
        unfolding b_dlen by (rule to_int32_Inr)
    qed
    show ?thesis
      using c1 c2 c3 c4 by (simp add: trg_def p_def)
  qed
  have part1: "\<forall>i < length (encoders M). \<forall>k < length data.
           (let longest = Max ((\<lambda>d. length (fst d ! i)) ` set data);
                m = (case max_input_len M of None \<Rightarrow> longest | Some cap \<Rightarrow> min longest cap);
                src = take m (fst (data ! k) ! i);
                pads = m + 1 - length src
            in (if binary (encoders M ! i)
                then (\<exists>vectors rows. src = map Vector vectors
                        \<and> batch_encoder_inputs b ! i = Float32_array3 rows
                        \<and> rows ! k = map (map (float32 P)) vectors
                             @ replicate pads (replicate (embedding_size (encoders M ! i)) (Fin 0)))
                else (\<exists>ids rows. src = map Token ids
                        \<and> batch_encoder_inputs b ! i = Int32_array rows
                        \<and> rows ! k = map int32 ids @ replicate pads (int32 (EOS_ID U))))
               \<and> encoder_input_length b ! i ! k = int32 (int (length src + 1)))"
  proof (intro allI impI)
    fix i k assume i: "i < length (encoders M)" and k: "k < length data"
    have m: "max_in ! i = (case max_input_len M of
                              None \<Rightarrow> Max ((\<lambda>d. length (fst d ! i)) ` set data)
                            | Some cap \<Rightarrow> min (Max ((\<lambda>d. length (fst d ! i)) ` set data)) cap)"
      using i by (simp add: max_in encoder_count_def split: option.splits)
    from enc [OF i k] show "let longest = Max ((\<lambda>d. length (fst d ! i)) ` set data);
                m = (case max_input_len M of None \<Rightarrow> longest | Some cap \<Rightarrow> min longest cap);
                src = take m (fst (data ! k) ! i);
                pads = m + 1 - length src
            in (if binary (encoders M ! i)
                then (\<exists>vectors rows. src = map Vector vectors
                        \<and> batch_encoder_inputs b ! i = Float32_array3 rows
                        \<and> rows ! k = map (map (float32 P)) vectors
                             @ replicate pads (replicate (embedding_size (encoders M ! i)) (Fin 0)))
                else (\<exists>ids rows. src = map Token ids
                        \<and> batch_encoder_inputs b ! i = Int32_array rows
                        \<and> rows ! k = map int32 ids @ replicate pads (int32 (EOS_ID U))))
               \<and> encoder_input_length b ! i ! k = int32 (int (length src + 1))"
      unfolding Let_def m [symmetric] .
  qed
  have part2: "\<forall>k < length data.
           (let max_out = min (Max ((\<lambda>d. length (snd d)) ` set data)) (max_output_len M);
                trg = take max_out (snd (data ! k))
            in if decoding
               then decoder_input_length b ! k = int32 (int (max_output_len M))
               else map (\<lambda>row. row ! k) (batch_decoder_inputs b)
                      = BOS_ID U # trg @ replicate (max_out - length trg) (EOS_ID U)
                  \<and> map (\<lambda>row. row ! k) (batch_targets b)
                      = trg @ replicate (max_out - length trg + 1) (EOS_ID U)
                  \<and> map (\<lambda>row. row ! k) (batch_weights b)
                      = replicate (length trg + 1) 1 @ replicate (max_out - length trg) 0
                  \<and> decoder_input_length b ! k = int32 (int (length trg + 1)))"
  proof (intro allI impI)
    fix k assume k: "k < length data"
    show "let max_out = min (Max ((\<lambda>d. length (snd d)) ` set data)) (max_output_len M);
                trg = take max_out (snd (data ! k))
            in if decoding
               then decoder_input_length b ! k = int32 (int (max_output_len M))
               else map (\<lambda>row. row ! k) (batch_decoder_inputs b)
                      = BOS_ID U # trg @ replicate (max_out - length trg) (EOS_ID U)
                  \<and> map (\<lambda>row. row ! k) (batch_targets b)
                      = trg @ replicate (max_out - length trg + 1) (EOS_ID U)
                  \<and> map (\<lambda>row. row ! k) (batch_weights b)
                      = replicate (length trg + 1) 1 @ replicate (max_out - length trg) 0
                  \<and> decoder_input_length b ! k = int32 (int (length trg + 1))"
    proof (cases decoding)
      case True
      then show ?thesis
        using dlen_decoding [OF True k] by (simp add: Let_def)
    next
      case False
      from dec [OF False k] False show ?thesis
        unfolding Let_def max_out [symmetric] by simp
    qed
  qed
  from part1 part2 show ?thesis ..
qed

lemma replicate_numeral_Cons: "replicate (numeral k) x = x # replicate (pred_numeral k) x"
  by (simp add: numeral_eq_Suc)

theorem get_batch_padding_witness:
  "get_batch example_utils example_numpy example_pair_model example_pair_data False
     = Inr example_pair_batch
   \<and> batch_encoder_inputs example_pair_batch ! 0 = Int32_array [[3, 4, 1], [3, 1, 1]]
   \<and> batch_encoder_inputs example_pair_batch ! 1
       = Float32_array3 [[[Fin (1 / 2), Fin 1], [Fin 0, Fin 0], [Fin 0, Fin 0]],
                         [[Fin 1, Fin 0], [Fin 0, Fin 1], [Fin 0, Fin 0]]]
   \<and> encoder_input_length example_pair_batch ! 0 ! 1 = 2
   \<and> map (\<lambda>row. row ! 1) (batch_decoder_inputs example_pair_batch) = [2, 3, 1]
   \<and> map (\<lambda>row. row ! 1) (batch_targets example_pair_batch) = [3, 1, 1]
   \<and> map (\<lambda>row. row ! 1) (batch_weights example_pair_batch) = [1, 1, 0]
   \<and> decoder_input_length example_pair_batch ! 1 = 2"
proof -
  have built: "get_batch example_utils example_numpy example_pair_model example_pair_data False
                 = Inr example_pair_batch"
    by (simp add: get_batch_defs Let_def to_int32_id example_utils_def example_numpy_def
          example_pair_model_def example_pair_data_def example_pair_batch_def
          example_encoder_def example_binary_encoder_def replicate_numeral_Cons)
  have sources: "\<forall>d \<in> set example_pair_data. length (fst d) = length (encoders example_pair_model)"
    by (simp add: example_pair_data_def example_pair_model_def)
  have names: "distinct (map name (encoders example_pair_model))"
    by (simp add: example_pair_model_def example_encoder_def example_binary_encoder_def)
  have tokens: "\<forall>d \<in> set example_pair_data. - 1 \<notin> set (snd d)"
    by (simp add: example_pair_data_def)
  have special: "BOS_ID example_utils \<noteq> - 1" "EOS_ID example_utils \<noteq> - 1"
    by (simp_all add: example_utils_def)
  have zero: "float32 example_numpy 0 = Fin 0"
    by (simp add: example_numpy_def)
  note padding = get_batch_padding [OF built sources names tokens special zero]
  have k: "1 < length example_pair_data"
    by (simp add: example_pair_data_def)
  from padding [THEN conjunct2, rule_format, OF k]
  have dec: "map (\<lambda>row. row ! 1) (batch_decoder_inputs example_pair_batch) = [2, 3, 1]
       \<and> map (\<lambda>row. row ! 1) (batch_targets example_pair_batch) = [3, 1, 1]
       \<and> map (\<lambda>row. row ! 1) (batch_weights example_pair_batch) = [1, 1, 0]
       \<and> decoder_input_length example_pair_batch ! 1 = 2"
    by (simp add: Let_def example_pair_data_def example_pair_model_def example_utils_def
          int32_id)
  have enc: "batch_encoder_inputs example_pair_batch ! 0 = Int32_array [[3, 4, 1], [3, 1, 1]]
       \<and> batch_encoder_inputs example_pair_batch ! 1
           = Float32_array3 [[[Fin (1 / 2), Fin 1], [Fin 0, Fin 0], [Fin 0, Fin 0]],
                             [[Fin 1, Fin 0], [Fin 0, Fin 1], [Fin 0, Fin 0]]]
       \<and> encoder_input_length example_pair_batch ! 0 ! 1 = 2"
    by (simp add: example_pair_batch_def)
  from built enc dec show ?thesis
    by simp
qed

text \<open>
  Claim C8, as stated, fails in four ways, each shown on the vocabulary of the
  specification (\<open>EOS = 1, BOS = 2\<close>). The shorter source sentence and the shorter
  target are padded with token 1, not with the token of index 0. In decoding mode the
  decoder length is \<open>max_output_len\<close> (here 3), not the length of the target with its end
  marker (here 2). A sentence longer than \<open>max_input_len\<close> or \<open>max_output_len\<close> is cut,
  and the lengths recorded are those of the cut sentences (here 2 and 2), not the true
  ones (3 and 3). And a target token \<open>-1\<close> is taken for padding: its weight is 0 and the
  target holds \<open>EOS\<close> in its place.
\<close>

theorem get_batch_padding_counterexample:
  "get_batch example_utils example_numpy example_model
     [([[Token 3, Token 4]], [3, 4]), ([[Token 3]], [3])] False
   = Inr \<lparr>batch_encoder_inputs = [Int32_array [[3, 4, 1], [3, 1, 1]]],
          batch_decoder_inputs = [[2, 2], [3, 3], [4, 1]],
          batch_targets = [[3, 3], [4, 1], [1, 1]],
          batch_weights = [[1, 1], [1, 1], [1, 0]],
          encoder_input_length = [[3, 2]],
          decoder_input_length = [3, 2]\<rparr>
   \<and> Int32_array [[3, 4, 1], [3, 1, 1]] \<noteq> Int32_array [[3, 4, 1], [3, 1, 0]]
   \<and> get_batch example_utils example_numpy (example_model \<lparr>max_output_len := 3\<rparr>)
        [([[Token 3]], [3])] True
      = Inr \<lparr>batch_encoder_inputs = [Int32_array [[3, 1]]],
             batch_decoder_inputs = [[2], [1], [1]],
             batch_targets = [[1], [1], [1]],
             batch_weights = [[1], [1], [1]],
             encoder_input_length = [[2]],
             decoder_input_length = [3]\<rparr>
   \<and> [3] \<noteq> [int (length [3 :: int]) + 1]
   \<and> get_batch example_utils example_numpy
        (example_model \<lparr>max_output_len := 1, max_input_len := Some 1\<rparr>)
        [([[Token 3, Token 4]], [3, 4])] False
      = Inr \<lparr>batch_encoder_inputs = [Int32_array [[3, 1]]],
             batch_decoder_inputs = [[2], [3]],
             batch_targets = [[3], [1]],
             batch_weights = [[1], [1]],
             encoder_input_length = [[2]],
             decoder_input_length = [2]\<rparr>
   \<and> [2] \<noteq> [int (length [Token 3, Token 4]) + 1]
   \<and> get_batch example_utils example_numpy example_model [([[Token 3]], [- 1, 4])] False
      = Inr \<lparr>batch_encoder_inputs = [Int32_array [[3, 1]]],
             batch_decoder_inputs = [[2], [1], [4]],
             batch_targets = [[1], [4], [1]],
             batch_weights = [[0], [1], [1]],
             encoder_input_length = [[2]],
             decoder_input_length = [3]\<rparr>"
  by (simp add: get_batch_defs Let_def to_int32_id example_utils_def example_numpy_def
        example_model_def example_encoder_def replicate_numeral_Cons)
subsection \<open>Beam search\<close>

lemma np_average_shape:
  "np_average a w rows cols = Inr avg \<Longrightarrow> length avg = rows \<and> (\<forall>r < rows. length (avg ! r) = cols)"
  by (auto simp: np_average_def Let_def split: option.splits if_splits)

lemma length_concat_rows: "length (concat (map (\<lambda>r. map (f r) [0..<c]) [0..<b])) = b * c"
  by (induction b) simp_all

lemma length_candidate_scores:
  "candidate_scores U M n est ngrams hyps sc dos = Inr sc' \<Longrightarrow> length sc' = length sc * trg_vocab_size M"
  by (auto simp: candidate_scores_def then_do_Inr_iff length_concat_rows split: option.splits prod.splits)

lemma set_argsort: "set (argsort xs) = {0..<length xs}"
  by (simp add: argsort_def)

lemma length_argsort: "length (argsort xs) = length xs"
  by (simp add: argsort_def)

lemma slice_to_bounds:
  "0 \<le> n \<Longrightarrow> int (length (slice_to xs n)) \<le> n" "set (slice_to xs n) \<subseteq> set xs"
  by (auto simp: slice_to_def dest: in_set_takeD)


lemma keep_candidate_fold:
  assumes "\<forall>h \<in> set hyps. length h = n"
    and "\<forall>k \<in> set ids. k div trg_vocab_size M < length hyps"
    and "length (scores acc) = length (hypotheses acc)
         \<and> length (finished_scores acc) = length (finished_hypotheses acc)"
    and "\<forall>h \<in> set (hypotheses acc). length h = Suc n"
    and "\<forall>h \<in> set (finished_hypotheses acc). h \<noteq> [] \<and> last h = EOS_ID U"
  shows "(let s' = foldl (keep_candidate U M hyps res sc) acc ids in
            beam_size s' + int (length (finished_hypotheses s'))
              = beam_size acc + int (length (finished_hypotheses acc))
          \<and> length (hypotheses s') + length (finished_hypotheses s')
              = length (hypotheses acc) + length (finished_hypotheses acc) + length ids
          \<and> (length (scores s') = length (hypotheses s')
             \<and> length (finished_scores s') = length (finished_hypotheses s'))
          \<and> (\<forall>h \<in> set (hypotheses s'). length h = Suc n)
          \<and> (\<forall>h \<in> set (finished_hypotheses s'). h \<noteq> [] \<and> last h = EOS_ID U)
          \<and> length (finished_hypotheses acc) \<le> length (finished_hypotheses s'))"
  using assms
proof (induction ids arbitrary: acc)
  case Nil
  then show ?case by simp
next
  case (Cons k ids)
  define acc' where "acc' = keep_candidate U M hyps res sc acc k"
  have k: "k div trg_vocab_size M < length hyps"
    using Cons.prems(2) by simp
  then have len: "length (hyps ! (k div trg_vocab_size M)) = n"
    using Cons.prems(1) by simp
  have 1: "beam_size acc' + int (length (finished_hypotheses acc'))
             = beam_size acc + int (length (finished_hypotheses acc))"
    and 2: "length (hypotheses acc') + length (finished_hypotheses acc')
             = Suc (length (hypotheses acc) + length (finished_hypotheses acc))"
    and 3: "length (scores acc') = length (hypotheses acc')
            \<and> length (finished_scores acc') = length (finished_hypotheses acc')"
    and 4: "\<forall>h \<in> set (hypotheses acc'). length h = Suc n"
    and 5: "\<forall>h \<in> set (finished_hypotheses acc'). h \<noteq> [] \<and> last h = EOS_ID U"
    and 6: "length (finished_hypotheses acc) \<le> length (finished_hypotheses acc')"
    using Cons.prems(3-5) len by (auto simp: acc'_def keep_candidate_def Let_def)
  have "\<forall>k \<in> set ids. k div trg_vocab_size M < length hyps"
    using Cons.prems(2) by simp
  from Cons.IH [OF Cons.prems(1) this 3 4 5] 1 2 6
  show ?case
    by (simp add: Let_def acc'_def)
qed


lemma beam_step_inv:
  assumes inv: "beam_inv U B n s"
    and step: "beam_step U M sessions enc_length attn_states est ngrams t s = Inr s'"
  shows "beam_inv U B (Suc n) s' \<and> beam_size s' \<le> beam_size s
         \<and> length (finished_hypotheses s) \<le> length (finished_hypotheses s')"
proof -
  from step obtain input_feed sc where
    sc: "candidate_scores U M (length sessions) est ngrams (hypotheses s) (scores s)
           (map decoder_output (map (\<lambda>(session', feed). run_beam_step session' feed)
              (zip sessions input_feed))) = Inr sc"
    and s': "s' = foldl (keep_candidate U M (hypotheses s)
                     (map (\<lambda>(session', feed). run_beam_step session' feed) (zip sessions input_feed)) sc)
                   (s \<lparr> hypotheses := [], state := map (\<lambda>_. []) sessions,
                        output := Some (map (\<lambda>_. []) sessions), scores := [],
                        decoder_input := [] \<rparr>)
                   (slice_to (argsort sc) (beam_size s))"
    by (auto simp: beam_step_def then_do_Inr_iff Let_def)
  define ids where "ids = slice_to (argsort sc) (beam_size s)"
  have nonneg: "0 \<le> beam_size s"
    using inv by (simp add: beam_inv_def)
  have len_ids: "int (length ids) \<le> beam_size s"
    unfolding ids_def using nonneg by (rule slice_to_bounds(1))
  have "length sc = length (hypotheses s) * trg_vocab_size M"
    using length_candidate_scores [OF sc] inv by (simp add: beam_inv_def)
  then have in_range: "\<forall>k \<in> set ids. k div trg_vocab_size M < length (hypotheses s)"
    using slice_to_bounds(2) [of "argsort sc" "beam_size s"]
    by (auto simp: ids_def set_argsort less_mult_imp_div_less)
  have hyps: "\<forall>h \<in> set (hypotheses s). length h = n"
    using inv by (simp add: beam_inv_def)
  have fin: "\<forall>h \<in> set (finished_hypotheses s). h \<noteq> [] \<and> last h = EOS_ID U"
    using inv by (simp add: beam_inv_def)
  have B: "beam_size s + int (length (finished_hypotheses s)) = B"
    using inv by (simp add: beam_inv_def)
  have lens: "length (finished_scores s) = length (finished_hypotheses s)"
    using inv by (simp add: beam_inv_def)
  from keep_candidate_fold [OF hyps in_range, where U = U and sc = sc
      and acc = "s \<lparr> hypotheses := [], state := map (\<lambda>_. []) sessions,
                        output := Some (map (\<lambda>_. []) sessions), scores := [],
                        decoder_input := [] \<rparr>"
      and res = "map (\<lambda>(session', feed). run_beam_step session' feed) (zip sessions input_feed)"]
    fin lens
  have r: "beam_size s' + int (length (finished_hypotheses s'))
             = beam_size s + int (length (finished_hypotheses s))"
      "length (hypotheses s') + length (finished_hypotheses s')
             = length (finished_hypotheses s) + length ids"
      "length (scores s') = length (hypotheses s')"
      "length (finished_scores s') = length (finished_hypotheses s')"
      "\<forall>h \<in> set (hypotheses s'). length h = Suc n"
      "\<forall>h \<in> set (finished_hypotheses s'). h \<noteq> [] \<and> last h = EOS_ID U"
      "length (finished_hypotheses s) \<le> length (finished_hypotheses s')"
    unfolding s' ids_def [symmetric] by (simp_all add: Let_def)
  have "int (length (hypotheses s')) \<le> beam_size s'"
    using r(1,2) len_ids by linarith
  then show ?thesis
    using r B by (simp add: beam_inv_def)
qed

lemma beam_loop_inv:
  assumes pres: "\<And>t n s s'. beam_inv U B n s \<Longrightarrow> step t s = Inr s' \<Longrightarrow> beam_inv U B (Suc n) s'"
  shows "beam_inv U B n s \<Longrightarrow> beam_loop step ts s = Inr s' \<Longrightarrow>
           \<exists>k \<le> length ts. beam_inv U B (n + k) s' \<and> (k = length ts \<or> beam_size s' \<le> 0)"
proof (induction ts arbitrary: n s)
  case Nil
  then show ?case by simp
next
  case (Cons t ts)
  from Cons.prems(2) obtain s1 where s1: "step t s = Inr s1"
    and rest: "(if beam_size s1 \<le> 0 then Inr s1 else beam_loop step ts s1) = Inr s'"
    by (auto simp: then_do_Inr_iff)
  have inv1: "beam_inv U B (Suc n) s1"
    using pres [OF Cons.prems(1) s1] .
  show ?case
  proof (cases "beam_size s1 \<le> 0")
    case True
    then have "s' = s1" using rest by simp
    then have "beam_inv U B (n + 1) s' \<and> beam_size s' \<le> 0"
      using inv1 True by simp
    then show ?thesis
      by (intro exI [of _ 1]) simp
  next
    case False
    then have "beam_loop step ts s1 = Inr s'" using rest by simp
    from Cons.IH [OF inv1 this] obtain k where
      "k \<le> length ts" "beam_inv U B (Suc n + k) s'" "k = length ts \<or> beam_size s' \<le> 0"
      by blast
    then show ?thesis
      by (intro exI [of _ "Suc k"]) simp
  qed
qed

lemma beam_loop_stops:
  "0 < beam_size s \<Longrightarrow> beam_loop step ts s = Inr s' \<Longrightarrow> beam_size s' \<le> 0
     \<Longrightarrow> beam_loop step (ts @ us) s = Inr s'"
proof (induction ts arbitrary: s)
  case Nil
  then show ?case by simp
next
  case (Cons t ts)
  from Cons.prems(2) obtain s1 where s1: "step t s = Inr s1"
    and rest: "(if beam_size s1 \<le> 0 then Inr s1 else beam_loop step ts s1) = Inr s'"
    by (auto simp: then_do_Inr_iff)
  show ?case
  proof (cases "beam_size s1 \<le> 0")
    case True
    then show ?thesis using s1 rest by simp
  next
    case False
    then have "beam_loop step (ts @ us) s1 = Inr s'"
      using Cons.IH [of s1] rest Cons.prems(3) by simp
    then show ?thesis using s1 False by simp
  qed
qed


lemma then_do_Inr: "then_do m Inr = m"
  by (cases m) simp_all

lemma beam_loop_snoc:
  "0 < beam_size s \<Longrightarrow>
     beam_loop step (ts @ [t]) s
       = then_do (beam_loop step ts s)
           (\<lambda>s1. if beam_size s1 \<le> 0 then Inr s1 else step t s1)"
proof (induction ts arbitrary: s)
  case Nil
  then show ?case
    by (cases "step t s") simp_all
next
  case (Cons t0 ts)
  show ?case
  proof (cases "step t0 s")
    case (Inl e)
    then show ?thesis by simp
  next
    case (Inr s1)
    then show ?thesis
      using Cons.IH [of s1] by (cases "beam_size s1 \<le> 0") simp_all
  qed
qed

lemma beam_initial_inv:
  assumes "1 \<le> B" and "beam_initial U P M sessions token_ids B = Inr (enc_length, attn_states, s0)"
  shows "beam_inv U B 0 s0" and "beam_size s0 = B"
  using assms
  by (auto simp: beam_initial_def then_do_Inr_iff Let_def beam_inv_def
           split: if_splits list.splits)

lemma final_ranking_subset:
  assumes "length (scores s) = length (hypotheses s)"
    and "length (finished_scores s) = length (finished_hypotheses s)"
  shows "set (fst (final_ranking M s)) \<subseteq> set (hypotheses s) \<union> set (finished_hypotheses s)"
proof -
  define hyps where "hyps = hypotheses s @ finished_hypotheses s"
  define sc where "sc = (if 0 < len_normalization M then
                  map (\<lambda>(x, hypothesis).
                         np_div x (Fin (real (length hypothesis) powr len_normalization M)))
                      (zip (scores s @ finished_scores s) hyps)
                else scores s @ finished_scores s)"
  have "length sc = length hyps"
    using assms by (simp add: sc_def hyps_def)
  then have "set (map (\<lambda>k. hyps ! k) (argsort sc)) \<subseteq> set hyps"
    by (auto simp: set_argsort)
  moreover have "fst (final_ranking M s) = map (\<lambda>k. hyps ! k) (argsort sc)"
    by (simp add: final_ranking_def Let_def sc_def hyps_def)
  moreover have "set hyps = set (hypotheses s) \<union> set (finished_hypotheses s)"
    by (simp add: hyps_def)
  ultimately show ?thesis
    by simp
qed

text \<open>
  Claim C1. For an initial beam width \<open>B \<ge> 1\<close>, after any number \<open>k\<close> of iterations of
  the decoding loop: the finished and the live hypotheses together are at most \<open>B\<close>;
  the width is \<open>B\<close> less the number of finished hypotheses, and it never grows from one
  iteration to the next; every finished hypothesis ends with \<open>EOS\<close>; every live one has
  \<open>k\<close> tokens; once the width is zero no hypothesis is live and the loop has returned:
  its result is the same however many iterations were still to come. A kept candidate
  goes to the finished set, with the width decremented, exactly when its new token is
  \<open>EOS\<close>. Every hypothesis the function returns ends with \<open>EOS\<close> or has
  \<open>max_output_len\<close> tokens. And the loop stops by its \<open>break\<close>, not by what a step does
  to a beam of width zero: whatever function is put in the place of the step, once an
  iteration leaves the width at zero or below, the iterations that remain are not run.
\<close>

theorem beam_search_invariant:
  assumes B: "1 \<le> B"
    and init: "beam_initial U P M sessions token_ids B = Inr (enc_length, attn_states, s0)"
  shows
    "(\<forall>k s. beam_loop (beam_step U M sessions enc_length attn_states est ngrams) [0..<k] s0 = Inr s \<longrightarrow>
         int (length (finished_hypotheses s)) + int (length (hypotheses s)) \<le> B
       \<and> beam_size s = B - int (length (finished_hypotheses s))
       \<and> (\<forall>h \<in> set (finished_hypotheses s). h \<noteq> [] \<and> last h = EOS_ID U)
       \<and> (\<forall>h \<in> set (hypotheses s). length h = k)
       \<and> (beam_size s \<le> 0 \<longrightarrow> hypotheses s = [])
       \<and> (beam_size s \<le> 0 \<longrightarrow>
            (\<forall>m. beam_loop (beam_step U M sessions enc_length attn_states est ngrams)
                   [0..<k + m] s0 = Inr s))
       \<and> (\<forall>s'. beam_loop (beam_step U M sessions enc_length attn_states est ngrams)
                   [0..<Suc k] s0 = Inr s' \<longrightarrow>
                 beam_size s' \<le> beam_size s
               \<and> length (finished_hypotheses s) \<le> length (finished_hypotheses s')))
   \<and> (\<forall>hyps res sc acc flat_id.
         (let token_id = int (flat_id mod trg_vocab_size M);
              hypothesis = hyps ! (flat_id div trg_vocab_size M) @ [token_id];
              acc' = keep_candidate U M hyps res sc acc flat_id
          in if token_id = EOS_ID U then
               finished_hypotheses acc' = finished_hypotheses acc @ [hypothesis]
               \<and> hypotheses acc' = hypotheses acc
               \<and> beam_size acc' = beam_size acc - 1
             else
               finished_hypotheses acc' = finished_hypotheses acc
               \<and> hypotheses acc' = hypotheses acc @ [hypothesis]
               \<and> beam_size acc' = beam_size acc))
   \<and> (\<forall>hyps sc. beam_search_decoding U P M sessions token_ids B est ngrams = Inr (hyps, sc) \<longrightarrow>
         (\<forall>h \<in> set hyps. (h \<noteq> [] \<and> last h = EOS_ID U) \<or> length h = max_output_len M))
   \<and> (\<forall>step ts us s s'.
         0 < beam_size s \<longrightarrow> beam_loop step ts s = Inr s' \<longrightarrow> beam_size s' \<le> 0 \<longrightarrow>
           beam_loop step (ts @ us) s = Inr s')"
proof -
  define step where "step = beam_step U M sessions enc_length attn_states est ngrams"
  have inv0: "beam_inv U B 0 s0" and size0: "0 < beam_size s0"
    using beam_initial_inv [OF B init] B by simp_all
  have pres: "beam_inv U B (Suc n) s'" if "beam_inv U B n s" and "step t s = Inr s'" for t n s s'
    using beam_step_inv [OF that(1)] that(2) unfolding step_def by blast
  have reach: "\<exists>j \<le> k. beam_inv U B j s \<and> (j = k \<or> beam_size s \<le> 0)"
    if "beam_loop step [0..<k] s0 = Inr s" for k s
    using beam_loop_inv [of U B step 0 s0 "[0..<k]" s, OF pres inv0 that] by simp
  have empty: "hypotheses s = []" if "beam_inv U B j s" and "beam_size s \<le> 0" for j s
  proof -
    have "int (length (hypotheses s)) \<le> beam_size s"
      using that(1) by (simp add: beam_inv_def)
    then have "int (length (hypotheses s)) \<le> 0"
      using that(2) by linarith
    then show ?thesis by simp
  qed
  have part1: "int (length (finished_hypotheses s)) + int (length (hypotheses s)) \<le> B
       \<and> beam_size s = B - int (length (finished_hypotheses s))
       \<and> (\<forall>h \<in> set (finished_hypotheses s). h \<noteq> [] \<and> last h = EOS_ID U)
       \<and> (\<forall>h \<in> set (hypotheses s). length h = k)
       \<and> (beam_size s \<le> 0 \<longrightarrow> hypotheses s = [])
       \<and> (beam_size s \<le> 0 \<longrightarrow> (\<forall>m. beam_loop step [0..<k + m] s0 = Inr s))
       \<and> (\<forall>s'. beam_loop step [0..<Suc k] s0 = Inr s' \<longrightarrow>
                 beam_size s' \<le> beam_size s
               \<and> length (finished_hypotheses s) \<le> length (finished_hypotheses s'))"
    if loop: "beam_loop step [0..<k] s0 = Inr s" for k s
  proof -
    from reach [OF loop] obtain j where j: "j \<le> k" "beam_inv U B j s" "j = k \<or> beam_size s \<le> 0"
      by blast
    have a: "int (length (finished_hypotheses s)) + int (length (hypotheses s)) \<le> B"
      and b: "beam_size s = B - int (length (finished_hypotheses s))"
      and c: "\<forall>h \<in> set (finished_hypotheses s). h \<noteq> [] \<and> last h = EOS_ID U"
      using j(2) by (auto simp: beam_inv_def)
    have d: "\<forall>h \<in> set (hypotheses s). length h = k"
    proof (cases "beam_size s \<le> 0")
      case True
      then show ?thesis using empty [OF j(2)] by simp
    next
      case False
      then have "j = k" using j(3) by simp
      then show ?thesis using j(2) by (simp add: beam_inv_def)
    qed
    have e: "beam_size s \<le> 0 \<longrightarrow> hypotheses s = []"
      using empty [OF j(2)] by blast
    have f: "beam_size s \<le> 0 \<longrightarrow> (\<forall>m. beam_loop step [0..<k + m] s0 = Inr s)"
    proof (intro impI allI)
      fix m assume "beam_size s \<le> 0"
      from beam_loop_stops [OF size0 loop this, of "[k..<k + m]"]
      show "beam_loop step [0..<k + m] s0 = Inr s"
        by (simp add: upt_add_eq_append [symmetric])
    qed
    have g: "\<forall>s'. beam_loop step [0..<Suc k] s0 = Inr s' \<longrightarrow>
                 beam_size s' \<le> beam_size s
               \<and> length (finished_hypotheses s) \<le> length (finished_hypotheses s')"
    proof (intro impI allI)
      fix s' assume "beam_loop step [0..<Suc k] s0 = Inr s'"
      then have "(if beam_size s \<le> 0 then Inr s else step k s) = Inr s'"
        using beam_loop_snoc [OF size0, of step "[0..<k]" k] loop by simp
      then show "beam_size s' \<le> beam_size s
               \<and> length (finished_hypotheses s) \<le> length (finished_hypotheses s')"
        using beam_step_inv [OF j(2), of M sessions enc_length attn_states est ngrams k s']
        by (auto simp: step_def split: if_splits)
    qed
    from a b c d e f g show ?thesis by blast
  qed
  have part2: "\<forall>h \<in> set hyps. (h \<noteq> [] \<and> last h = EOS_ID U) \<or> length h = max_output_len M"
    if run: "beam_search_decoding U P M sessions token_ids B est ngrams = Inr (hyps, sc)" for hyps sc
  proof -
    from run init obtain s where loop: "beam_loop step [0..<max_output_len M] s0 = Inr s"
      and rank: "final_ranking M s = (hyps, sc)"
      by (auto simp: beam_search_decoding_def then_do_Inr_iff step_def)
    from reach [OF loop] obtain j where j: "beam_inv U B j s"
      by blast
    have "set hyps \<subseteq> set (hypotheses s) \<union> set (finished_hypotheses s)"
      using final_ranking_subset [of s M] j rank by (simp add: beam_inv_def)
    then show ?thesis
      using part1 [OF loop] by blast
  qed
  have part3: "\<forall>hyps res sc acc flat_id.
         (let token_id = int (flat_id mod trg_vocab_size M);
              hypothesis = hyps ! (flat_id div trg_vocab_size M) @ [token_id];
              acc' = keep_candidate U M hyps res sc acc flat_id
          in if token_id = EOS_ID U then
               finished_hypotheses acc' = finished_hypotheses acc @ [hypothesis]
               \<and> hypotheses acc' = hypotheses acc
               \<and> beam_size acc' = beam_size acc - 1
             else
               finished_hypotheses acc' = finished_hypotheses acc
               \<and> hypotheses acc' = hypotheses acc @ [hypothesis]
               \<and> beam_size acc' = beam_size acc)"
    by (simp add: keep_candidate_def Let_def)
  have part1': "\<forall>k s. beam_loop step [0..<k] s0 = Inr s \<longrightarrow>
         int (length (finished_hypotheses s)) + int (length (hypotheses s)) \<le> B
       \<and> beam_size s = B - int (length (finished_hypotheses s))
       \<and> (\<forall>h \<in> set (finished_hypotheses s). h \<noteq> [] \<and> last h = EOS_ID U)
       \<and> (\<forall>h \<in> set (hypotheses s). length h = k)
       \<and> (beam_size s \<le> 0 \<longrightarrow> hypotheses s = [])
       \<and> (beam_size s \<le> 0 \<longrightarrow> (\<forall>m. beam_loop step [0..<k + m] s0 = Inr s))
       \<and> (\<forall>s'. beam_loop step [0..<Suc k] s0 = Inr s' \<longrightarrow>
                 beam_size s' \<le> beam_size s
               \<and> length (finished_hypotheses s) \<le> length (finished_hypotheses s'))"
    using part1 by blast
  have part2': "\<forall>hyps sc. beam_search_decoding U P M sessions token_ids B est ngrams = Inr (hyps, sc) \<longrightarrow>
         (\<forall>h \<in> set hyps. (h \<noteq> [] \<and> last h = EOS_ID U) \<or> length h = max_output_len M)"
    using part2 by blast
  have part4: "\<forall>step ts us s s'.
         0 < beam_size s \<longrightarrow> beam_loop step ts s = Inr s' \<longrightarrow> beam_size s' \<le> 0 \<longrightarrow>
           beam_loop step (ts @ us) s = Inr s'"
    using beam_loop_stops by blast
  show ?thesis
    using part1' part2' part3 part4 unfolding step_def by (intro conjI)
qed

text \<open>The example run: one hypothesis finishes at the first step, one lives to the end.\<close>

lemmas example_defs = example_utils_def example_model_def example_encoder_def
  example_session_def no_ngrams_def

lemma example_initial:
  "beam_initial example_utils example_numpy example_model [example_session] [[Token 3]] 2
     = Inr ([[2]], [[[0]]],
            \<lparr>hypotheses = [[]], scores = [Fin 0], state = [[0]], output = None,
             decoder_input = [2], beam_size = 2, finished_hypotheses = [],
             finished_scores = []\<rparr>)"
  by (simp add: beam_initial_def get_batch_defs example_defs example_numpy_def Let_def
        to_int32_id replicate_numeral_Cons)

lemma example_scores_0:
  "candidate_scores example_utils example_model (Suc 0) (\<lambda>_ _. Fin 0) no_ngrams [[]] [Fin 0]
      [[[1 / 3, 1 / 3, 1 / 3]]]
    = Inr [Fin (- (ln (1 / 3) / 2)), Fin (- (ln (1 / 3) / 2)), Fin (- (ln (1 / 3) / 2))]"
  by (simp add: candidate_scores_def np_average_def broadcast_row_def np_sum_def np_sub_def
        np_log_def example_model_def no_ngrams_def numeral_3_eq_3)

lemma example_argsort:
  "argsort [Fin c, Fin c, Fin c] = [0, Suc 0, 2]"
  by (simp add: argsort_def numeral_3_eq_3)


lemma example_feed_0:
  "beam_input_feed example_model [[2]] [[[0 :: nat]]] 0
       \<lparr>hypotheses = [[]], scores = [Fin 0], state = [[0 :: nat]], output = (None :: nat list list option),
        decoder_input = [2], beam_size = 2, finished_hypotheses = [],
        finished_scores = []\<rparr>
     = Inr [\<lparr>feed_state = [0], feed_decoder_inputs = [[2]], feed_decoder_input_length = [Suc 0],
              feed_encoder_input_length = [[2]], feed_output = None,
              feed_attention_states = [[0]]\<rparr>]"
  by (simp add: beam_input_feed_def index_at_guard_def encoder_count_def example_model_def Let_def)

lemma example_keep_0:
  "keep_candidate example_utils example_model [[]]
       [\<lparr>new_output = [0 :: nat], decoder_output = [[1 / 3, 1 / 3, 1 / 3]], decoder_state = [0 :: nat]\<rparr>]
       [Fin c, Fin c, Fin c]
       \<lparr>hypotheses = [], scores = [], state = [[]], output = Some [[]],
        decoder_input = [], beam_size = 2, finished_hypotheses = [],
        finished_scores = []\<rparr> 0
     = \<lparr>hypotheses = [[0]], scores = [Fin c], state = [[0]],
        output = Some [[0]], decoder_input = [0], beam_size = 2,
        finished_hypotheses = [], finished_scores = []\<rparr>"
  by (simp add: keep_candidate_def example_utils_def example_model_def Let_def)

lemma example_keep_1:
  "keep_candidate example_utils example_model [[]]
       [\<lparr>new_output = [0 :: nat], decoder_output = [[1 / 3, 1 / 3, 1 / 3]], decoder_state = [0 :: nat]\<rparr>]
       [Fin c, Fin c, Fin c]
       \<lparr>hypotheses = [[0]], scores = [Fin c], state = [[0]],
        output = Some [[0]], decoder_input = [0], beam_size = 2,
        finished_hypotheses = [], finished_scores = []\<rparr> (Suc 0)
     = \<lparr>hypotheses = [[0]], scores = [Fin c], state = [[0]],
        output = Some [[0]], decoder_input = [0], beam_size = 1,
        finished_hypotheses = [[1]], finished_scores = [Fin c]\<rparr>"
  by (simp add: keep_candidate_def example_utils_def example_model_def Let_def)

lemma example_step_0:
  "beam_step example_utils example_model [example_session] [[2]] [[[0]]] (\<lambda>_ _. Fin 0)
       no_ngrams 0
       \<lparr>hypotheses = [[]], scores = [Fin 0], state = [[0]], output = None,
        decoder_input = [2], beam_size = 2, finished_hypotheses = [],
        finished_scores = []\<rparr>
     = Inr \<lparr>hypotheses = [[0]], scores = [Fin (- (ln (1 / 3) / 2))], state = [[0]],
            output = Some [[0]], decoder_input = [0], beam_size = 1,
            finished_hypotheses = [[1]],
            finished_scores = [Fin (- (ln (1 / 3) / 2))]\<rparr>"
proof -
  have run: "run_beam_step example_session
               \<lparr>feed_state = [0], feed_decoder_inputs = [[2]], feed_decoder_input_length = [Suc 0],
                feed_encoder_input_length = [[2]], feed_output = None,
                feed_attention_states = [[0]]\<rparr>
             = \<lparr>new_output = [0], decoder_output = [[1 / 3, 1 / 3, 1 / 3]], decoder_state = [0]\<rparr>"
    by (simp add: example_session_def)
  have ids: "slice_to [0, Suc 0, 2 :: nat] 2 = [0, Suc 0]"
    by (simp add: slice_to_def numeral_2_eq_2)
  show ?thesis
    unfolding beam_step_def example_feed_0 then_do.simps
    by (simp add: run example_scores_0 example_argsort ids example_keep_0 example_keep_1 Let_def)
qed


lemma example_scores_1:
  "candidate_scores example_utils example_model (Suc 0) (\<lambda>_ _. Fin 0) no_ngrams [[0]]
      [Fin (- (ln (1 / 3) / 2))] [[[1 / 3, 1 / 3, 1 / 3]]]
    = Inr [Fin (- ln (1 / 3)), Fin (- ln (1 / 3)), Fin (- ln (1 / 3))]"
  by (simp add: candidate_scores_def np_average_def broadcast_row_def np_sum_def np_sub_def
        np_log_def example_model_def no_ngrams_def numeral_3_eq_3)

lemma example_feed_1:
  "beam_input_feed example_model [[2]] [[[0 :: nat]]] (Suc 0)
       \<lparr>hypotheses = [[0]], scores = [Fin c], state = [[0 :: nat]],
        output = Some [[0 :: nat]], decoder_input = [0], beam_size = 1,
        finished_hypotheses = [[1]], finished_scores = [Fin c]\<rparr>
     = Inr [\<lparr>feed_state = [0], feed_decoder_inputs = [[0]],
              feed_decoder_input_length = [Suc 0], feed_encoder_input_length = [[2]],
              feed_output = None, feed_attention_states = [[0]]\<rparr>]"
  by (simp add: beam_input_feed_def index_at_guard_def encoder_count_def example_model_def Let_def)

lemma example_keep_2:
  "keep_candidate example_utils example_model [[0]]
       [\<lparr>new_output = [0 :: nat], decoder_output = [[1 / 3, 1 / 3, 1 / 3]], decoder_state = [0 :: nat]\<rparr>]
       [Fin d, Fin d, Fin d]
       \<lparr>hypotheses = [], scores = [], state = [[]], output = Some [[]],
        decoder_input = [], beam_size = 1, finished_hypotheses = [[1]],
        finished_scores = [Fin c]\<rparr> 0
     = \<lparr>hypotheses = [[0, 0]], scores = [Fin d], state = [[0]],
        output = Some [[0]], decoder_input = [0], beam_size = 1,
        finished_hypotheses = [[1]], finished_scores = [Fin c]\<rparr>"
  by (simp add: keep_candidate_def example_utils_def example_model_def Let_def)

lemma example_step_1:
  "beam_step example_utils example_model [example_session] [[2]] [[[0]]] (\<lambda>_ _. Fin 0)
       no_ngrams (Suc 0)
       \<lparr>hypotheses = [[0]], scores = [Fin (- (ln (1 / 3) / 2))], state = [[0]],
        output = Some [[0]], decoder_input = [0], beam_size = 1,
        finished_hypotheses = [[1]],
        finished_scores = [Fin (- (ln (1 / 3) / 2))]\<rparr>
     = Inr \<lparr>hypotheses = [[0, 0]], scores = [Fin (- ln (1 / 3))], state = [[0]],
            output = Some [[0]], decoder_input = [0], beam_size = 1,
            finished_hypotheses = [[1]],
            finished_scores = [Fin (- (ln (1 / 3) / 2))]\<rparr>"
proof -
  have run: "run_beam_step example_session
               \<lparr>feed_state = [0], feed_decoder_inputs = [[0]],
                feed_decoder_input_length = [Suc 0], feed_encoder_input_length = [[2]],
                feed_output = None, feed_attention_states = [[0]]\<rparr>
             = \<lparr>new_output = [0], decoder_output = [[1 / 3, 1 / 3, 1 / 3]], decoder_state = [0]\<rparr>"
    by (simp add: example_session_def)
  have ids: "slice_to [0, Suc 0, 2 :: nat] 1 = [0]"
    by (simp add: slice_to_def)
  show ?thesis
    unfolding beam_step_def example_feed_1 then_do.simps
    by (simp add: run example_scores_1 example_argsort ids example_keep_2 Let_def)
qed

lemma example_run:
  "beam_search_decoding example_utils example_numpy example_model [example_session] [[Token 3]] 2
       (\<lambda>_ _. Fin 0) no_ngrams
     = Inr ([[0, 0], [1]], [Fin (- ln (1 / 3) / 2), Fin (- (ln (1 / 3) / 2))])"
proof -
  have m: "max_output_len example_model = 2" and n: "len_normalization example_model = 1"
    by (simp_all add: example_model_def)
  have two: "[0..<2] = [0, Suc 0]"
    by (simp add: upt_conv_Cons)
  have loop: "beam_loop (beam_step example_utils example_model [example_session] [[2]] [[[0]]]
                  (\<lambda>_ _. Fin 0) no_ngrams) [0, Suc 0]
                \<lparr>hypotheses = [[]], scores = [Fin 0], state = [[0]], output = None,
                 decoder_input = [2], beam_size = 2, finished_hypotheses = [],
                 finished_scores = []\<rparr>
              = Inr \<lparr>hypotheses = [[0, 0]], scores = [Fin (- ln (1 / 3))], state = [[0]],
                     output = Some [[0]], decoder_input = [0], beam_size = 1,
                     finished_hypotheses = [[1]],
                     finished_scores = [Fin (- (ln (1 / 3) / 2))]\<rparr>"
    by (simp add: example_step_0 example_step_1)
  have rank: "final_ranking example_model
                \<lparr>hypotheses = [[0, 0]], scores = [Fin (- ln (1 / 3))], state = [[0 :: nat]],
                 output = Some [[0 :: nat]], decoder_input = [0], beam_size = 1,
                 finished_hypotheses = [[1]],
                 finished_scores = [Fin (- (ln (1 / 3) / 2))]\<rparr>
              = ([[0, 0], [1]], [Fin (- ln (1 / 3) / 2), Fin (- (ln (1 / 3) / 2))])"
    by (simp add: final_ranking_def n argsort_def Let_def two)
  show ?thesis
    unfolding beam_search_decoding_def example_initial m two
    by (simp add: loop rank del: beam_loop.simps)
qed

text \<open>
  A second run, of width one: the only candidate kept at the first step ends with \<open>EOS\<close>,
  the width is zero and the loop stops, one step before \<open>max_output_len\<close>. On the beam
  it stops with, a further step would raise.
\<close>

lemma eos_initial:
  "beam_initial example_utils example_numpy example_model [example_session_eos] [[Token 3]] 1
     = Inr ([[2]], [[[0]]],
            \<lparr>hypotheses = [[]], scores = [Fin 0], state = [[0]], output = None,
             decoder_input = [2], beam_size = 1, finished_hypotheses = [],
             finished_scores = []\<rparr>)"
  by (simp add: beam_initial_def get_batch_defs example_utils_def example_model_def
        example_encoder_def example_session_eos_def example_numpy_def Let_def
        to_int32_id replicate_numeral_Cons)

lemma eos_scores:
  "candidate_scores example_utils example_model (Suc 0) (\<lambda>_ _. Fin 0) no_ngrams [[]] [Fin 0]
      [[[0, 1, 0]]]
    = Inr [PInf, Fin 0, PInf]"
  by (simp add: candidate_scores_def np_average_def broadcast_row_def np_sum_def np_sub_def
        np_log_def np_inf_def example_model_def no_ngrams_def numeral_3_eq_3)

lemma eos_argsort: "argsort [PInf, Fin 0, PInf] = [Suc 0, 0, 2]"
  by (simp add: argsort_def numeral_3_eq_3 less_eq_prod_def)

lemma eos_feed_0:
  "beam_input_feed example_model [[2]] [[[0 :: nat]]] 0
       \<lparr>hypotheses = [[]], scores = [Fin 0], state = [[0 :: nat]], output = (None :: nat list list option),
        decoder_input = [2], beam_size = 1, finished_hypotheses = [],
        finished_scores = []\<rparr>
     = Inr [\<lparr>feed_state = [0], feed_decoder_inputs = [[2]], feed_decoder_input_length = [Suc 0],
              feed_encoder_input_length = [[2]], feed_output = None,
              feed_attention_states = [[0]]\<rparr>]"
  by (simp add: beam_input_feed_def index_at_guard_def encoder_count_def example_model_def Let_def)

lemma eos_keep:
  "keep_candidate example_utils example_model [[]]
       [\<lparr>new_output = [0 :: nat], decoder_output = [[0, 1, 0]], decoder_state = [0 :: nat]\<rparr>]
       [PInf, Fin 0, PInf]
       \<lparr>hypotheses = [], scores = [], state = [[]], output = Some [[]],
        decoder_input = [], beam_size = 1, finished_hypotheses = [],
        finished_scores = []\<rparr> (Suc 0)
     = \<lparr>hypotheses = [], scores = [], state = [[]],
        output = Some [[]], decoder_input = [], beam_size = 0,
        finished_hypotheses = [[1]], finished_scores = [Fin 0]\<rparr>"
  by (simp add: keep_candidate_def example_utils_def example_model_def Let_def)

lemma eos_step_0:
  "beam_step example_utils example_model [example_session_eos] [[2]] [[[0]]] (\<lambda>_ _. Fin 0)
       no_ngrams 0
       \<lparr>hypotheses = [[]], scores = [Fin 0], state = [[0]], output = None,
        decoder_input = [2], beam_size = 1, finished_hypotheses = [],
        finished_scores = []\<rparr>
     = Inr \<lparr>hypotheses = [], scores = [], state = [[]],
            output = Some [[]], decoder_input = [], beam_size = 0,
            finished_hypotheses = [[1]], finished_scores = [Fin 0]\<rparr>"
proof -
  have run: "run_beam_step example_session_eos
               \<lparr>feed_state = [0], feed_decoder_inputs = [[2]], feed_decoder_input_length = [Suc 0],
                feed_encoder_input_length = [[2]], feed_output = None,
                feed_attention_states = [[0]]\<rparr>
             = \<lparr>new_output = [0], decoder_output = [[0, 1, 0]], decoder_state = [0]\<rparr>"
    by (simp add: example_session_eos_def)
  have ids: "slice_to [Suc 0, 0, 2 :: nat] 1 = [Suc 0]"
    by (simp add: slice_to_def)
  show ?thesis
    unfolding beam_step_def eos_feed_0 then_do.simps
    by (simp add: run eos_scores eos_argsort ids eos_keep Let_def)
qed

lemma eos_step_dead:
  "beam_step example_utils example_model [example_session_eos] [[2]] [[[0]]] (\<lambda>_ _. Fin 0)
       no_ngrams (Suc 0)
       \<lparr>hypotheses = [], scores = [], state = [[]],
        output = Some [[]], decoder_input = [], beam_size = 0,
        finished_hypotheses = [[1]], finished_scores = [Fin 0]\<rparr>
     = Inl ZeroDivisionError"
  by (simp add: beam_step_def beam_input_feed_def index_at_guard_def encoder_count_def
        candidate_scores_def np_average_def example_model_def example_encoder_def
        example_session_eos_def no_ngrams_def Let_def)

lemma eos_run:
  "beam_search_decoding example_utils example_numpy example_model [example_session_eos]
       [[Token 3]] 1 (\<lambda>_ _. Fin 0) no_ngrams
     = Inr ([[1]], [Fin 0])"
proof -
  have m: "max_output_len example_model = 2" and n: "len_normalization example_model = 1"
    by (simp_all add: example_model_def)
  have two: "[0..<2] = [0, Suc 0]"
    by (simp add: upt_conv_Cons)
  have loop: "beam_loop (beam_step example_utils example_model [example_session_eos] [[2]]
                  [[[0]]] (\<lambda>_ _. Fin 0) no_ngrams) [0, Suc 0]
                \<lparr>hypotheses = [[]], scores = [Fin 0], state = [[0]], output = None,
                 decoder_input = [2], beam_size = 1, finished_hypotheses = [],
                 finished_scores = []\<rparr>
              = Inr \<lparr>hypotheses = [], scores = [], state = [[]],
                     output = Some [[]], decoder_input = [], beam_size = 0,
                     finished_hypotheses = [[1]], finished_scores = [Fin 0]\<rparr>"
    by (simp add: eos_step_0)
  have rank: "final_ranking example_model
                \<lparr>hypotheses = [], scores = [], state = [[] :: nat list],
                 output = Some [[] :: nat list], decoder_input = [], beam_size = 0,
                 finished_hypotheses = [[1]], finished_scores = [Fin 0]\<rparr>
              = ([[1]], [Fin 0])"
    by (simp add: final_ranking_def n argsort_def Let_def)
  show ?thesis
    unfolding beam_search_decoding_def eos_initial m two
    by (simp add: loop rank del: beam_loop.simps)
qed

theorem beam_search_invariant_witness:
  "(\<exists>enc_length attn_states s0 hyps sc.
       (1 :: int) \<le> 2
     \<and> beam_initial example_utils example_numpy example_model [example_session] [[Token 3]] 2
         = Inr (enc_length, attn_states, s0)
     \<and> beam_search_decoding example_utils example_numpy example_model [example_session]
           [[Token 3]] 2 (\<lambda>_ _. Fin 0) no_ngrams = Inr (hyps, sc)
     \<and> hyps = [[0, 0], [1]]
     \<and> (\<forall>h \<in> set hyps. (h \<noteq> [] \<and> last h = EOS_ID example_utils)
                          \<or> length h = max_output_len example_model))
   \<and> (\<exists>enc_length attn_states s0 s1.
       (1 :: int) \<le> 1
     \<and> beam_initial example_utils example_numpy example_model [example_session_eos]
           [[Token 3]] 1 = Inr (enc_length, attn_states, s0)
     \<and> beam_loop (beam_step example_utils example_model [example_session_eos] enc_length
                     attn_states (\<lambda>_ _. Fin 0) no_ngrams) [0..<1] s0 = Inr s1
     \<and> beam_size s1 = 0 \<and> hypotheses s1 = [] \<and> finished_hypotheses s1 = [[1]]
     \<and> beam_loop (beam_step example_utils example_model [example_session_eos] enc_length
                     attn_states (\<lambda>_ _. Fin 0) no_ngrams) [0..<max_output_len example_model] s0
         = Inr s1
     \<and> beam_step example_utils example_model [example_session_eos] enc_length attn_states
         (\<lambda>_ _. Fin 0) no_ngrams 1 s1 = Inl ZeroDivisionError
     \<and> beam_search_decoding example_utils example_numpy example_model [example_session_eos]
           [[Token 3]] 1 (\<lambda>_ _. Fin 0) no_ngrams = Inr ([[1]], [Fin 0]))"
proof -
  have B: "(1 :: int) \<le> 2" by simp
  from beam_search_invariant [OF B example_initial, of "\<lambda>_ _. Fin 0" no_ngrams] example_run
  have "\<forall>h \<in> set [[0, 0], [1]]. (h \<noteq> [] \<and> last h = EOS_ID example_utils)
                          \<or> length h = max_output_len example_model"
    by blast
  with B example_initial example_run have first:
    "\<exists>enc_length attn_states s0 hyps sc.
       (1 :: int) \<le> 2
     \<and> beam_initial example_utils example_numpy example_model [example_session] [[Token 3]] 2
         = Inr (enc_length, attn_states, s0)
     \<and> beam_search_decoding example_utils example_numpy example_model [example_session]
           [[Token 3]] 2 (\<lambda>_ _. Fin 0) no_ngrams = Inr (hyps, sc)
     \<and> hyps = [[0, 0], [1]]
     \<and> (\<forall>h \<in> set hyps. (h \<noteq> [] \<and> last h = EOS_ID example_utils)
                          \<or> length h = max_output_len example_model)"
    by blast
  define s1 :: "(nat, nat) beam" where
    "s1 = \<lparr>hypotheses = [], scores = [], state = [[]],
           output = Some [[]], decoder_input = [], beam_size = 0,
           finished_hypotheses = [[1]], finished_scores = [Fin 0]\<rparr>"
  have B1: "(1 :: int) \<le> 1" by simp
  have one: "[0..<1] = [0]"
    by simp
  have loop1: "beam_loop (beam_step example_utils example_model [example_session_eos] [[2]]
                  [[[0]]] (\<lambda>_ _. Fin 0) no_ngrams) [0..<1]
                \<lparr>hypotheses = [[]], scores = [Fin 0], state = [[0]], output = None,
                 decoder_input = [2], beam_size = 1, finished_hypotheses = [],
                 finished_scores = []\<rparr>
              = Inr s1"
    unfolding one by (simp add: eos_step_0 s1_def)
  have size: "beam_size s1 \<le> 0"
    by (simp add: s1_def)
  have m: "max_output_len example_model = 1 + 1"
    by (simp add: example_model_def)
  from beam_search_invariant [OF B1 eos_initial, of "\<lambda>_ _. Fin 0" no_ngrams,
      THEN conjunct1, rule_format, OF loop1] size
  have "\<forall>m. beam_loop (beam_step example_utils example_model [example_session_eos] [[2]]
                  [[[0]]] (\<lambda>_ _. Fin 0) no_ngrams) [0..<1 + m]
                \<lparr>hypotheses = [[]], scores = [Fin 0], state = [[0]], output = None,
                 decoder_input = [2], beam_size = 1, finished_hypotheses = [],
                 finished_scores = []\<rparr>
              = Inr s1"
    by blast
  then have loop2: "beam_loop (beam_step example_utils example_model [example_session_eos] [[2]]
                  [[[0]]] (\<lambda>_ _. Fin 0) no_ngrams) [0..<max_output_len example_model]
                \<lparr>hypotheses = [[]], scores = [Fin 0], state = [[0]], output = None,
                 decoder_input = [2], beam_size = 1, finished_hypotheses = [],
                 finished_scores = []\<rparr>
              = Inr s1"
    unfolding m by blast
  have dead: "beam_step example_utils example_model [example_session_eos] [[2]] [[[0]]]
         (\<lambda>_ _. Fin 0) no_ngrams 1 s1 = Inl ZeroDivisionError"
    using eos_step_dead by (simp add: s1_def)
  have fields: "beam_size s1 = 0 \<and> hypotheses s1 = [] \<and> finished_hypotheses s1 = [[1]]"
    by (simp add: s1_def)
  from B1 eos_initial loop1 loop2 dead fields eos_run have second:
    "\<exists>enc_length attn_states s0 s1.
       (1 :: int) \<le> 1
     \<and> beam_initial example_utils example_numpy example_model [example_session_eos]
           [[Token 3]] 1 = Inr (enc_length, attn_states, s0)
     \<and> beam_loop (beam_step example_utils example_model [example_session_eos] enc_length
                     attn_states (\<lambda>_ _. Fin 0) no_ngrams) [0..<1] s0 = Inr s1
     \<and> beam_size s1 = 0 \<and> hypotheses s1 = [] \<and> finished_hypotheses s1 = [[1]]
     \<and> beam_loop (beam_step example_utils example_model [example_session_eos] enc_length
                     attn_states (\<lambda>_ _. Fin 0) no_ngrams) [0..<max_output_len example_model] s0
         = Inr s1
     \<and> beam_step example_utils example_model [example_session_eos] enc_length attn_states
         (\<lambda>_ _. Fin 0) no_ngrams 1 s1 = Inl ZeroDivisionError
     \<and> beam_search_decoding example_utils example_numpy example_model [example_session_eos]
           [[Token 3]] 1 (\<lambda>_ _. Fin 0) no_ngrams = Inr ([[1]], [Fin 0])"
    by blast
  from first second show ?thesis ..
qed
lemma for_zip_preserves:
  "(\<And>x. x \<in> set xs \<Longrightarrow> P x) \<Longrightarrow> (\<And>x y. P x \<Longrightarrow> P (f x y)) \<Longrightarrow> x \<in> set (for_zip f xs ys) \<Longrightarrow> P x"
  by (induction f xs ys rule: for_zip.induct) auto

lemma length_for_zip: "length (for_zip f xs ys) = length xs"
  by (induction f xs ys rule: for_zip.induct) auto

text \<open>
  Claim C10. With exactly one encoder, the index read by the test at line 409 is 0 at
  every time step (whenever there is a session to feed), the feeds are built without an
  exception, and no feed ever holds the previous step's decoder output.
\<close>

theorem beam_feed_never_holds_output:
  fixes s :: "('st, 'o) beam" and attn_states :: "'a list list list"
  assumes one: "encoder_count M = 1"
  shows "(state s \<noteq> [] \<longrightarrow>
            index_at_guard (length (state s)) (encoder_count M) time = 0
          \<and> (\<exists>feeds. beam_input_feed M enc_length attn_states time s = Inr feeds
                      \<and> length feeds = length (state s)))
       \<and> (\<forall>feeds. beam_input_feed M enc_length attn_states time s = Inr feeds \<longrightarrow>
            (\<forall>feed \<in> set feeds. feed_output feed = None))"
proof -
  define feeds0 where "feeds0 = map (\<lambda>feed.
             feed \<lparr> feed_encoder_input_length :=
                      map (\<lambda>i. enc_length ! i) [0..<encoder_count M] \<rparr>)
        (map (\<lambda>state'.
             \<lparr> feed_state = state',
               feed_decoder_inputs = [decoder_input s],
               feed_decoder_input_length = replicate (length (decoder_input s)) 1,
               feed_encoder_input_length = [],
               feed_output = (None :: 'o list option),
               feed_attention_states = ([] :: 'a list list) \<rparr>) (state s))"
  define attend where "attend = (\<lambda>(feed :: ('st, 'o, 'a) beam_feed) (attn_states' :: 'a list list).
                     feed \<lparr> feed_attention_states :=
                              map (\<lambda>i. concat (map (replicate (length (decoder_input s))) (attn_states' ! i)))
                                  [0..<encoder_count M] \<rparr>)"
  have none0: "feed_output feed = None" if "feed \<in> set feeds0" for feed
    using that by (auto simp: feeds0_def)
  have keep: "feed_output (attend feed a) = None" if "feed_output feed = None" for feed a
    using that by (simp add: attend_def)
  have guard: "index_at_guard (length (state s)) (encoder_count M) time = 0" if "state s \<noteq> []"
    using that one by (simp add: index_at_guard_def)
  have ok: "beam_input_feed M enc_length attn_states time s = Inr (for_zip attend feeds0 attn_states)"
    if "state s \<noteq> []"
    using guard [OF that]
    by (simp add: beam_input_feed_def Let_def feeds0_def attend_def)
  have first: "state s \<noteq> [] \<longrightarrow>
            index_at_guard (length (state s)) (encoder_count M) time = 0
          \<and> (\<exists>feeds. beam_input_feed M enc_length attn_states time s = Inr feeds
                      \<and> length feeds = length (state s))"
    using guard ok by (auto simp: length_for_zip feeds0_def)
  have second: "\<forall>feed \<in> set feeds. feed_output feed = None"
    if run: "beam_input_feed M enc_length attn_states time s = Inr feeds" for feeds
  proof (cases "state s = []")
    case True
    then have "feeds0 = []" by (simp add: feeds0_def)
    with run True have "feeds = []"
      by (auto simp: beam_input_feed_def Let_def then_do_Inr_iff split: if_splits option.splits)
    then show ?thesis by simp
  next
    case False
    with run ok have "feeds = for_zip attend feeds0 attn_states" by simp
    then show ?thesis
      using for_zip_preserves [of feeds0 "\<lambda>feed. feed_output feed = None" attend _ attn_states]
        none0 keep by blast
  qed
  from first second show ?thesis by blast
qed

theorem beam_feed_never_holds_output_witness:
  "encoder_count example_model = 1
   \<and> (\<exists>feeds.
         beam_input_feed example_model [[2]] [[[0 :: nat]]] (Suc 0)
           \<lparr>hypotheses = [[0]], scores = [Fin 0], state = [[0 :: nat]],
            output = Some [[0 :: nat]], decoder_input = [0], beam_size = 1,
            finished_hypotheses = [[1]], finished_scores = [Fin 0]\<rparr> = Inr feeds
       \<and> length feeds = 1
       \<and> (\<forall>feed \<in> set feeds. feed_output feed = None))"
proof -
  have one: "encoder_count example_model = 1"
    by (simp add: encoder_count_def example_model_def)
  from beam_feed_never_holds_output [OF one, of
      "\<lparr>hypotheses = [[0]], scores = [Fin 0], state = [[0 :: nat]],
        output = Some [[0 :: nat]], decoder_input = [0], beam_size = 1,
        finished_hypotheses = [[1]], finished_scores = [Fin 0]\<rparr>"
      "Suc 0" "[[2]]" "[[[0 :: nat]]]"]
  show ?thesis
    using one by auto
qed

text \<open>
  Claim C2 at one model and no language model: the candidate of a token of probability
  \<open>p\<close> is scored \<open>- ln p / 2\<close>, since the row of zeros standing for the absent language
  model is averaged in; the plain average over the one model would give \<open>- ln p\<close>.
\<close>

theorem candidate_scores_without_lm_example:
  "candidate_scores example_utils example_model (Suc 0) (\<lambda>_ _. Fin 0) no_ngrams [[]] [Fin 0]
      [[[1 / 2, 1 / 4, 1 / 4]]]
     = Inr [Fin (- (ln (1 / 2) / 2)), Fin (- (ln (1 / 4) / 2)), Fin (- (ln (1 / 4) / 2))]
   \<and> Fin (- (ln (1 / 2) / 2)) \<noteq> np_sub (Fin 0) (np_log (1 / 2))"
  by (simp add: candidate_scores_def np_average_def broadcast_row_def np_sum_def np_sub_def
        np_log_def example_model_def no_ngrams_def numeral_3_eq_3)


subsection \<open>The encoders and the constructor\<close>

lemma multi_encoder_returns_first:
  assumes "multi_encoder R (x # xs) (e # es) (l # ls) = Inr (Some (outs, st))"
  shows "outs = [if bidir e then multi_bidirectional_rnn_unsafe R e x l
                 else multi_rnn_unsafe R e x l]"
  using assms
  by (auto simp: multi_encoder_def upt_conv_Cons Let_def then_do_Inr_iff
           simp del: upt_Suc split: if_splits)

text \<open>
  Claim C4 at two encoders: the function returns after the first one. The list of hidden
  states has one tensor, not two, and the final state is the first encoder's alone; the
  outputs of the second encoder appear nowhere in the result.
\<close>

theorem multi_encoder_two_encoders_example:
  "multi_encoder example_rnn [[[Token 3]], [[Token 3], [Token 4]]]
       [example_encoder, example_encoder] [[2], [2]]
     = Inr (Some ([[[[1, 2]]]], [[1, 2]]))
   \<and> multi_rnn_unsafe example_rnn example_encoder [[Token 3], [Token 4]] [2] = [[[2, 3]]]"
  by (simp add: multi_encoder_def example_rnn_def example_encoder_def last_annotation_def
        concat_axis1_def Let_def upt_conv_Cons)

lemma attention_decoder_returns_five:
  "attention_decoder N decoder attention_states initial_state C = Inr vs \<Longrightarrow> length vs = 5"
  by (auto simp: attention_decoder_def Let_def split: if_splits list.splits prod.splits)

lemma unpack_four_of_five: "length vs = 5 \<Longrightarrow> unpack_four vs = Inl ValueError"
  by (cases vs rule: unpack_four.cases) simp_all

text \<open>
  Claim C5. With attention enabled the constructor raises, whatever it is given: if
  nothing before it fails, the assignment of the decoder builder's five values to four
  names raises \<open>ValueError\<close>, and \<open>finish\<close>, which stands for the rest of the
  constructor, is never reached.
\<close>

theorem seq2seq_init_raises:
  assumes "attention"
  shows "(\<exists>e. seq2seq_init utils_defines reinforce_reward attention G encoder_inputs
                input_length C finish = Inl e)
       \<and> (\<forall>attention_states encoder_state returned.
            utils_defines reinforce_reward
            \<and> multi_encoder (rnn G) encoder_inputs (encoder_configs G) input_length
                = Inr (Some (attention_states, encoder_state))
            \<and> build_decoder G input_length C attention_states encoder_state = Inr returned
            \<longrightarrow> length returned = 5
              \<and> seq2seq_init utils_defines reinforce_reward attention G encoder_inputs
                    input_length C finish = Inl ValueError)"
proof -
  have five: "then_do (then_do (build_decoder G input_length C a s) unpack_four) finish
                = (case build_decoder G input_length C a s of
                     Inl e \<Rightarrow> Inl e | Inr vs \<Rightarrow> Inl ValueError)" for a s
    by (cases "build_decoder G input_length C a s")
       (auto simp: build_decoder_def unpack_four_of_five dest!: attention_decoder_returns_five)
  have first: "\<exists>e. seq2seq_init utils_defines reinforce_reward attention G encoder_inputs
                input_length C finish = Inl e"
  proof (cases "multi_encoder (rnn G) encoder_inputs (encoder_configs G) input_length")
    case (Inl e)
    then show ?thesis by (simp add: seq2seq_init_def)
  next
    case (Inr r)
    show ?thesis
    proof (cases r)
      case None
      with Inr show ?thesis by (simp add: seq2seq_init_def unpack_two_def)
    next
      case (Some p)
      obtain a s where p: "p = (a, s)" by (cases p)
      show ?thesis
        using Inr Some p assms five [of a s]
        by (cases "build_decoder G input_length C a s")
           (simp_all add: seq2seq_init_def unpack_two_def)
    qed
  qed
  have second: "length returned = 5
              \<and> seq2seq_init utils_defines reinforce_reward attention G encoder_inputs
                    input_length C finish = Inl ValueError"
    if "utils_defines reinforce_reward"
      and "multi_encoder (rnn G) encoder_inputs (encoder_configs G) input_length
                = Inr (Some (attention_states, encoder_state))"
      and "build_decoder G input_length C attention_states encoder_state = Inr returned"
    for attention_states encoder_state returned
    using that assms five [of attention_states encoder_state]
    by (auto simp: seq2seq_init_def unpack_two_def build_decoder_def
             dest: attention_decoder_returns_five)
  from first second show ?thesis by blast
qed

lemma example_multi_encoder:
  "multi_encoder (rnn example_graph) [[[Token 3]]] (encoder_configs example_graph) [[2]]
     = Inr (Some ([[[[1, 2]]]], [[1, 2]]))"
  by (simp add: example_graph_def multi_encoder_def example_rnn_def example_encoder_def
        last_annotation_def concat_axis1_def Let_def upt_conv_Cons)

lemma example_build_decoder:
  "build_decoder example_graph [[2]] example_call [[[[1, 2]]]] [[1, 2]]
     = Inr [Proj_outputs [[[1, 0, 0]], [[0, 0, 1]]], None_value,
            Decoder_outputs [[2], [3]], Beam_tensors [0] [5] [0] [2], Samples [[1], [2]]]"
  by (simp add: build_decoder_def sample_attention_states_def example_graph_def
        attention_decoder_def example_net_def example_encoder_def example_call_def
        while_loop.simps time_step_def Let_def argmax_def)

theorem seq2seq_init_raises_witness:
  "seq2seq_init (\<lambda>name. True) ''sentence_bleu'' True example_graph [[[Token 3]]] [[2]]
       example_call Inr
     = Inl ValueError"
  using seq2seq_init_raises [of True "\<lambda>name. True" "''sentence_bleu''" example_graph
      "[[[Token 3]]]" "[[2]]" example_call Inr]
    example_multi_encoder example_build_decoder
  by blast


subsection \<open>Greedy decoding and teacher forcing\<close>

lemma time_step_vars:
  "fst (time_step N as C bs t v a) = fst (time_step N as C bs t v a0)"
  by (simp add: time_step_def Let_def)

lemma time_step_proj:
  "proj_outputs (snd (time_step N as C bs t v a)) = proj_outputs a @ [step_logits N as bs v]"
  by (simp add: time_step_def step_logits_def Let_def)

lemma while_loop_proj:
  assumes "time \<le> length (decoder_inputs C)"
    and "v = vars_at N as C bs v0 time"
    and "proj_outputs a = map (\<lambda>t. step_logits N as bs (vars_at N as C bs v0 t)) [0..<time]"
  shows "proj_outputs (snd (while_loop N as C bs time v a))
           = map (\<lambda>t. step_logits N as bs (vars_at N as C bs v0 t)) [0..<length (decoder_inputs C)]"
  using assms
proof (induction N as C bs time v a rule: while_loop.induct)
  case (1 N as C bs time v a)
  show ?case
  proof (cases "time < length (decoder_inputs C)")
    case False
    with "1.prems" show ?thesis
      by (simp add: while_loop.simps)
  next
    case True
    obtain v' a' where step: "time_step N as C bs time v a = (v', a')"
      by (cases "time_step N as C bs time v a")
    have v': "v' = vars_at N as C bs v0 (time + 1)"
      using step "1.prems"(2) time_step_vars [of N as C bs time v a]
      by simp
    have a': "proj_outputs a' = map (\<lambda>t. step_logits N as bs (vars_at N as C bs v0 t)) [0..<time + 1]"
      using step "1.prems"(2,3) time_step_proj [of N as C bs time v a]
      by simp
    have "proj_outputs (snd (while_loop N as C bs (time + 1) v' a'))
           = map (\<lambda>t. step_logits N as bs (vars_at N as C bs v0 t)) [0..<length (decoder_inputs C)]"
      using "1.IH" [OF True step [symmetric] _ v' a'] True by simp
    then show ?thesis
      using True step by (simp add: while_loop.simps [of N as C bs time])
  qed
qed


lemma time_step_greedy:
  assumes "feed_argmax C" and "feed_previous C = 1" and "random_uniform C t < 1"
    and "sequence_length C = Some len" and "\<forall>b < bs. int t < len ! b"
  shows "fst (time_step N as C bs t v a)
           = \<lparr> input' = map (embed N) (map argmax (step_logits N as bs v)),
               state' = map (\<lambda>b. snd (call_cell N
                                (embed N (argmax (step_logits N as bs v ! b)))
                                (fst (multi_attention N (as ! b) (state' v ! b) (prev_weights v ! b)))
                                (state' v ! b))) [0..<bs],
               output' = map (\<lambda>b. fst (call_cell N
                                (embed N (argmax (step_logits N as bs v ! b)))
                                (fst (multi_attention N (as ! b) (state' v ! b) (prev_weights v ! b)))
                                (state' v ! b))) [0..<bs],
               prev_weights = map (\<lambda>b. snd (multi_attention N (as ! b) (state' v ! b)
                                                (prev_weights v ! b))) [0..<bs] \<rparr>"
  using assms
  by (simp add: time_step_def step_logits_def Let_def comp_def not_le [symmetric] cong: map_cong)

lemma time_step_teacher:
  assumes "feed_previous C = 0" and "0 \<le> random_uniform C t"
    and "t + 1 < length (decoder_inputs C)"
    and "decoder_inputs C ! (t + 1) = map argmax (step_logits N as bs v)"
    and "sequence_length C = Some len" and "\<forall>b < bs. int t < len ! b"
  shows "fst (time_step N as C bs t v a)
           = \<lparr> input' = map (embed N) (map argmax (step_logits N as bs v)),
               state' = map (\<lambda>b. snd (call_cell N
                                (embed N (argmax (step_logits N as bs v ! b)))
                                (fst (multi_attention N (as ! b) (state' v ! b) (prev_weights v ! b)))
                                (state' v ! b))) [0..<bs],
               output' = map (\<lambda>b. fst (call_cell N
                                (embed N (argmax (step_logits N as bs v ! b)))
                                (fst (multi_attention N (as ! b) (state' v ! b) (prev_weights v ! b)))
                                (state' v ! b))) [0..<bs],
               prev_weights = map (\<lambda>b. snd (multi_attention N (as ! b) (state' v ! b)
                                                (prev_weights v ! b))) [0..<bs] \<rparr>"
  using assms
  by (simp add: time_step_def step_logits_def Let_def comp_def not_le [symmetric] cong: map_cong)

lemma vars_agree:
  assumes "feed_argmax Cg" and "feed_previous Cg = 1" and "\<forall>t. random_uniform Cg t < 1"
    and "feed_previous Ct = 0" and "\<forall>t. 0 \<le> random_uniform Ct t"
    and "length (decoder_inputs Ct) = T + 1"
    and "\<forall>t < T. decoder_inputs Ct ! (t + 1)
                    = map argmax (step_logits N as bs (vars_at N as Cg bs v0 t))"
    and "sequence_length Cg = Some lg" and "\<forall>b < bs. int T \<le> lg ! b"
    and "sequence_length Ct = Some lt" and "\<forall>b < bs. int T \<le> lt ! b"
  shows "t \<le> T \<Longrightarrow> vars_at N as Ct bs v0 t = vars_at N as Cg bs v0 t"
proof (induction t)
  case 0
  show ?case by simp
next
  case (Suc t)
  then have eq: "vars_at N as Ct bs v0 t = vars_at N as Cg bs v0 t" and t: "t < T"
    by simp_all
  have g: "\<forall>b < bs. int t < lg ! b" and tt: "\<forall>b < bs. int t < lt ! b"
    using assms(9,11) t by fastforce+
  have "fst (time_step N as Ct bs t (vars_at N as Cg bs v0 t)
               \<lparr> proj_outputs = [], decoder_outputs = [], samples = [], weights = [] \<rparr>)
        = fst (time_step N as Cg bs t (vars_at N as Cg bs v0 t)
               \<lparr> proj_outputs = [], decoder_outputs = [], samples = [], weights = [] \<rparr>)"
    unfolding time_step_greedy [OF assms(1,2) assms(3) [rule_format] assms(8) g]
    by (rule time_step_teacher [OF assms(4) assms(5) [rule_format] _ assms(7) [rule_format, OF t]
          assms(10) tt]) (use assms(6) t in simp)
  then show ?case
    by (simp add: eq)
qed


lemma attention_decoder_Inr_iff:
  "attention_decoder N decoder as is C = Inr returned \<longleftrightarrow>
     cell_size decoder mod 2 = 0 \<and> decoder_inputs C \<noteq> []
     \<and> (\<exists>v a. while_loop N as C (length (hd (decoder_inputs C))) 0
                  (initial_vars N as is (hd (decoder_inputs C)))
                  \<lparr> proj_outputs = [], decoder_outputs = [], samples = [], weights = [] \<rparr> = (v, a)
              \<and> returned = [Proj_outputs (proj_outputs a), None_value,
                             Decoder_outputs (decoder_outputs a),
                             Beam_tensors (state' (initial_vars N as is (hd (decoder_inputs C))))
                               (state' v)
                               (output' (initial_vars N as is (hd (decoder_inputs C))))
                               (output' v),
                             Samples (samples a)])"
  by (cases "decoder_inputs C")
     (auto simp: attention_decoder_def initial_vars_def Let_def split: prod.splits)

lemma attention_decoder_logits:
  assumes "attention_decoder N decoder as is C = Inr returned"
  shows "\<exists>others. returned = Proj_outputs (logits_of N as is C) # others"
proof -
  from assms obtain v a where
    loop: "while_loop N as C (length (hd (decoder_inputs C))) 0
                  (initial_vars N as is (hd (decoder_inputs C)))
                  \<lparr> proj_outputs = [], decoder_outputs = [], samples = [], weights = [] \<rparr> = (v, a)"
    and ret: "\<exists>others. returned = Proj_outputs (proj_outputs a) # others"
    by (auto simp: attention_decoder_Inr_iff)
  have "proj_outputs (snd (while_loop N as C (length (hd (decoder_inputs C))) 0
                  (initial_vars N as is (hd (decoder_inputs C)))
                  \<lparr> proj_outputs = [], decoder_outputs = [], samples = [], weights = [] \<rparr>))
          = logits_of N as is C"
    unfolding logits_of_def Let_def
    by (rule while_loop_proj) simp_all
  then show ?thesis
    using loop ret by simp
qed

lemma attention_decoder_succeeds:
  "cell_size decoder mod 2 = 0 \<Longrightarrow> decoder_inputs C \<noteq> [] \<Longrightarrow>
     \<exists>returned. attention_decoder N decoder as is C = Inr returned"
  unfolding attention_decoder_Inr_iff
  by (cases "while_loop N as C (length (hd (decoder_inputs C))) 0
                  (initial_vars N as is (hd (decoder_inputs C)))
                  \<lparr> proj_outputs = [], decoder_outputs = [], samples = [], weights = [] \<rparr>")
     auto

lemma run_outputs_Inr_iff:
  "run_outputs G ei il C = Inr outs \<longleftrightarrow>
     (\<exists>as es. multi_encoder (rnn G) ei (encoder_configs G) il = Inr (Some (as, es))
        \<and> cell_size (decoder_config G) mod 2 = 0 \<and> decoder_inputs C \<noteq> []
        \<and> outs = logits_of (net G) (map (sample_attention_states as il) [0..<length es])
                    (Some es) C)"
proof
  assume run: "run_outputs G ei il C = Inr outs"
  then obtain as es returned where
    enc: "multi_encoder (rnn G) ei (encoder_configs G) il = Inr (Some (as, es))"
    and dec: "attention_decoder (net G) (decoder_config G)
                (map (sample_attention_states as il) [0..<length es]) (Some es) C = Inr returned"
    and out: "(case returned of Proj_outputs outputs # _ \<Rightarrow> Inr outputs | _ \<Rightarrow> Inl TypeError)
                = Inr outs"
    by (auto simp: run_outputs_def then_do_Inr_iff unpack_two_def build_decoder_def
             split: option.splits)
  from attention_decoder_logits [OF dec] out
  have "outs = logits_of (net G) (map (sample_attention_states as il) [0..<length es]) (Some es) C"
    by auto
  moreover have "cell_size (decoder_config G) mod 2 = 0" "decoder_inputs C \<noteq> []"
    using dec by (simp_all add: attention_decoder_Inr_iff)
  ultimately show "\<exists>as es. multi_encoder (rnn G) ei (encoder_configs G) il = Inr (Some (as, es))
        \<and> cell_size (decoder_config G) mod 2 = 0 \<and> decoder_inputs C \<noteq> []
        \<and> outs = logits_of (net G) (map (sample_attention_states as il) [0..<length es])
                    (Some es) C"
    using enc by (intro exI [of _ as] exI [of _ es]) simp
next
  assume "\<exists>as es. multi_encoder (rnn G) ei (encoder_configs G) il = Inr (Some (as, es))
        \<and> cell_size (decoder_config G) mod 2 = 0 \<and> decoder_inputs C \<noteq> []
        \<and> outs = logits_of (net G) (map (sample_attention_states as il) [0..<length es])
                    (Some es) C"
  then obtain as es where
    enc: "multi_encoder (rnn G) ei (encoder_configs G) il = Inr (Some (as, es))"
    and ok: "cell_size (decoder_config G) mod 2 = 0" "decoder_inputs C \<noteq> []"
    and outs: "outs = logits_of (net G) (map (sample_attention_states as il) [0..<length es])
                    (Some es) C"
    by auto
  from attention_decoder_succeeds [OF ok] obtain returned where
    dec: "attention_decoder (net G) (decoder_config G)
                (map (sample_attention_states as il) [0..<length es]) (Some es) C = Inr returned"
    by blast
  from attention_decoder_logits [OF dec] outs enc dec
  show "run_outputs G ei il C = Inr outs"
    by (auto simp: run_outputs_def unpack_two_def build_decoder_def)
qed

lemma batch_max_input_len_single:
  "batch_max_input_len M [(src, trg)] = Inr m \<longleftrightarrow>
     encoder_count M \<le> length src + 1 \<and> m = map (source_len M src trg) [0..<encoder_count M]"
proof -
  define f where "f = (\<lambda>i. then_do (in_order (map (\<lambda>d. data_len d i) [(src, trg)])) py_max)"
  have f: "f i = (if i \<le> length src
                  then Inr (if i < length src then length (src ! i) else length trg)
                  else Inl IndexError)" for i
    by (simp add: f_def data_len_def)
  have *: "(in_order (map f [0..<n]) = Inr lens) \<longleftrightarrow>
             n \<le> length src + 1
             \<and> lens = map (\<lambda>i. if i < length src then length (src ! i) else length trg) [0..<n]"
    for n lens
  proof
    assume a: "in_order (map f [0..<n]) = Inr lens"
    from in_order_Inr_D [OF a] have len: "length lens = n"
      and each: "\<forall>i < n. f i = Inr (lens ! i)"
      by simp_all
    have "n \<le> length src + 1"
    proof (rule ccontr)
      assume "\<not> n \<le> length src + 1"
      then have "length src + 1 < n" by simp
      with each have "f (length src + 1) = Inr (lens ! (length src + 1))" by blast
      then show False by (simp add: f)
    qed
    moreover have "lens = map (\<lambda>i. if i < length src then length (src ! i) else length trg) [0..<n]"
    proof (rule nth_equalityI)
      show "length lens = length (map (\<lambda>i. if i < length src then length (src ! i) else length trg) [0..<n])"
        using len by simp
    next
      fix i assume "i < length lens"
      then have i: "i < n" using len by simp
      with each have "f i = Inr (lens ! i)" by blast
      then show "lens ! i = map (\<lambda>i. if i < length src then length (src ! i) else length trg) [0..<n] ! i"
        using i by (simp add: f split: if_splits)
    qed
    ultimately show "n \<le> length src + 1
             \<and> lens = map (\<lambda>i. if i < length src then length (src ! i) else length trg) [0..<n]"
      by blast
  next
    assume b: "n \<le> length src + 1
             \<and> lens = map (\<lambda>i. if i < length src then length (src ! i) else length trg) [0..<n]"
    have "in_order (map f [0..<n])
            = Inr (map (\<lambda>i. if i < length src then length (src ! i) else length trg) [0..<n])"
      using b by (intro in_order_map_Inr) (auto simp: f)
    then show "in_order (map f [0..<n]) = Inr lens"
      using b by simp
  qed
  show ?thesis
    unfolding batch_max_input_len_def f_def [symmetric]
    by (auto simp: then_do_Inr_iff * source_len_def Let_def split: option.splits)
qed

lemma sample_rows_single:
  "sample_rows U M (map (source_len M src trg) [0..<encoder_count M]) (src, trg)
     = sample_rows U M (map (source_len M src []) [0..<encoder_count M]) (src, [])"
proof -
  have "encoder_row U encoder (map (source_len M src trg) [0..<encoder_count M] ! i) s
          = encoder_row U encoder (map (source_len M src []) [0..<encoder_count M] ! i) s"
    if "(i, encoder, s) \<in> set (zip [0..<length (encoders M)] (zip (encoders M) src))"
    for i encoder s
  proof -
    from that have "i < length (encoders M)" "i < length src"
      by (auto simp: set_zip)
    then show ?thesis
      by (simp add: encoder_count_def source_len_def)
  qed
  then show ?thesis
    unfolding sample_rows_def by (auto intro!: map_cong)
qed

lemma transpose_single: "transpose [xs] = map (\<lambda>x. [x]) xs"
  by (induction xs) simp_all

lemma get_batch_single:
  "get_batch U P M [(src, trg)] dec = Inr b \<longleftrightarrow>
     encoder_count M \<le> length src + 1
     \<and> (\<exists>lens dl arrs.
          fst (encoder_side U P M src) = Inr lens
        \<and> to_int32 (int (snd (decoder_row U M (min (length trg) (max_output_len M)) dec trg)))
            = Inr dl
        \<and> snd (encoder_side U P M src) = Inr arrs
        \<and> b = (let row = decoder_row U M (min (length trg) (max_output_len M)) dec trg
               in \<lparr> batch_encoder_inputs = arrs,
                     batch_decoder_inputs = replace_pad U (map (\<lambda>x. [x]) (butlast (fst row))),
                     batch_targets = replace_pad U (map (\<lambda>x. [x]) (tl (fst row))),
                     batch_weights = map (map (\<lambda>x. if x \<noteq> - 1 then 1 else 0))
                                         (map (\<lambda>x. [x]) (tl (fst row))),
                     encoder_input_length = lens,
                     decoder_input_length = [dl] \<rparr>))"
proof (cases "encoder_count M \<le> length src + 1")
  case False
  then have "\<And>m. batch_max_input_len M [(src, trg)] \<noteq> Inr m"
    by (simp add: batch_max_input_len_single)
  then have "get_batch U P M [(src, trg)] dec \<noteq> Inr b"
    by (auto simp: get_batch_def then_do_Inr_iff)
  with False show ?thesis
    by simp
next
  case True
  then have max_in: "batch_max_input_len M [(src, trg)]
                  = Inr (map (source_len M src trg) [0..<encoder_count M])"
    by (simp add: batch_max_input_len_single)
  have out: "batch_max_output_len M [(src, trg)] = Inr (min (length trg) (max_output_len M))"
    by (simp add: batch_max_output_len_def)
  have rows: "map (sample_rows U M (map (source_len M src trg) [0..<encoder_count M])) [(src, trg)]
                = [sample_rows U M (map (source_len M src []) [0..<encoder_count M]) (src, [])]"
    by (simp add: sample_rows_single [of U M src trg])
  show ?thesis
    unfolding get_batch_def max_in out then_do.simps Let_def rows encoder_side_def
    using True by (auto simp: then_do_Inr_iff transpose_single)
qed

lemma argmax_nonneg: "0 \<le> argmax xs"
  by (simp add: argmax_def)

lemma greedy_token:
  assumes "then_do (in_order (map np_argmax logit))
             (\<lambda>tokens. case tokens of [token] \<Rightarrow> Inr token | _ \<Rightarrow> Inl TypeError) = Inr tok"
  shows "map argmax logit = [tok]"
proof -
  from assms obtain tokens where
    tokens: "in_order (map np_argmax logit) = Inr tokens"
    and tok: "(case tokens of [token] \<Rightarrow> Inr token | _ \<Rightarrow> Inl TypeError) = Inr tok"
    by (auto simp: then_do_Inr_iff)
  from tok have single: "tokens = [tok]"
    by (auto split: list.splits)
  from in_order_Inr_D [OF tokens] single have len: "length logit = 1"
    by simp
  then have "0 < length logit"
    by simp
  from in_order_map_nth [OF tokens this] single have first: "np_argmax (logit ! 0) = Inr tok"
    by simp
  from len obtain l where l: "logit = [l]"
    by (cases logit) auto
  from first l have "argmax l = tok"
    by (auto simp: np_argmax_def split: if_splits)
  then show ?thesis
    using l by simp
qed

lemma get_batch_single_decoder:
  assumes "get_batch U P M [(src, trg)] dec = Inr b"
  shows "batch_decoder_inputs b
           = map (\<lambda>x. [x]) (butlast (map (\<lambda>x. if x = - 1 then EOS_ID U else x)
                (fst (decoder_row U M (min (length trg) (max_output_len M)) dec trg))))"
    and "to_int32 (int (snd (decoder_row U M (min (length trg) (max_output_len M)) dec trg)))
           = Inr (hd (decoder_input_length b))"
    and "length (decoder_input_length b) = 1"
    and "fst (encoder_side U P M src) = Inr (encoder_input_length b)"
    and "snd (encoder_side U P M src) = Inr (batch_encoder_inputs b)"
    and "encoder_count M \<le> length src + 1"
  using assms
  by (auto simp: get_batch_single Let_def replace_pad_def map_butlast comp_def)

text \<open>
  Claim C6. If greedy decoding returns a hypothesis, then the teacher-forced pass on the
  same source with that hypothesis as the target returns, and its logits at every time
  step of the greedy run are the logits of the greedy run. (The teacher-forced pass has
  one step more, for the end marker.) The draws of \<open>tf.random_uniform\<close> lie in
  \<open>[0, 1)\<close>; the length placeholders and the decoder inputs are 32-bit integers, so the
  number of steps and the token ids are taken to fit them.
\<close>

theorem greedy_round_trip:
  assumes greedy: "greedy_decoding U P M G token_ids uniform draw = Inr hypothesis"
    and ug: "\<forall>t. uniform t < 1"
    and ut: "\<forall>t. 0 \<le> uniform' t"
    and steps: "int (max_output_len M) + 1 < 2 ^ 31"
    and ids: "\<forall>token \<in> set hypothesis. token < 2 ^ 31"
  shows "\<exists>outputs outputs'.
           decoding_outputs U P M G token_ids uniform draw = Inr outputs
         \<and> teacher_forced_outputs U P M G token_ids hypothesis uniform' draw' = Inr outputs'
         \<and> length outputs = max_output_len M
         \<and> length hypothesis = length outputs
         \<and> length outputs' = length outputs + 1
         \<and> take (length outputs) outputs' = outputs"
proof -
  define T where "T = max_output_len M"
  define bos where "bos = int32 (if BOS_ID U = - 1 then EOS_ID U else BOS_ID U)"
  define eos where "eos = int32 (EOS_ID U)"
  define Cg where "Cg = \<lparr> decoder_inputs = map (\<lambda>x. [x]) (butlast (bos # replicate T eos)),
           sequence_length = Some [int T], feed_previous = 1, feed_argmax = True,
           random_uniform = uniform, multinomial = draw \<rparr>"
  define Ct where "Ct = \<lparr> decoder_inputs = map (\<lambda>x. [x]) (bos # hypothesis),
           sequence_length = Some [int T + 1], feed_previous = 0, feed_argmax = True,
           random_uniform = uniform', multinomial = draw' \<rparr>"
  have T32: "to_int32 (int T) = Inr (int T)" and T32': "to_int32 (int T + 1) = Inr (int T + 1)"
    using steps by (simp_all add: T_def to_int32_id)
  from greedy obtain outputs where
    outs: "decoding_outputs U P M G token_ids uniform draw = Inr outputs"
    and toks: "in_order (map (\<lambda>logit. then_do (in_order (map np_argmax logit))
                                 (\<lambda>tokens. case tokens of
                                              [token] \<Rightarrow> Inr token
                                            | _ \<Rightarrow> Inl TypeError)) outputs) = Inr hypothesis"
    by (auto simp: greedy_decoding_def then_do_Inr_iff)
  from outs obtain bg where
    bg: "get_batch U P M [(token_ids, [])] True = Inr bg"
    and rung: "run_outputs G (batch_encoder_inputs bg) (encoder_input_length bg)
         \<lparr> decoder_inputs = map (map int32) (batch_decoder_inputs bg),
           sequence_length = Some (decoder_input_length bg),
           feed_previous = 1, feed_argmax = True,
           random_uniform = uniform, multinomial = draw \<rparr> = Inr outputs"
    by (auto simp: decoding_outputs_def then_do_Inr_iff)
  note side = get_batch_single_decoder [OF bg]
  have row_g: "decoder_row U M (min (length ([] :: int list)) (max_output_len M)) True []
                 = (BOS_ID U # replicate T (EOS_ID U), T)"
    by (simp add: decoder_row_def T_def)
  have bg_dec: "map (map int32) (batch_decoder_inputs bg) = decoder_inputs Cg"
    unfolding side(1) row_g
    by (simp add: Cg_def bos_def eos_def map_butlast comp_def)
  have "hd (decoder_input_length bg) = int T"
    using side(2) unfolding row_g by (simp add: T32)
  then have bg_len: "decoder_input_length bg = [int T]"
    using side(3) by (cases "decoder_input_length bg") simp_all
  have rung': "run_outputs G (batch_encoder_inputs bg) (encoder_input_length bg) Cg = Inr outputs"
    using rung by (simp add: bg_dec bg_len Cg_def)
  then obtain as es where
    enc: "multi_encoder (rnn G) (batch_encoder_inputs bg) (encoder_configs G)
            (encoder_input_length bg) = Inr (Some (as, es))"
    and even: "cell_size (decoder_config G) mod 2 = 0"
    and nonempty: "decoder_inputs Cg \<noteq> []"
    and outputs: "outputs = logits_of (net G)
                    (map (sample_attention_states as (encoder_input_length bg)) [0..<length es])
                    (Some es) Cg"
    by (auto simp: run_outputs_Inr_iff)
  define AS where "AS = map (sample_attention_states as (encoder_input_length bg)) [0..<length es]"
  have Tpos: "0 < T"
    using nonempty by (cases T) (simp_all add: Cg_def)
  have len_g: "length (decoder_inputs Cg) = T"
    using Tpos by (simp add: Cg_def)
  have hd_g: "hd (decoder_inputs Cg) = [bos]"
    using Tpos by (cases T) (simp_all add: Cg_def)
  have len_out: "length outputs = T"
    by (simp add: outputs logits_of_def Let_def len_g)
  have len_hyp: "length hypothesis = T"
    using in_order_Inr_D [OF toks] len_out by simp
  define v0 where "v0 = initial_vars (net G) AS (Some es) [bos]"
  have out_nth: "outputs ! t = step_logits (net G) AS 1 (vars_at (net G) AS Cg 1 v0 t)"
    if "t < T" for t
    using that by (simp add: outputs logits_of_def Let_def len_g hd_g AS_def v0_def)
  have hyp_nth: "map argmax (outputs ! t) = [hypothesis ! t]" if "t < T" for t
  proof -
    from in_order_map_nth [OF toks] that len_out
    have "then_do (in_order (map np_argmax (outputs ! t)))
             (\<lambda>tokens. case tokens of [token] \<Rightarrow> Inr token | _ \<Rightarrow> Inl TypeError)
            = Inr (hypothesis ! t)"
      by simp
    then show ?thesis
      by (rule greedy_token)
  qed
  have hyp_range: "0 \<le> hypothesis ! t \<and> hypothesis ! t < 2 ^ 31" if "t < T" for t
  proof -
    from hyp_nth [OF that] obtain l where "outputs ! t = [l]" and "hypothesis ! t = argmax l"
      by (cases "outputs ! t") auto
    then have "0 \<le> hypothesis ! t"
      using argmax_nonneg [of l] by simp
    moreover have "hypothesis ! t < 2 ^ 31"
      using ids that len_hyp by simp
    ultimately show ?thesis ..
  qed
  have clean: "\<forall>x \<in> set hypothesis. (x = - 1 \<longrightarrow> int32 (EOS_ID U) = - 1)
                                      \<and> (x \<noteq> - 1 \<longrightarrow> int32 x = x)"
  proof
    fix x assume "x \<in> set hypothesis"
    then obtain t where "t < T" "x = hypothesis ! t"
      using len_hyp by (auto simp: in_set_conv_nth)
    with hyp_range [of t] have "0 \<le> x" "x < 2 ^ 31"
      by simp_all
    then show "(x = - 1 \<longrightarrow> int32 (EOS_ID U) = - 1) \<and> (x \<noteq> - 1 \<longrightarrow> int32 x = x)"
      by (simp add: int32_id)
  qed
  define bt where "bt = (let row = decoder_row U M (min (length hypothesis) (max_output_len M))
                                     False hypothesis
               in \<lparr> batch_encoder_inputs = batch_encoder_inputs bg,
                     batch_decoder_inputs = replace_pad U (map (\<lambda>x. [x]) (butlast (fst row))),
                     batch_targets = replace_pad U (map (\<lambda>x. [x]) (tl (fst row))),
                     batch_weights = map (map (\<lambda>x. if x \<noteq> - 1 then 1 else 0))
                                         (map (\<lambda>x. [x]) (tl (fst row))),
                     encoder_input_length = encoder_input_length bg,
                     decoder_input_length = [int T + 1] \<rparr>)"
  have row: "decoder_row U M (min (length hypothesis) (max_output_len M)) False hypothesis
               = (BOS_ID U # hypothesis @ [EOS_ID U], T + 1)"
    using len_hyp by (simp add: decoder_row_def Let_def T_def)
  have bt: "get_batch U P M [(token_ids, hypothesis)] False = Inr bt"
    unfolding get_batch_single
  proof (intro conjI exI)
    show "encoder_count M \<le> length token_ids + 1"
      by (rule side(6))
    show "fst (encoder_side U P M token_ids) = Inr (encoder_input_length bg)"
      by (rule side(4))
    show "snd (encoder_side U P M token_ids) = Inr (batch_encoder_inputs bg)"
      by (rule side(5))
    show "to_int32 (int (snd (decoder_row U M (min (length hypothesis) (max_output_len M))
                               False hypothesis))) = Inr (int T + 1)"
      unfolding row using T32' by (simp add: add.commute)
    show "bt = (let row = decoder_row U M (min (length hypothesis) (max_output_len M))
                                     False hypothesis
               in \<lparr> batch_encoder_inputs = batch_encoder_inputs bg,
                     batch_decoder_inputs = replace_pad U (map (\<lambda>x. [x]) (butlast (fst row))),
                     batch_targets = replace_pad U (map (\<lambda>x. [x]) (tl (fst row))),
                     batch_weights = map (map (\<lambda>x. if x \<noteq> - 1 then 1 else 0))
                                         (map (\<lambda>x. [x]) (tl (fst row))),
                     encoder_input_length = encoder_input_length bg,
                     decoder_input_length = [int T + 1] \<rparr>)"
      by (rule bt_def)
  qed
  have bt_enc: "batch_encoder_inputs bt = batch_encoder_inputs bg"
               "encoder_input_length bt = encoder_input_length bg"
    and bt_len: "decoder_input_length bt = [int T + 1]"
    by (simp_all add: bt_def Let_def)
  have bt_dec: "map (map int32) (batch_decoder_inputs bt) = decoder_inputs Ct"
    using clean
    by (simp add: bt_def row Ct_def bos_def replace_pad_def butlast_append comp_def)
  have len_t: "length (decoder_inputs Ct) = T + 1"
    using len_hyp by (simp add: Ct_def)
  have hd_t: "hd (decoder_inputs Ct) = [bos]"
    by (simp add: Ct_def)
  have runt: "run_outputs G (batch_encoder_inputs bt) (encoder_input_length bt) Ct
                = Inr (logits_of (net G) AS (Some es) Ct)"
    unfolding run_outputs_Inr_iff bt_enc AS_def
    using enc even by (intro exI [of _ as] exI [of _ es]) (simp add: Ct_def)
  have teacher: "teacher_forced_outputs U P M G token_ids hypothesis uniform' draw'
                   = Inr (logits_of (net G) AS (Some es) Ct)"
    using runt by (simp add: teacher_forced_outputs_def bt bt_dec bt_len Ct_def)
  have inputs: "\<forall>t < T. decoder_inputs Ct ! (t + 1)
                    = map argmax (step_logits (net G) AS 1 (vars_at (net G) AS Cg 1 v0 t))"
  proof (intro allI impI)
    fix t assume t: "t < T"
    have "decoder_inputs Ct ! (t + 1) = [hypothesis ! t]"
      using t len_hyp by (simp add: Ct_def)
    also have "\<dots> = map argmax (outputs ! t)"
      using hyp_nth [OF t] by simp
    finally show "decoder_inputs Ct ! (t + 1)
                    = map argmax (step_logits (net G) AS 1 (vars_at (net G) AS Cg 1 v0 t))"
      using out_nth [OF t] by simp
  qed
  have agree: "vars_at (net G) AS Ct 1 v0 t = vars_at (net G) AS Cg 1 v0 t" if "t \<le> T" for t
  proof -
    have p: "feed_argmax Cg" "feed_previous Cg = 1" "\<forall>t. random_uniform Cg t < 1"
      "feed_previous Ct = 0" "\<forall>t. 0 \<le> random_uniform Ct t"
      "sequence_length Cg = Some [int T]" "\<forall>b < 1. int T \<le> [int T] ! b"
      "sequence_length Ct = Some [int T + 1]" "\<forall>b < 1. int T \<le> [int T + 1] ! b"
      using ug ut by (simp_all add: Cg_def Ct_def)
    show ?thesis
      by (rule vars_agree [OF p(1-5) len_t inputs p(6-9) that])
  qed
  have "take T (logits_of (net G) AS (Some es) Ct)
          = map (\<lambda>t. step_logits (net G) AS 1 (vars_at (net G) AS Ct 1 v0 t)) [0..<T]"
    by (simp add: logits_of_def Let_def len_t hd_t v0_def take_map)
  also have "\<dots> = map (\<lambda>t. step_logits (net G) AS 1 (vars_at (net G) AS Cg 1 v0 t)) [0..<T]"
    using agree by simp
  also have "\<dots> = outputs"
    by (simp add: outputs logits_of_def Let_def len_g hd_g AS_def v0_def)
  finally have take: "take (length outputs) (logits_of (net G) AS (Some es) Ct) = outputs"
    by (simp add: len_out)
  have "length (logits_of (net G) AS (Some es) Ct) = length outputs + 1"
    by (simp add: logits_of_def Let_def len_t len_out)
  with outs teacher take len_out len_hyp show ?thesis
    by (simp add: T_def)
qed

lemma example_greedy_batch:
  "get_batch example_utils example_numpy example_model [([[Token 3]], [])] True
     = Inr \<lparr>batch_encoder_inputs = [Int32_array [[3, 1]]],
            batch_decoder_inputs = [[2], [1]],
            batch_targets = [[1], [1]],
            batch_weights = [[1], [1]],
            encoder_input_length = [[2]],
            decoder_input_length = [2]\<rparr>"
  by (simp add: get_batch_defs Let_def to_int32_id example_utils_def example_numpy_def
        example_model_def example_encoder_def replicate_numeral_Cons)

lemma example_array_encoder:
  "multi_encoder (rnn example_array_graph) [Int32_array [[3, 1]]]
       (encoder_configs example_array_graph) [[2]]
     = Inr (Some ([[[[1, 2]]]], [[1, 2]]))"
  by (simp add: example_array_graph_def multi_encoder_def example_array_rnn_def
        example_encoder_def last_annotation_def concat_axis1_def Let_def)

lemma example_greedy_outputs:
  "decoding_outputs example_utils example_numpy example_model example_array_graph [[Token 3]]
       (\<lambda>t. 1 / 2) (\<lambda>t b logits. 0)
     = Inr [[[1, 0, 0]], [[0, 0, 1]]]"
proof -
  have two: "[0..<2] = [0, Suc 0]"
    by (simp add: upt_conv_Cons)
  have "run_outputs example_array_graph [Int32_array [[3, 1]]] [[2]]
          \<lparr>decoder_inputs = [[2], [1]], sequence_length = Some [2], feed_previous = 1,
           feed_argmax = True, random_uniform = (\<lambda>t. 1 / 2),
           multinomial = (\<lambda>t b logits. 0)\<rparr>
        = Inr [[[1, 0, 0]], [[0, 0, 1]]]"
    unfolding run_outputs_Inr_iff example_array_encoder
    by (simp add: example_array_graph_def example_encoder_def logits_of_def Let_def two
          step_logits_def initial_vars_def time_step_def sample_attention_states_def
          example_net_def argmax_def)
  then show ?thesis
    by (simp add: decoding_outputs_def example_greedy_batch int32_id)
qed

lemma example_greedy:
  "greedy_decoding example_utils example_numpy example_model example_array_graph [[Token 3]]
       (\<lambda>t. 1 / 2) (\<lambda>t b logits. 0) = Inr [0, 2]"
  by (simp add: greedy_decoding_def example_greedy_outputs np_argmax_def argmax_def)

theorem greedy_round_trip_witness:
  "greedy_decoding example_utils example_numpy example_model example_array_graph [[Token 3]]
       (\<lambda>t. 1 / 2) (\<lambda>t b logits. 0) = Inr [0, 2]
   \<and> (\<exists>outputs outputs'.
         decoding_outputs example_utils example_numpy example_model example_array_graph
           [[Token 3]] (\<lambda>t. 1 / 2) (\<lambda>t b logits. 0) = Inr outputs
       \<and> teacher_forced_outputs example_utils example_numpy example_model example_array_graph
           [[Token 3]] [0, 2] (\<lambda>t. 1 / 2) (\<lambda>t b logits. 0) = Inr outputs'
       \<and> outputs = [[[1, 0, 0]], [[0, 0, 1]]]
       \<and> length outputs' = 3
       \<and> take 2 outputs' = outputs)"
proof -
  have u: "\<forall>t :: nat. (1 / 2 :: real) < 1" and u': "\<forall>t :: nat. (0 :: real) \<le> 1 / 2"
    by simp_all
  have m: "max_output_len example_model = 2"
    by (simp add: example_model_def)
  have steps: "int (max_output_len example_model) + 1 < 2 ^ 31"
    by (simp add: m)
  have ids: "\<forall>token \<in> set [0, 2 :: int]. token < 2 ^ 31"
    by simp
  from greedy_round_trip [OF example_greedy u u' steps ids, of "\<lambda>t b logits. 0"]
  obtain outputs outputs' where
    run: "decoding_outputs example_utils example_numpy example_model example_array_graph
           [[Token 3]] (\<lambda>t. 1 / 2) (\<lambda>t b logits. 0) = Inr outputs"
    and again: "teacher_forced_outputs example_utils example_numpy example_model
           example_array_graph [[Token 3]] [0, 2] (\<lambda>t. 1 / 2) (\<lambda>t b logits. 0)
           = Inr outputs'"
    and len: "length outputs = max_output_len example_model"
    and len': "length outputs' = length outputs + 1"
    and same: "take (length outputs) outputs' = outputs"
    by blast
  from run have outputs: "outputs = [[[1, 0, 0]], [[0, 0, 1]]]"
    by (simp add: example_greedy_outputs)
  have "length outputs' = 3" and "take 2 outputs' = outputs"
    using len len' same by (simp_all add: m)
  with example_greedy run again outputs show ?thesis
    by blast
qed
end
